theory Spec2Isabelle
  imports Complex_Main "HOL-Library.AList" "HOL-Library.Sublist"
begin

section \<open>Python values\<close>

text \<open>
  The program works on the values that \<^verbatim>\<open>json\<close> produces: \<^verbatim>\<open>None\<close>,
  booleans, integers, floats, strings, lists and dictionaries with string keys; the
  primary adapter also stores one tuple. Dictionaries are association lists in
  insertion order, read with \<^const>\<open>map_of\<close>.

  A \<^verbatim>\<open>float\<close> is a finite number, \<^verbatim>\<open>nan\<close>, \<^verbatim>\<open>inf\<close> or \<^verbatim>\<open>-inf\<close>. The finite
  floats are modelled as exact rationals: the binary representation error of IEEE
  doubles, their overflow and the sign of zero are outside the model.
\<close>

datatype pyfloat = Finite rat | NaN | PosInf | NegInf

datatype pyval =
    PNone
  | PBool bool
  | PInt int
  | PFloat pyfloat
  | PStr string
  | PList "pyval list"
  | PTuple "pyval list"
  | PDict "(string \<times> pyval) list"

text \<open>Every \<^verbatim>\<open>raise\<close> of the interpreter that the modelled code can reach.\<close>

datatype error =
    KeyError
  | IndexError
  | TypeError
  | ValueError
  | NameError
  | AttributeError
  | ZeroDivisionError
  | OverflowError
  | UnboundLocalError
  | LibraryError

text \<open>Truth value testing: \<^verbatim>\<open>if x:\<close>.\<close>

fun py_truthy :: "pyval \<Rightarrow> bool" where
  "py_truthy PNone = False"
| "py_truthy (PBool b) = b"
| "py_truthy (PInt i) = (i \<noteq> 0)"
| "py_truthy (PFloat f) = (f \<noteq> Finite 0)"
| "py_truthy (PStr s) = (s \<noteq> [])"
| "py_truthy (PList xs) = (xs \<noteq> [])"
| "py_truthy (PTuple xs) = (xs \<noteq> [])"
| "py_truthy (PDict d) = (d \<noteq> [])"

text \<open>\<^verbatim>\<open>len(x)\<close>: a \<^verbatim>\<open>TypeError\<close> for a value without a length.\<close>

fun py_len :: "pyval \<Rightarrow> error + nat" where
  "py_len (PStr s) = Inr (length s)"
| "py_len (PList xs) = Inr (length xs)"
| "py_len (PTuple xs) = Inr (length xs)"
| "py_len (PDict d) = Inr (length d)"
| "py_len _ = Inl TypeError"

text \<open>
  \<^verbatim>\<open>xs[i]\<close> on a sequence: a negative index counts from the end, and an index
  outside \<open>-len \<dots> len-1\<close> raises \<^verbatim>\<open>IndexError\<close>.
\<close>

definition seq_index :: "'a list \<Rightarrow> int \<Rightarrow> error + 'a" where
  "seq_index xs i =
     (if 0 \<le> i \<and> i < int (length xs) then Inr (xs ! nat i)
      else if i < 0 \<and> - int (length xs) \<le> i then Inr (xs ! nat (int (length xs) + i))
      else Inl IndexError)"

text \<open>
  \<^verbatim>\<open>x[i]\<close> with an integer \<open>i\<close>. The dictionaries of this program have string keys
  only, so an integer subscript of a dictionary is a \<^verbatim>\<open>KeyError\<close>.
\<close>

fun py_getitem_int :: "pyval \<Rightarrow> int \<Rightarrow> error + pyval" where
  "py_getitem_int (PList xs) i = seq_index xs i"
| "py_getitem_int (PTuple xs) i = seq_index xs i"
| "py_getitem_int (PStr s) i =
     (case seq_index s i of Inl e \<Rightarrow> Inl e | Inr c \<Rightarrow> Inr (PStr [c]))"
| "py_getitem_int (PDict d) i = Inl KeyError"
| "py_getitem_int _ i = Inl TypeError"

text \<open>\<^verbatim>\<open>x[k]\<close> with a string \<open>k\<close>.\<close>

fun py_getitem_str :: "pyval \<Rightarrow> string \<Rightarrow> error + pyval" where
  "py_getitem_str (PDict d) k =
     (case map_of d k of None \<Rightarrow> Inl KeyError | Some v \<Rightarrow> Inr v)"
| "py_getitem_str _ k = Inl TypeError"

text \<open>
  \<^verbatim>\<open>k in x\<close> with a string \<open>k\<close>: key membership for a dictionary, element
  membership for a list or tuple, substring test for a string, \<^verbatim>\<open>TypeError\<close>
  otherwise.
\<close>

fun py_contains_str :: "pyval \<Rightarrow> string \<Rightarrow> error + bool" where
  "py_contains_str (PDict d) k = Inr (map_of d k \<noteq> None)"
| "py_contains_str (PList xs) k = Inr (PStr k \<in> set xs)"
| "py_contains_str (PTuple xs) k = Inr (PStr k \<in> set xs)"
| "py_contains_str (PStr s) k = Inr (sublist k s)"
| "py_contains_str _ k = Inl TypeError"

section \<open>DarkskyAPIFunctions.getKeyValue\<close>

datatype key = KInt int | KStr string

text \<open>
  The \<^verbatim>\<open>for key in key_list\<close> loop of \<^verbatim>\<open>getKeyValue\<close>. \<open>Inr None\<close> is the
  early \<^verbatim>\<open>return None\<close>, \<open>Inr (Some v)\<close> the element the loop ends on, \<open>Inl e\<close> an
  exception raised by \<^verbatim>\<open>len\<close>, \<^verbatim>\<open>in\<close> or the subscript.
\<close>

fun walk :: "pyval \<Rightarrow> key list \<Rightarrow> error + pyval option" where
  "walk d [] = Inr (Some d)"
| "walk d (KInt k # ks) =
     (case py_len d of
        Inl e \<Rightarrow> Inl e
      | Inr n \<Rightarrow>
          if k < int n
          then (case py_getitem_int d k of Inl e \<Rightarrow> Inl e | Inr v \<Rightarrow> walk v ks)
          else Inr None)"
| "walk d (KStr k # ks) =
     (case py_contains_str d k of
        Inl e \<Rightarrow> Inl e
      | Inr b \<Rightarrow>
          if b
          then (case py_getitem_str d k of Inl e \<Rightarrow> Inl e | Inr v \<Rightarrow> walk v ks)
          else Inr None)"

text \<open>
  The end of \<^verbatim>\<open>getKeyValue\<close>: \<^verbatim>\<open>if dictionary_element and func: return
  func(dictionary_element)\<close>, otherwise the element itself.
\<close>

definition apply_func :: "pyval \<Rightarrow> (pyval \<Rightarrow> error + pyval) option \<Rightarrow> error + pyval" where
  "apply_func v func =
     (if py_truthy v then (case func of Some f \<Rightarrow> f v | None \<Rightarrow> Inr v) else Inr v)"

definition getKeyValue ::
  "pyval \<Rightarrow> key list \<Rightarrow> (pyval \<Rightarrow> error + pyval) option \<Rightarrow> error + pyval" where
  "getKeyValue dictionary_element key_list func =
     (case walk dictionary_element key_list of
        Inl e \<Rightarrow> Inl e
      | Inr None \<Rightarrow> Inr PNone
      | Inr (Some v) \<Rightarrow> apply_func v func)"

text \<open>The length of an array-like container (list, tuple or string).\<close>

fun array_len :: "pyval \<Rightarrow> nat option" where
  "array_len (PList xs) = Some (length xs)"
| "array_len (PTuple xs) = Some (length xs)"
| "array_len (PStr s) = Some (length s)"
| "array_len _ = None"

section \<open>Operations on floats\<close>

text \<open>
  The comparisons and the arithmetic of floats on the special values: every
  comparison with \<^verbatim>\<open>nan\<close> is false, and \<^verbatim>\<open>nan\<close> propagates through the arithmetic.
\<close>

text \<open>\<^verbatim>\<open>a < b\<close>; \<^verbatim>\<open>a > b\<close> is \<open>fless b a\<close>.\<close>

fun fless :: "pyfloat \<Rightarrow> pyfloat \<Rightarrow> bool" where
  "fless (Finite a) (Finite b) = (a < b)"
| "fless NaN y = False"
| "fless x NaN = False"
| "fless NegInf NegInf = False"
| "fless NegInf y = True"
| "fless x NegInf = False"
| "fless PosInf y = False"
| "fless x PosInf = True"

text \<open>\<^verbatim>\<open>-a\<close>, \<^verbatim>\<open>a + b\<close>, \<^verbatim>\<open>a - b\<close> and \<^verbatim>\<open>a * b\<close>.\<close>

fun fneg :: "pyfloat \<Rightarrow> pyfloat" where
  "fneg (Finite a) = Finite (- a)"
| "fneg NaN = NaN"
| "fneg PosInf = NegInf"
| "fneg NegInf = PosInf"

fun fadd :: "pyfloat \<Rightarrow> pyfloat \<Rightarrow> pyfloat" where
  "fadd (Finite a) (Finite b) = Finite (a + b)"
| "fadd NaN y = NaN"
| "fadd x NaN = NaN"
| "fadd PosInf NegInf = NaN"
| "fadd NegInf PosInf = NaN"
| "fadd PosInf y = PosInf"
| "fadd NegInf y = NegInf"
| "fadd (Finite a) y = y"

definition fsub :: "pyfloat \<Rightarrow> pyfloat \<Rightarrow> pyfloat" where
  "fsub x y = fadd x (fneg y)"

fun fmul :: "pyfloat \<Rightarrow> pyfloat \<Rightarrow> pyfloat" where
  "fmul (Finite a) (Finite b) = Finite (a * b)"
| "fmul NaN y = NaN"
| "fmul x NaN = NaN"
| "fmul (Finite a) y = (if a = 0 then NaN else if 0 < a then y else fneg y)"
| "fmul x (Finite b) = (if b = 0 then NaN else if 0 < b then x else fneg x)"
| "fmul PosInf y = y"
| "fmul NegInf y = fneg y"

text \<open>\<^verbatim>\<open>a / d\<close> for a finite divisor \<open>d\<close> other than zero.\<close>

fun fdivc :: "pyfloat \<Rightarrow> rat \<Rightarrow> pyfloat" where
  "fdivc (Finite a) d = Finite (a / d)"
| "fdivc NaN d = NaN"
| "fdivc PosInf d = (if 0 < d then PosInf else NegInf)"
| "fdivc NegInf d = (if 0 < d then NegInf else PosInf)"

section \<open>darksky-api.forecast: the route handler\<close>

text \<open>
  A response is the body and the status code. A JSON body stands for
  \<^verbatim>\<open>json.dumps(output, indent=4)\<close> of the document it carries, a text body for the
  plain string returned with an error status. The response-time header and the log
  lines are not modelled.
\<close>

datatype body = Text string | Json pyval

record response =
  body :: body
  status :: nat

text \<open>The calls the handler makes to the two adapters, in order.\<close>

datatype call = NOAA_get pyfloat pyfloat | Climacell_get pyfloat pyfloat string pyval

text \<open>\<^verbatim>\<open>s.split(sep)\<close> for a one-character separator.\<close>

fun split_on :: "char \<Rightarrow> string \<Rightarrow> string list" where
  "split_on sep [] = [[]]"
| "split_on sep (x # xs) =
     (if x = sep then [] # split_on sep xs
      else (case split_on sep xs of w # ws \<Rightarrow> (x # w) # ws | [] \<Rightarrow> [[x]]))"

text \<open>
  Lines 59-75: parse and verify the coordinates. The built-in \<^verbatim>\<open>float\<close> is the
  parameter \<open>float_of\<close> (\<open>None\<close> when it raises); it accepts \<^verbatim>\<open>nan\<close> and \<^verbatim>\<open>inf\<close>
  as well as decimal numbers. The result is the text of the 400 response, or the two
  coordinates.
\<close>

definition parse_geolocation ::
  "(string \<Rightarrow> pyfloat option) \<Rightarrow> string \<Rightarrow> string + pyfloat \<times> pyfloat" where
  "parse_geolocation float_of geolocation =
     (let gsplit = split_on CHR '','' geolocation in
      if length gsplit \<noteq> 2 then Inl ''URL must include a valid latitude,longitude''
      else
        (case float_of (gsplit ! 0) of
           None \<Rightarrow> Inl ''URL must include a valid latitude,longitude''
         | Some latitude \<Rightarrow>
            (case float_of (gsplit ! 1) of
               None \<Rightarrow> Inl ''URL must include a valid latitude,longitude''
             | Some longitude \<Rightarrow>
                 if fless (Finite 65) latitude \<or> fless latitude (Finite 19)
                 then Inl ''URL must include a valid latitude,longitude for a location in the USA''
                 else if fless (Finite (- 67)) longitude \<or> fless longitude (Finite (- 162))
                 then Inl ''URL must include a valid latitude,longitude for a location in the USA''
                 else Inr (latitude, longitude))))"

text \<open>\<^verbatim>\<open>del d[k]\<close>.\<close>

fun py_delitem_str :: "pyval \<Rightarrow> string \<Rightarrow> error + pyval" where
  "py_delitem_str (PDict d) k =
     (if map_of d k = None then Inl KeyError else Inr (PDict (AList.delete k d)))"
| "py_delitem_str _ k = Inl TypeError"

text \<open>Lines 87-90: if there are no alerts in the output, remove the alerts key.\<close>

definition remove_empty_alerts :: "pyval \<Rightarrow> error + pyval" where
  "remove_empty_alerts output =
     (case py_contains_str output ''alerts'' of
        Inl e \<Rightarrow> Inl e
      | Inr present \<Rightarrow>
          if \<not> present then Inr output
          else
            (case py_getitem_str output ''alerts'' of
               Inl e \<Rightarrow> Inl e
             | Inr alerts \<Rightarrow>
                (case py_len alerts of
                   Inl e \<Rightarrow> Inl e
                 | Inr n \<Rightarrow> if n = 0 then py_delitem_str output ''alerts'' else Inr output)))"

text \<open>
  The handler. \<open>noaa\<close> and \<open>climacell\<close> are the two adapters' \<^verbatim>\<open>get\<close> functions,
  \<open>cached\<close> is the document in the file \<^verbatim>\<open>darksky-api.cached_output\<close> (\<open>None\<close> when
  the file does not exist). The result is the response, the file afterwards and the
  adapter calls made; \<open>Inl e\<close> is an exception that leaves the handler.
\<close>

definition forecast ::
  "(string \<Rightarrow> pyfloat option) \<Rightarrow> (pyfloat \<Rightarrow> pyfloat \<Rightarrow> error + pyval) \<Rightarrow>
   (pyfloat \<Rightarrow> pyfloat \<Rightarrow> string \<Rightarrow> pyval \<Rightarrow> error + pyval) \<Rightarrow>
   pyval option \<Rightarrow> string \<Rightarrow> string \<Rightarrow> error + response \<times> pyval option \<times> call list" where
  "forecast float_of noaa climacell cached apikey geolocation =
     (case parse_geolocation float_of geolocation of
        Inl message \<Rightarrow> Inr (\<lparr>body = Text message, status = 400\<rparr>, cached, [])
      | Inr (latitude, longitude) \<Rightarrow>
         (case noaa latitude longitude of
            Inl e \<Rightarrow> Inl e
          | Inr noaa_output \<Rightarrow>
             (case climacell latitude longitude apikey noaa_output of
                Inl e \<Rightarrow> Inl e
              | Inr output \<Rightarrow>
                 (let calls = [NOAA_get latitude longitude,
                               Climacell_get latitude longitude apikey noaa_output] in
                  if py_truthy output then
                    (case remove_empty_alerts output of
                       Inl e \<Rightarrow> Inl e
                     | Inr output' \<Rightarrow>
                         Inr (\<lparr>body = Json output', status = 200\<rparr>, Some output', calls))
                  else
                    (case cached of
                       Some snapshot \<Rightarrow>
                         Inr (\<lparr>body = Json snapshot, status = 200\<rparr>, cached, calls)
                     | None \<Rightarrow>
                         Inr (\<lparr>body = Text ''Failed to obtain any weather data.'',
                               status = 502\<rparr>, cached, calls))))))"

text \<open>
  A finite fragment of the built-in \<^verbatim>\<open>float\<close>, enough to run the handler on
  concrete requests: the strings below with their values, \<open>None\<close>
  (\<^verbatim>\<open>ValueError\<close>) for \<^verbatim>\<open>abc\<close> and for anything else.
\<close>

definition float_fragment :: "string \<Rightarrow> pyfloat option" where
  "float_fragment s =
     map_of [(''18.99'', Finite (1899 / 100)), (''19'', Finite 19), (''40'', Finite 40),
             (''65'', Finite 65), (''-100'', Finite (- 100)), (''-162'', Finite (- 162)),
             (''-162.01'', Finite (- 16201 / 100)), (''-67'', Finite (- 67)),
             (''nan'', NaN), (''inf'', PosInf), (''-inf'', NegInf)] s"

section \<open>Numbers, sequencing and dictionary updates\<close>

text \<open>
  Python numbers: an \<^verbatim>\<open>int\<close> or a \<^verbatim>\<open>float\<close>; a \<^verbatim>\<open>bool\<close> counts as the integer
  0 or 1 in arithmetic. Anything else in an arithmetic expression of this program is
  a \<^verbatim>\<open>TypeError\<close>.
\<close>

datatype num = NI int | NF pyfloat

fun as_num :: "pyval \<Rightarrow> error + num" where
  "as_num (PInt i) = Inr (NI i)"
| "as_num (PFloat f) = Inr (NF f)"
| "as_num (PBool b) = Inr (NI (if b then 1 else 0))"
| "as_num _ = Inl TypeError"

fun of_num :: "num \<Rightarrow> pyval" where
  "of_num (NI i) = PInt i"
| "of_num (NF f) = PFloat f"

text \<open>The value of a number as a float, as the mixed arithmetic converts it.\<close>

fun num_val :: "num \<Rightarrow> pyfloat" where
  "num_val (NI i) = Finite (of_int i)"
| "num_val (NF f) = f"

text \<open>
  \<^verbatim>\<open>a + b\<close>, \<^verbatim>\<open>a - b\<close> and \<^verbatim>\<open>a * b\<close>: an integer for two integers, a float
  otherwise.
\<close>

fun num_add :: "num \<Rightarrow> num \<Rightarrow> num" where
  "num_add (NI a) (NI b) = NI (a + b)"
| "num_add a b = NF (fadd (num_val a) (num_val b))"

fun num_sub :: "num \<Rightarrow> num \<Rightarrow> num" where
  "num_sub (NI a) (NI b) = NI (a - b)"
| "num_sub a b = NF (fsub (num_val a) (num_val b))"

fun num_mul :: "num \<Rightarrow> num \<Rightarrow> num" where
  "num_mul (NI a) (NI b) = NI (a * b)"
| "num_mul a b = NF (fmul (num_val a) (num_val b))"

text \<open>\<^verbatim>\<open>a < b\<close> and \<^verbatim>\<open>a == b\<close> on numbers compare the values.\<close>

definition num_less :: "num \<Rightarrow> num \<Rightarrow> bool" where
  "num_less a b = fless (num_val a) (num_val b)"

text \<open>
  \<^verbatim>\<open>x == n\<close> for an integer \<open>n\<close>: true for a number of the same value, false for
  every other value (no exception).
\<close>

definition py_eq_int :: "pyval \<Rightarrow> int \<Rightarrow> bool" where
  "py_eq_int x n = (case as_num x of Inl e \<Rightarrow> False | Inr a \<Rightarrow> num_val a = Finite (of_int n))"

text \<open>Rounding to the nearest integer, ties to the even one, as \<^verbatim>\<open>round\<close> does.\<close>

definition round_half_even :: "rat \<Rightarrow> int" where
  "round_half_even r =
     (if r - of_int \<lfloor>r\<rfloor> < 1 / 2 then \<lfloor>r\<rfloor>
      else if 1 / 2 < r - of_int \<lfloor>r\<rfloor> then \<lfloor>r\<rfloor> + 1
      else if even \<lfloor>r\<rfloor> then \<lfloor>r\<rfloor> else \<lfloor>r\<rfloor> + 1)"

text \<open>
  \<^verbatim>\<open>round(x)\<close> of a float: an integer, \<^verbatim>\<open>ValueError\<close> for \<^verbatim>\<open>nan\<close> and
  \<^verbatim>\<open>OverflowError\<close> for an infinity.
\<close>

fun fround :: "pyfloat \<Rightarrow> error + int" where
  "fround (Finite r) = Inr (round_half_even r)"
| "fround NaN = Inl ValueError"
| "fround x = Inl OverflowError"

text \<open>
  \<^verbatim>\<open>round(x, 2)\<close> of a finite float: the nearest multiple of 1/100 of the exact
  value, a tie going to the even one. A decimal that is a tie as a rational is in
  general not one as a binary double, and Python rounds the double: such inputs are
  outside the model.
\<close>

definition round2 :: "rat \<Rightarrow> rat" where
  "round2 r = of_int (round_half_even (r * 100)) / 100"

text \<open>\<^verbatim>\<open>round(x, 2)\<close> of a float: \<^verbatim>\<open>nan\<close> and the infinities are returned as they are.\<close>

fun fround2 :: "pyfloat \<Rightarrow> pyfloat" where
  "fround2 (Finite r) = Finite (round2 r)"
| "fround2 x = x"

text \<open>\<^verbatim>\<open>round(x, 2)\<close>: an integer stays an integer.\<close>

fun py_round2 :: "num \<Rightarrow> num" where
  "py_round2 (NI i) = NI i"
| "py_round2 (NF f) = NF (fround2 f)"

text \<open>\<^verbatim>\<open>int(x)\<close> of a finite float truncates towards zero.\<close>

definition py_int :: "rat \<Rightarrow> int" where
  "py_int r = (if 0 \<le> r then \<lfloor>r\<rfloor> else \<lceil>r\<rceil>)"

text \<open>Sequencing of computations that may raise.\<close>

definition ebind :: "error + 'a \<Rightarrow> ('a \<Rightarrow> error + 'b) \<Rightarrow> error + 'b" where
  "ebind m f = (case m of Inl e \<Rightarrow> Inl e | Inr v \<Rightarrow> f v)"

text \<open>\<^verbatim>\<open>[f(x) for x in xs]\<close>, stopping at the first exception.\<close>

fun emap :: "('a \<Rightarrow> error + 'b) \<Rightarrow> 'a list \<Rightarrow> error + 'b list" where
  "emap f [] = Inr []"
| "emap f (x # xs) = ebind (f x) (\<lambda>y. ebind (emap f xs) (\<lambda>ys. Inr (y # ys)))"

text \<open>
  A dictionary display \<^verbatim>\<open>{k1: e1, k2: e2, \<dots>}\<close>: the entries are evaluated in
  order and the first exception leaves the display.
\<close>

fun build_dict :: "(string \<times> (error + pyval)) list \<Rightarrow> error + pyval" where
  "build_dict [] = Inr (PDict [])"
| "build_dict ((k, r) # rest) =
     ebind r (\<lambda>v. ebind (build_dict rest)
       (\<lambda>d. case d of PDict kvs \<Rightarrow> Inr (PDict ((k, v) # kvs)) | _ \<Rightarrow> Inl TypeError))"

text \<open>\<^verbatim>\<open>d[k] = v\<close> with a string \<open>k\<close>.\<close>

fun py_setitem_str :: "pyval \<Rightarrow> string \<Rightarrow> pyval \<Rightarrow> error + pyval" where
  "py_setitem_str (PDict d) k v = Inr (PDict (AList.update k v d))"
| "py_setitem_str _ k v = Inl TypeError"

text \<open>\<^verbatim>\<open>d[k1][k2] = v\<close>: the subscript \<^verbatim>\<open>d[k1]\<close> is read, then assigned into.\<close>

definition py_setitem2 :: "pyval \<Rightarrow> string \<Rightarrow> string \<Rightarrow> pyval \<Rightarrow> error + pyval" where
  "py_setitem2 d k1 k2 v =
     ebind (py_getitem_str d k1) (\<lambda>inner.
     ebind (py_setitem_str inner k2 v) (\<lambda>inner'.
     py_setitem_str d k1 inner'))"

text \<open>\<^verbatim>\<open>xs[i] = v\<close> with a non-negative index \<open>i\<close>: lists only.\<close>

fun py_setitem_nat :: "pyval \<Rightarrow> nat \<Rightarrow> pyval \<Rightarrow> error + pyval" where
  "py_setitem_nat (PList xs) i v =
     (if i < length xs then Inr (PList (xs[i := v])) else Inl IndexError)"
| "py_setitem_nat _ i v = Inl TypeError"

text \<open>\<^verbatim>\<open>for x in v\<close>: the elements iterated over.\<close>

fun py_iter :: "pyval \<Rightarrow> error + pyval list" where
  "py_iter (PList xs) = Inr xs"
| "py_iter (PTuple xs) = Inr xs"
| "py_iter (PDict d) = Inr (map (\<lambda>kv. PStr (fst kv)) d)"
| "py_iter (PStr s) = Inr (map (\<lambda>c. PStr [c]) s)"
| "py_iter _ = Inl TypeError"

text \<open>\<^verbatim>\<open>d[k1][k2]\<close>.\<close>

definition py_getitem2 :: "pyval \<Rightarrow> string \<Rightarrow> string \<Rightarrow> error + pyval" where
  "py_getitem2 d k1 k2 = ebind (py_getitem_str d k1) (\<lambda>inner. py_getitem_str inner k2)"

section \<open>The icon and condition mappers\<close>

text \<open>
  What a mapper writes besides its result: a line of the application log
  (\<^verbatim>\<open>flask_app.logger.warning\<close>) or of standard output (\<^verbatim>\<open>print\<close>). The text is the
  message before the formatted argument.
\<close>

datatype log = Warning string | Printed string

subsection \<open>NOAAWeatherAPI: mapIcons\<close>

definition noaa_icon_list :: "(string \<times> string) list" where
  "noaa_icon_list =
    [(''land/day/bkn'', ''partly-cloudy-day''),
     (''land/day/bkn/rain_showers'', ''rain''),
     (''land/day/bkn/snow'', ''snow''),
     (''land/day/few'', ''clear-day''),
     (''land/day/fog'', ''fog''),
     (''land/day/fog/wind_sct'', ''fog''),
     (''land/day/ovc'', ''cloudy''),
     (''land/day/rain'', ''rain''),
     (''land/day/rain/sct'', ''rain''),
     (''land/day/rain_showers'', ''rain''),
     (''land/day/sct'', ''partly-cloudy-day''),
     (''land/day/sct/rain'', ''rain''),
     (''land/day/sct/rain_showers'', ''rain''),
     (''land/day/sct/snow'', ''snow''),
     (''land/day/skc'', ''partly-cloudy-day''),
     (''land/day/snow'', ''snow''),
     (''land/day/snow/bkn'', ''snow''),
     (''land/day/snow/snow'', ''snow''),
     (''land/day/tsra'', ''rain''),
     (''land/day/wind_bkn'', ''wind''),
     (''land/day/wind_few'', ''wind''),
     (''land/day/wind_ovc'', ''wind''),
     (''land/day/wind_sct'', ''wind''),
     (''land/night/bkn'', ''partly-cloudy-night''),
     (''land/night/bkn/rain_showers'', ''rain''),
     (''land/night/bkn/snow'', ''snow''),
     (''land/night/few'', ''clear-night''),
     (''land/night/fog'', ''fog''),
     (''land/night/fog/wind_sct'', ''fog''),
     (''land/night/ovc'', ''cloudy''),
     (''land/night/rain'', ''rain''),
     (''land/night/rain/sct'', ''rain''),
     (''land/night/rain_showers'', ''rain''),
     (''land/night/sct'', ''partly-cloudy-night''),
     (''land/night/sct/rain'', ''rain''),
     (''land/night/sct/rain_showers'', ''rain''),
     (''land/night/sct/snow'', ''snow''),
     (''land/night/skc'', ''partly-cloudy-night''),
     (''land/night/snow/snow'', ''snow''),
     (''land/night/snow'', ''snow''),
     (''land/night/snow/bkn'', ''snow''),
     (''land/night/tsra'', ''rain''),
     (''land/night/wind_bkn'', ''wind''),
     (''land/night/wind_few'', ''wind''),
     (''land/night/wind_ovc'', ''wind''),
     (''land/night/wind_sct'', ''wind'')]"

text \<open>
  The rest of a lazy match \<^verbatim>\<open>.+?(?=c)\<close> after its first character: the characters
  up to the first \<open>c\<close>, none of them a newline (which \<^verbatim>\<open>.\<close> does not match).
\<close>

fun upto_delim :: "char \<Rightarrow> string \<Rightarrow> string option" where
  "upto_delim c [] = None"
| "upto_delim c (y # ys) =
     (if y = c then Some []
      else if y = CHR 0x0A then None
      else map_option ((#) y) (upto_delim c ys))"

text \<open>The match of \<^verbatim>\<open>.+?(?=c)\<close> at the start of a string: at least one character.\<close>

fun lazy_until :: "char \<Rightarrow> string \<Rightarrow> string option" where
  "lazy_until c [] = None"
| "lazy_until c (x # xs) =
     (if x = CHR 0x0A then None else map_option ((#) x) (upto_delim c xs))"

text \<open>
  \<^verbatim>\<open>re.search('(?<=icons/).+?(?=c)', s)\<close>: the match at the leftmost position that
  is preceded by \<^verbatim>\<open>icons/\<close> and admits one.
\<close>

fun search_icons :: "char \<Rightarrow> string \<Rightarrow> string option" where
  "search_icons c [] = None"
| "search_icons c (x # xs) =
     (if take 6 (x # xs) = ''icons/''
      then (case lazy_until c (drop 6 (x # xs)) of
              Some m \<Rightarrow> Some m
            | None \<Rightarrow> search_icons c xs)
      else search_icons c xs)"

text \<open>
  Lines 98-115. The pattern with a comma is tried first, the one with a question mark
  second. \<open>flask_app\<close> tells whether an application object was passed. A value that
  is not a string makes \<^verbatim>\<open>re.search\<close> raise \<^verbatim>\<open>TypeError\<close>.
\<close>

definition noaa_mapIcons :: "pyval \<Rightarrow> bool \<Rightarrow> error + pyval \<times> log list" where
  "noaa_mapIcons icon flask_app =
     (case icon of
        PStr s \<Rightarrow>
          (let noaa_icon = (case search_icons CHR '','' s of
                              Some m \<Rightarrow> Some m
                            | None \<Rightarrow> search_icons CHR ''?'' s)
           in case noaa_icon of
                Some token \<Rightarrow>
                  (case map_of noaa_icon_list token of
                     Some name \<Rightarrow> Inr (PStr name, [])
                   | None \<Rightarrow>
                       Inr (PStr [],
                         (if flask_app
                          then [Warning ''Parsed icon sucessfully but can't find it in the list: '']
                          else []) @
                         [Printed ''Parsed icon sucessfully but can't find it in the list: '']))
              | None \<Rightarrow>
                  Inr (PStr [],
                    (if flask_app then [Warning ''Unable to parse icon URL: ''] else []) @
                    [Printed ''Unable to parse the icon URL: '']))
      | _ \<Rightarrow> Inl TypeError)"

text \<open>The mapper as the adapter uses it: called with the application object.\<close>

definition noaa_icon_of :: "pyval \<Rightarrow> error + pyval" where
  "noaa_icon_of x = ebind (noaa_mapIcons x True) (\<lambda>r. Inr (fst r))"

subsection \<open>ClimacellWeatherAPI: mapIcons and mapClimacellWeatherCode\<close>

definition climacell_icon_list :: "(string \<times> string) list" where
  "climacell_icon_list =
    [(''freezing_rain_heavy'', ''sleet''),
     (''freezing_rain'', ''sleet''),
     (''freezing_rain_light'', ''sleet''),
     (''freezing_drizzle'', ''sleet''),
     (''ice_pellets_heavy'', ''sleet''),
     (''ice_pellets'', ''sleet''),
     (''ice_pellets_light'', ''sleet''),
     (''snow_heavy'', ''snow''),
     (''snow'', ''snow''),
     (''snow_light'', ''snow''),
     (''flurries'', ''snow''),
     (''tstorm'', ''rain''),
     (''rain_heavy'', ''rain''),
     (''rain'', ''rain''),
     (''rain_light'', ''rain''),
     (''drizzle'', ''rain''),
     (''fog_light'', ''fog''),
     (''fog'', ''fog''),
     (''cloudy'', ''cloudy''),
     (''mostly_cloudy'', ''cloudy''),
     (''partly_cloudy'', ''partly-cloudy-day''),
     (''mostly_clear'', ''clear-day''),
     (''clear'', ''clear-day'')]"

definition weather_codes :: "(string \<times> string) list" where
  "weather_codes =
    [(''freezing_rain_heavy'', ''Heavt Freezing Rain''),
     (''freezing_rain'', ''Freezing Rain''),
     (''freezing_rain_light'', ''Light Freezing Rain''),
     (''freezing_drizzle'', ''Freezing Drizzle''),
     (''ice_pellets_heavy'', ''Heavy Sleet''),
     (''ice_pellets'', ''Sleet''),
     (''ice_pellets_light'', ''Light Sleet''),
     (''snow_heavy'', ''Heavy Snow''),
     (''snow'', ''Snow''),
     (''snow_light'', ''Light Snow''),
     (''flurries'', ''Snow Flurries''),
     (''tstorm'', ''Thundestorms''),
     (''rain_heavy'', ''Heavy Rain''),
     (''rain'', ''Rain''),
     (''rain_light'', ''Light Rain''),
     (''drizzle'', ''Drizzle''),
     (''fog_light'', ''Light Fog''),
     (''fog'', ''Fog''),
     (''cloudy'', ''Cloudy''),
     (''mostly_cloudy'', ''Mostly Cloudy''),
     (''partly_cloudy'', ''Partly Cloudy''),
     (''mostly_clear'', ''Mostly Clear''),
     (''clear'', ''Clear'')]"

text \<open>A value can be looked up in a dictionary only if it is hashable.\<close>

fun py_hashable :: "pyval \<Rightarrow> bool" where
  "py_hashable (PList xs) = False"
| "py_hashable (PDict d) = False"
| "py_hashable (PTuple xs) = list_all py_hashable xs"
| "py_hashable _ = True"

text \<open>
  Lines 76-83 of the Climacell module. A label of the table is mapped. For any other
  label the \<^verbatim>\<open>else\<close> branch formats its message from \<^verbatim>\<open>noaa_icon\<close>, a name that
  is bound nowhere in this module: with an application object the
  \<^verbatim>\<open>logger.warning\<close> line raises \<^verbatim>\<open>NameError\<close>, without one the \<^verbatim>\<open>print\<close> line
  does. The final \<^verbatim>\<open>return ''\<close> is never reached.
\<close>

definition cc_mapIcons :: "pyval \<Rightarrow> bool \<Rightarrow> error + pyval \<times> log list" where
  "cc_mapIcons icon flask_app =
     (if \<not> py_hashable icon then Inl TypeError
      else
        (case (case icon of PStr s \<Rightarrow> map_of climacell_icon_list s | _ \<Rightarrow> None) of
           Some name \<Rightarrow> Inr (PStr name, [])
         | None \<Rightarrow> Inl NameError))"

definition cc_icon_of :: "pyval \<Rightarrow> error + pyval" where
  "cc_icon_of x = ebind (cc_mapIcons x True) (\<lambda>r. Inr (fst r))"

text \<open>
  Lines 119-125 of the Climacell module. A falsy code gives the empty string. For a
  code outside the table the \<^verbatim>\<open>else\<close> branch calls \<^verbatim>\<open>flask_app.logger.warning\<close>,
  and \<^verbatim>\<open>flask_app\<close> is neither a parameter of this function nor a global of the
  module: \<^verbatim>\<open>NameError\<close>.
\<close>

definition mapClimacellWeatherCode :: "pyval \<Rightarrow> error + pyval" where
  "mapClimacellWeatherCode code =
     (if py_truthy code then
        (if \<not> py_hashable code then Inl TypeError
         else
           (case (case code of PStr s \<Rightarrow> map_of weather_codes s | _ \<Rightarrow> None) of
              Some text \<Rightarrow> Inr (PStr text)
            | None \<Rightarrow> Inl NameError))
      else Inr (PStr []))"

section \<open>Library functions the adapters call\<close>

text \<open>
  The functions of \<^verbatim>\<open>isodate\<close>, \<^verbatim>\<open>datetime\<close>, \<^verbatim>\<open>astral\<close>, \<^verbatim>\<open>pytz\<close>,
  \<^verbatim>\<open>timezonefinder\<close> and \<^verbatim>\<open>geopy\<close>, two string functions and the clock readings
  are parameters of the model. A function with an optional result returns \<open>None\<close>
  where the library raises.
\<close>

record library =
  parse_datetime :: "string \<Rightarrow> rat option"
    \<comment> \<open>\<^verbatim>\<open>isodate.parse_datetime(s).timestamp()\<close>\<close>
  plus_duration :: "string \<Rightarrow> string \<Rightarrow> rat option"
    \<comment> \<open>\<^verbatim>\<open>(isodate.parse_datetime(s) + isodate.parse_duration(d)).timestamp()\<close>\<close>
  strptime_epoch :: "string \<Rightarrow> int option"
    \<comment> \<open>\<^verbatim>\<open>int(strptime(s, '%Y-%m-%dT%H:%M:%S.%fZ') \<dots> .timestamp())\<close>\<close>
  strptime_daily :: "string \<Rightarrow> int option"
    \<comment> \<open>\<^verbatim>\<open>int(combine(strptime(s, '%Y-%m-%d'), time()).timestamp())\<close>\<close>
  capitalize :: "string \<Rightarrow> string"
    \<comment> \<open>\<^verbatim>\<open>str.capitalize\<close>\<close>
  collapse_space :: "string \<Rightarrow> string"
    \<comment> \<open>\<^verbatim>\<open>re.sub(r'\s+', ' ', x)\<close>\<close>
  moon_phase :: "rat \<Rightarrow> rat"
    \<comment> \<open>\<^verbatim>\<open>moon.phase(datetime.utcfromtimestamp(t))\<close>\<close>
  timezone_at :: "pyfloat \<Rightarrow> pyfloat \<Rightarrow> pyval option"
    \<comment> \<open>\<^verbatim>\<open>TimezoneFinder().timezone_at\<close>: a name or \<^verbatim>\<open>None\<close>, for coordinates it accepts\<close>
  utc_offset_hours :: "pyval \<Rightarrow> rat option"
    \<comment> \<open>\<^verbatim>\<open>datetime.now(pytz.timezone(tz)).utcoffset().total_seconds() / 3600\<close>\<close>
  great_circle_miles :: "pyfloat \<Rightarrow> pyfloat \<Rightarrow> pyval \<Rightarrow> pyval \<Rightarrow> pyfloat option"
    \<comment> \<open>\<^verbatim>\<open>great_circle((lat, lon), (a, b)).miles\<close>\<close>
  now_at_alert :: "nat \<Rightarrow> rat"
    \<comment> \<open>\<^verbatim>\<open>datetime.datetime.now().timestamp()\<close> as read when the \<open>i\<close>-th alert is examined\<close>
  hour_start :: int
    \<comment> \<open>the timestamp of today at the current hour\<close>
  utc_midnight :: int
    \<comment> \<open>the timestamp of today at 00:00 UTC\<close>

section \<open>DarkskyAPIFunctions.parseInterval\<close>

text \<open>
  The result is the dictionary with \<^verbatim>\<open>start\<close> and, when the string has a duration
  after a slash, \<^verbatim>\<open>end\<close>. A value without a \<^verbatim>\<open>split\<close> method raises
  \<^verbatim>\<open>AttributeError\<close>, a malformed string \<^verbatim>\<open>ValueError\<close> (\<^verbatim>\<open>ISO8601Error\<close>).
\<close>

definition parseInterval :: "library \<Rightarrow> pyval \<Rightarrow> error + pyval" where
  "parseInterval lib time_str =
     (case time_str of
        PStr s \<Rightarrow>
          (let split_time_str = split_on CHR ''/'' s in
           case parse_datetime lib (split_time_str ! 0) of
             None \<Rightarrow> Inl ValueError
           | Some start \<Rightarrow>
               if length split_time_str = 2
               then (case plus_duration lib (split_time_str ! 0) (split_time_str ! 1) of
                       None \<Rightarrow> Inl ValueError
                     | Some end \<Rightarrow>
                         Inr (PDict [(''start'', PInt (py_int start)),
                                     (''end'', PInt (py_int end))]))
               else Inr (PDict [(''start'', PInt (py_int start))]))
      | _ \<Rightarrow> Inl AttributeError)"

text \<open>\<^verbatim>\<open>lambda x: functions.parseInterval(x)['start']\<close>.\<close>

definition interval_start :: "library \<Rightarrow> pyval \<Rightarrow> error + pyval" where
  "interval_start lib x = ebind (parseInterval lib x) (\<lambda>interval. py_getitem_str interval ''start'')"

section \<open>NOAAWeatherAPI.get: the unit conversions and the current conditions\<close>

text \<open>\<^verbatim>\<open>lambda x: round((x * 9 / 5) + 32, 2)\<close>.\<close>

definition celsius_to_fahrenheit :: "pyval \<Rightarrow> error + pyval" where
  "celsius_to_fahrenheit x =
     ebind (as_num x) (\<lambda>c.
       Inr (PFloat (fround2 (fadd (fdivc (num_val (num_mul c (NI 9))) 5) (Finite 32)))))"

text \<open>\<^verbatim>\<open>lambda x: round(x * 2.23694, 2)\<close>.\<close>

definition mps_to_mph :: "pyval \<Rightarrow> error + pyval" where
  "mps_to_mph x =
     ebind (as_num x) (\<lambda>v. Inr (PFloat (fround2 (fmul (num_val v) (Finite (223694 / 100000))))))"

text \<open>\<^verbatim>\<open>lambda x: round(x / d, 2)\<close> for a float or non-zero integer constant \<open>d\<close>.\<close>

definition divide_round2 :: "rat \<Rightarrow> pyval \<Rightarrow> error + pyval" where
  "divide_round2 d x = ebind (as_num x) (\<lambda>v. Inr (PFloat (fround2 (fdivc (num_val v) d))))"

text \<open>\<^verbatim>\<open>lambda x: x.capitalize()\<close>.\<close>

definition capitalized :: "library \<Rightarrow> pyval \<Rightarrow> error + pyval" where
  "capitalized lib x = (case x of PStr s \<Rightarrow> Inr (PStr (capitalize lib s)) | _ \<Rightarrow> Inl AttributeError)"

text \<open>
  Line 310: \<^verbatim>\<open>round(100 - (5 * (props['temperature']['value'] -
  props['dewpoint']['value'])), 2)\<close> when both readings are truthy, else \<^verbatim>\<open>None\<close>.
\<close>

definition noaa_current_humidity :: "pyval \<Rightarrow> error + pyval" where
  "noaa_current_humidity props =
     ebind (getKeyValue props [KStr ''temperature'', KStr ''value''] None) (\<lambda>t.
     ebind (if py_truthy t then getKeyValue props [KStr ''dewpoint'', KStr ''value''] None
            else Inr t) (\<lambda>cond.
     if py_truthy cond then
       ebind (py_getitem2 props ''temperature'' ''value'') (\<lambda>tv.
       ebind (py_getitem2 props ''dewpoint'' ''value'') (\<lambda>dv.
       ebind (as_num tv) (\<lambda>tn.
       ebind (as_num dv) (\<lambda>dn.
         Inr (of_num (py_round2 (num_sub (NI 100) (num_mul (NI 5) (num_sub tn dn)))))))))
     else Inr PNone))"

text \<open>
  Lines 296-319: the \<^verbatim>\<open>currently\<close> block from the latest station observation.
  \<open>Inr None\<close>: \<^verbatim>\<open>props\<close> is falsy and \<^verbatim>\<open>output['currently']\<close> keeps its \<^verbatim>\<open>{}\<close>.
\<close>

definition noaa_currently :: "library \<Rightarrow> pyval \<Rightarrow> error + pyval option" where
  "noaa_currently lib noaa_current_obj =
     ebind (getKeyValue noaa_current_obj [KStr ''properties''] None) (\<lambda>props.
     if py_truthy props then
       ebind (build_dict
         [(''time'', getKeyValue props [KStr ''timestamp''] (Some (interval_start lib))),
          (''summary'', getKeyValue props [KStr ''textDescription''] (Some (capitalized lib))),
          (''icon'', getKeyValue props [KStr ''icon''] (Some noaa_icon_of)),
          (''precipIntensity'',
             getKeyValue props [KStr ''precipitationLastHour'', KStr ''value'']
               (Some (divide_round2 (3937014 / 100000)))),
          (''temperature'',
             getKeyValue props [KStr ''temperature'', KStr ''value''] (Some celsius_to_fahrenheit)),
          (''apparentTemperature'',
             ebind (getKeyValue props [KStr ''windchill'', KStr ''value''] None) (\<lambda>w.
               if py_truthy w
               then getKeyValue props [KStr ''windchill'', KStr ''value''] (Some celsius_to_fahrenheit)
               else getKeyValue props [KStr ''heatIndex'', KStr ''value''] (Some celsius_to_fahrenheit))),
          (''dewPoint'',
             getKeyValue props [KStr ''dewpoint'', KStr ''value''] (Some celsius_to_fahrenheit)),
          (''humidity'', noaa_current_humidity props),
          (''pressure'',
             getKeyValue props [KStr ''barometricpressure'', KStr ''value''] (Some (divide_round2 100))),
          (''windSpeed'', getKeyValue props [KStr ''windSpeed'', KStr ''value''] (Some mps_to_mph)),
          (''windGust'', getKeyValue props [KStr ''windGust'', KStr ''value''] (Some mps_to_mph)),
          (''windBearing'', getKeyValue props [KStr ''windDirection'', KStr ''value''] None),
          (''visibility'',
             getKeyValue props [KStr ''visibility'', KStr ''value''] (Some (divide_round2 (160934 / 100))))])
         (\<lambda>currently. Inr (Some currently))
     else Inr None)"

section \<open>ClimacellWeatherAPI.get\<close>

text \<open>\<^verbatim>\<open>for x in xs: state = step(x, state)\<close>, stopping at the first exception.\<close>

fun efold :: "('a \<Rightarrow> 's \<Rightarrow> error + 's) \<Rightarrow> 'a list \<Rightarrow> 's \<Rightarrow> error + 's" where
  "efold step [] st = Inr st"
| "efold step (x # xs) st = ebind (step x st) (efold step xs)"

subsection \<open>The transforms passed to getKeyValue\<close>

text \<open>\<^verbatim>\<open>_epochTime\<close> and \<^verbatim>\<open>_dailyEpochTime\<close>: \<^verbatim>\<open>strptime\<close> wants a string.\<close>

definition epochTime :: "library \<Rightarrow> pyval \<Rightarrow> error + int" where
  "epochTime lib dt_str =
     (case dt_str of
        PStr s \<Rightarrow> (case strptime_epoch lib s of None \<Rightarrow> Inl ValueError | Some t \<Rightarrow> Inr t)
      | _ \<Rightarrow> Inl TypeError)"

definition dailyEpochTime :: "library \<Rightarrow> pyval \<Rightarrow> error + int" where
  "dailyEpochTime lib dt_str =
     (case dt_str of
        PStr s \<Rightarrow> (case strptime_daily lib s of None \<Rightarrow> Inl ValueError | Some t \<Rightarrow> Inr t)
      | _ \<Rightarrow> Inl TypeError)"

text \<open>\<^verbatim>\<open>lambda x: int(_epochTime(x))\<close>, and \<^verbatim>\<open>_epochTime(x)\<close> as a dictionary entry.\<close>

definition epoch_value :: "library \<Rightarrow> pyval \<Rightarrow> error + pyval" where
  "epoch_value lib x = ebind (epochTime lib x) (\<lambda>t. Inr (PInt t))"

text \<open>\<^verbatim>\<open>lambda x: None if x == 'none' else x\<close>.\<close>

definition none_if_none :: "pyval \<Rightarrow> error + pyval" where
  "none_if_none x = Inr (if x = PStr ''none'' then PNone else x)"

text \<open>\<^verbatim>\<open>lambda x: round(x / 100)\<close>: rounded to an integer.\<close>

definition percent_round :: "pyval \<Rightarrow> error + pyval" where
  "percent_round x =
     ebind (as_num x) (\<lambda>v. ebind (fround (fdivc (num_val v) 100)) (\<lambda>i. Inr (PInt i)))"

text \<open>
  \<^verbatim>\<open>round(isodate.parse_datetime(x).timestamp())\<close> and
  \<^verbatim>\<open>int(isodate.parse_datetime(x).timestamp())\<close>.
\<close>

definition iso_round :: "library \<Rightarrow> pyval \<Rightarrow> error + pyval" where
  "iso_round lib x =
     (case x of
        PStr s \<Rightarrow> (case parse_datetime lib s of
                    None \<Rightarrow> Inl ValueError
                  | Some t \<Rightarrow> Inr (PInt (round_half_even t)))
      | _ \<Rightarrow> Inl AttributeError)"

definition iso_int :: "library \<Rightarrow> pyval \<Rightarrow> error + pyval" where
  "iso_int lib x =
     (case x of
        PStr s \<Rightarrow> (case parse_datetime lib s of
                    None \<Rightarrow> Inl ValueError
                  | Some t \<Rightarrow> Inr (PInt (py_int t)))
      | _ \<Rightarrow> Inl AttributeError)"

subsection \<open>The four fetches and the output dictionary\<close>

text \<open>
  What the four futures deliver: \<open>None\<close> when \<^verbatim>\<open>result()\<close> raises, otherwise the
  value \<^verbatim>\<open>getURL\<close> returned (the JSON, or \<^verbatim>\<open>False\<close>).
\<close>

record cc_fetched =
  get_current :: "pyval option"
  get_minutely :: "pyval option"
  get_hourly :: "pyval option"
  get_daily :: "pyval option"

text \<open>\<^verbatim>\<open>try: obj = future.result() except: obj = None\<close>.\<close>

definition result_or_none :: "pyval option \<Rightarrow> pyval" where
  "result_or_none r = (case r of None \<Rightarrow> PNone | Some v \<Rightarrow> v)"

text \<open>The early return when a fetch failed: the input dictionary, or \<^verbatim>\<open>False\<close>.\<close>

definition soft_failure :: "pyval \<Rightarrow> pyval" where
  "soft_failure input_dictionary =
     (if py_truthy input_dictionary then input_dictionary else PBool False)"

text \<open>Lines 229-254: use the input dictionary or build a new one.\<close>

definition cc_initial_output ::
  "library \<Rightarrow> pyfloat \<Rightarrow> pyfloat \<Rightarrow> pyval \<Rightarrow> error + pyval" where
  "cc_initial_output lib latitude longitude input_dictionary =
     (if py_truthy input_dictionary then Inr input_dictionary
      else
        (case timezone_at lib latitude longitude of
           None \<Rightarrow> Inl LibraryError
         | Some tz \<Rightarrow>
            (case utc_offset_hours lib tz of
               None \<Rightarrow> Inl LibraryError
             | Some offset \<Rightarrow>
                 Inr (PDict
                   [(''latitude'', PFloat latitude),
                    (''longitude'', PFloat longitude),
                    (''timezone'', tz),
                    (''currently'', PDict []),
                    (''minutely'', PDict []),
                    (''hourly'', PDict []),
                    (''daily'', PDict []),
                    (''flags'', PDict [(''sources'', PList []), (''units'', PStr ''us'')]),
                    (''offset'', PFloat (Finite offset))]))))"

subsection \<open>Currently\<close>

text \<open>Lines 259-281.\<close>

definition cc_currently :: "library \<Rightarrow> pyval \<Rightarrow> pyval \<Rightarrow> error + pyval" where
  "cc_currently lib cc_current_obj output =
     ebind (build_dict
       [(''time'', getKeyValue cc_current_obj [KStr ''observation_time'', KStr ''value'']
                     (Some (epoch_value lib))),
        (''summary'', getKeyValue cc_current_obj [KStr ''weather_code'', KStr ''value'']
                     (Some mapClimacellWeatherCode)),
        (''icon'', getKeyValue cc_current_obj [KStr ''weather_code'', KStr ''value''] (Some cc_icon_of)),
        (''precipIntensity'', getKeyValue cc_current_obj [KStr ''precipitation'', KStr ''value''] None),
        (''precipType'', getKeyValue cc_current_obj [KStr ''precipitation_type'', KStr ''value'']
                     (Some none_if_none)),
        (''temperature'', getKeyValue cc_current_obj [KStr ''temp'', KStr ''value''] None),
        (''apparentTemperature'', getKeyValue cc_current_obj [KStr ''feels_like'', KStr ''value''] None),
        (''dewPoint'', getKeyValue cc_current_obj [KStr ''dewpoint'', KStr ''value''] None),
        (''humidity'', getKeyValue cc_current_obj [KStr ''humidity'', KStr ''value'']
                     (Some percent_round)),
        (''pressure'', getKeyValue cc_current_obj [KStr ''baro_pressure'', KStr ''value''] None),
        (''windSpeed'', getKeyValue cc_current_obj [KStr ''wind_speed'', KStr ''value''] None),
        (''windGust'', getKeyValue cc_current_obj [KStr ''wind_gust'', KStr ''value''] None),
        (''windBearing'', getKeyValue cc_current_obj [KStr ''wind_direction'', KStr ''value''] None),
        (''cloudCover'', getKeyValue cc_current_obj [KStr ''cloud_cover'', KStr ''value'']
                     (Some percent_round)),
        (''visibility'', getKeyValue cc_current_obj [KStr ''visibility'', KStr ''value''] None),
        (''ozone'', getKeyValue cc_current_obj [KStr ''o3'', KStr ''value''] None)])
       (\<lambda>currently. py_setitem_str output ''currently'' currently)"

subsection \<open>Minutely\<close>

text \<open>
  \<^verbatim>\<open>not data or len(data) == 0\<close>, the test that decides whether a block of the
  input is replaced.
\<close>

definition no_data :: "pyval \<Rightarrow> error + bool" where
  "no_data d = (if \<not> py_truthy d then Inr True else ebind (py_len d) (\<lambda>n. Inr (n = 0)))"

text \<open>Lines 294-302: one entry of the minute-by-minute list.\<close>

definition cc_minute_entry :: "library \<Rightarrow> pyval \<Rightarrow> error + pyval" where
  "cc_minute_entry lib minute =
     build_dict
       [(''time'', ebind (py_getitem2 minute ''observation_time'' ''value'') (epoch_value lib)),
        (''precipIntensity'', getKeyValue minute [KStr ''precipitation'', KStr ''value''] None),
        (''precipIntesityError'', Inr PNone),
        (''precipProbability'', Inr PNone),
        (''precipType'', getKeyValue minute [KStr ''precipitation_type'', KStr ''value'']
                     (Some none_if_none))]"

text \<open>
  Lines 286-308. The block is written only when the output has no minute data; then
  the whole \<^verbatim>\<open>minutely\<close> entry is replaced.
\<close>

definition cc_minutely :: "library \<Rightarrow> pyval \<Rightarrow> pyval \<Rightarrow> error + pyval" where
  "cc_minutely lib cc_minutely_obj output =
     ebind (getKeyValue output [KStr ''minutely'', KStr ''data''] None) (\<lambda>minutely_data.
     ebind (no_data minutely_data) (\<lambda>empty.
     if empty then
       ebind (py_iter cc_minutely_obj) (\<lambda>minutes.
       ebind (emap (cc_minute_entry lib) minutes) (\<lambda>data.
       py_setitem_str output ''minutely''
         (PDict [(''summary'', PNone), (''icon'', PNone), (''data'', PList data)])))
     else Inr output))"

subsection \<open>Hourly\<close>

text \<open>Lines 331-352: the entry written over an hour whose timestamp matches.\<close>

definition cc_hour_entry :: "pyval \<Rightarrow> pyval \<Rightarrow> error + pyval" where
  "cc_hour_entry hour cc_hour =
     build_dict
       [(''time'', py_getitem_str hour ''time''),
        (''summary'', getKeyValue cc_hour [KStr ''weather_code'', KStr ''value'']
                     (Some mapClimacellWeatherCode)),
        (''icon'', getKeyValue cc_hour [KStr ''weather_code'', KStr ''value''] (Some cc_icon_of)),
        (''precipIntensity'', getKeyValue cc_hour [KStr ''precipitation'', KStr ''value''] None),
        (''precipProbability'', getKeyValue cc_hour [KStr ''precipitation_probability'', KStr ''value'']
                     (Some (divide_round2 100))),
        (''precipType'', getKeyValue cc_hour [KStr ''precipitation_type'', KStr ''value'']
                     (Some none_if_none)),
        (''temperature'', getKeyValue cc_hour [KStr ''temp'', KStr ''value''] None),
        (''apparentTemperature'', getKeyValue cc_hour [KStr ''feels_like'', KStr ''value''] None),
        (''dewPoint'', getKeyValue cc_hour [KStr ''dewpoint'', KStr ''value''] None),
        (''humidity'', getKeyValue cc_hour [KStr ''humidity'', KStr ''value'']
                     (Some (divide_round2 100))),
        (''pressure'', getKeyValue cc_hour [KStr ''baro_pressure'', KStr ''value''] None),
        (''windSpeed'', getKeyValue cc_hour [KStr ''wind_speed'', KStr ''value''] None),
        (''windGust'', getKeyValue cc_hour [KStr ''wind_gust'', KStr ''value''] None),
        (''windBearing'', getKeyValue cc_hour [KStr ''wind_direction'', KStr ''value''] None),
        (''cloudCover'', getKeyValue cc_hour [KStr ''cloud_cover'', KStr ''value'']
                     (Some (divide_round2 100))),
        (''visibility'', getKeyValue cc_hour [KStr ''visibility'', KStr ''value''] None),
        (''ozone'', getKeyValue cc_hour [KStr ''o3'', KStr ''value''] None)]"

text \<open>
  Lines 356-359, which stand inside the loop over the hours: the summary and the icon
  of the first hour are copied into the \<^verbatim>\<open>hourly\<close> and the \<^verbatim>\<open>minutely\<close> block.
\<close>

definition copy_first_hour :: "pyval \<Rightarrow> pyval \<Rightarrow> error + pyval" where
  "copy_first_hour hourly_data output =
     ebind (py_getitem_int hourly_data 0) (\<lambda>first.
     ebind (py_getitem_str first ''summary'') (\<lambda>summary.
     ebind (py_setitem2 output ''hourly'' ''summary'' summary) (\<lambda>output1.
     ebind (py_getitem_str first ''icon'') (\<lambda>icon.
     ebind (py_setitem2 output1 ''hourly'' ''icon'' icon) (\<lambda>output2.
     ebind (py_setitem2 output2 ''minutely'' ''summary'' summary) (\<lambda>output3.
     py_setitem2 output3 ''minutely'' ''icon'' icon))))))"

text \<open>
  Lines 327-359: one pass of the loop body for the index \<open>i\<close>. The state is the
  hourly list and the output dictionary.
\<close>

definition cc_hour_step ::
  "library \<Rightarrow> pyval \<Rightarrow> nat \<Rightarrow> pyval \<times> pyval \<Rightarrow> error + pyval \<times> pyval" where
  "cc_hour_step lib cc_hourly_obj i st =
     (case st of (hourly_data, output) \<Rightarrow>
        ebind (py_getitem_int hourly_data (int i)) (\<lambda>hour.
        ebind (py_getitem_int cc_hourly_obj (int i)) (\<lambda>cc_hour.
        ebind (py_getitem_str hour ''time'') (\<lambda>t.
        ebind (ebind (py_getitem2 cc_hour ''observation_time'' ''value'') (epochTime lib)) (\<lambda>obs.
        ebind (if py_eq_int t obs
               then ebind (cc_hour_entry hour cc_hour) (py_setitem_nat hourly_data i)
               else Inr hourly_data) (\<lambda>hourly_data'.
        ebind (copy_first_hour hourly_data' output) (\<lambda>output'.
        Inr (hourly_data', output'))))))))"

text \<open>
  Lines 313-362. When the output has no hourly data the new list is built from
  \<^verbatim>\<open>range(timestamp + (timestamp + (3600 * 48)), 3600)\<close>, the integers from the first
  argument up to 3599.
\<close>

definition cc_hourly :: "library \<Rightarrow> pyval \<Rightarrow> pyval \<Rightarrow> error + pyval" where
  "cc_hourly lib cc_hourly_obj output =
     ebind (getKeyValue output [KStr ''hourly'', KStr ''data''] None) (\<lambda>found.
     ebind (no_data found) (\<lambda>empty.
     (let hourly_data =
        (if empty
         then PList (map (\<lambda>timestamp. PDict [(''time'', PInt timestamp)])
                 [hour_start lib + (hour_start lib + 3600 * 48) .. 3600 - 1])
         else found)
      in
       ebind (py_len hourly_data) (\<lambda>n.
       ebind (efold (cc_hour_step lib cc_hourly_obj) [0 ..< n] (hourly_data, output)) (\<lambda>st.
       py_setitem2 (snd st) ''hourly'' ''data'' (fst st))))))"

subsection \<open>Daily\<close>

text \<open>
  Lines 381-389: fewer than 8 days are padded with entries that hold a timestamp only,
  24 hours apart, continuing from the last day present.
\<close>

fun pad_days :: "nat \<Rightarrow> num \<Rightarrow> pyval list \<Rightarrow> pyval list" where
  "pad_days 0 timestamp days = days"
| "pad_days (Suc n) timestamp days =
     pad_days n (num_add timestamp (NI 86400))
       (days @ [PDict [(''time'', of_num (num_add timestamp (NI 86400)))]])"

definition cc_pad_days :: "pyval \<Rightarrow> error + pyval" where
  "cc_pad_days daily_data =
     ebind (py_len daily_data) (\<lambda>n.
     if n < 8 then
       ebind (py_getitem_int daily_data (int n - 1)) (\<lambda>last_day.
       ebind (py_getitem_str last_day ''time'') (\<lambda>t.
       ebind (as_num t) (\<lambda>timestamp.
       (case daily_data of
          PList days \<Rightarrow> Inr (PList (pad_days (8 - n) timestamp days))
        | _ \<Rightarrow> Inl AttributeError))))
     else Inr daily_data)"

text \<open>
  Lines 392-395: \<open>n\<close> passes of the alignment loop. A pass advances \<^verbatim>\<open>ctr\<close> when the
  Climacell day at \<^verbatim>\<open>ctr\<close> is earlier than the first day of the list.
\<close>

fun cc_align :: "library \<Rightarrow> pyval \<Rightarrow> pyval \<Rightarrow> nat \<Rightarrow> nat \<Rightarrow> error + nat" where
  "cc_align lib cc_daily_obj daily_data 0 ctr = Inr ctr"
| "cc_align lib cc_daily_obj daily_data (Suc n) ctr =
     ebind (py_getitem_int cc_daily_obj (int ctr)) (\<lambda>cc_day.
     ebind (py_getitem2 cc_day ''observation_time'' ''value'') (\<lambda>v.
     ebind (dailyEpochTime lib v) (\<lambda>t.
     ebind (py_getitem_int daily_data 0) (\<lambda>first.
     ebind (py_getitem_str first ''time'') (\<lambda>t0.
     ebind (as_num t0) (\<lambda>first_time.
     cc_align lib cc_daily_obj daily_data n
       (if num_less (NI t) first_time then ctr + 1 else ctr)))))))"

text \<open>Lines 401-449: the entry that replaces a day, before the scans fill it in.\<close>

definition cc_day_entry :: "library \<Rightarrow> pyval \<Rightarrow> pyval \<Rightarrow> error + pyval" where
  "cc_day_entry lib day cc_day =
     build_dict
       [(''time'', py_getitem_str day ''time''),
        (''summary'', getKeyValue cc_day [KStr ''weather_code'', KStr ''value'']
                     (Some mapClimacellWeatherCode)),
        (''icon'', getKeyValue cc_day [KStr ''weather_code'', KStr ''value''] (Some cc_icon_of)),
        (''sunriseTime'', getKeyValue cc_day [KStr ''sunrise'', KStr ''value''] (Some (iso_round lib))),
        (''sunsetTime'', getKeyValue cc_day [KStr ''sunset'', KStr ''value''] (Some (iso_round lib))),
        (''moonPhase'',
           ebind (py_getitem_str day ''time'') (\<lambda>t.
           ebind (as_num t) (\<lambda>n.
           (case num_val n of
              Finite r \<Rightarrow> Inr (PFloat (Finite (round2 (moon_phase lib r / (2799 / 100)))))
            | NaN \<Rightarrow> Inl ValueError
            | _ \<Rightarrow> Inl OverflowError)))),
        (''precipIntensity'',
           getKeyValue cc_day [KStr ''precipitation'', KInt 0, KStr ''max'', KStr ''value''] None),
        (''precipIntensityMax'',
           getKeyValue cc_day [KStr ''precipitation'', KInt 0, KStr ''max'', KStr ''value''] None),
        (''precipIntensityMaxTime'',
           getKeyValue cc_day [KStr ''precipitation'', KStr ''observation_time''] (Some (iso_int lib))),
        (''precipProbability'',
           getKeyValue cc_day [KStr ''precipitation_probability'', KStr ''value''] None),
        (''temperatureHigh'', Inr PNone),
        (''temperatureHighTime'', Inr PNone),
        (''temperatureLow'', Inr PNone),
        (''temperatureLowTime'', Inr PNone),
        (''apparentTemperatureHigh'', Inr PNone),
        (''apparentTemperatureHighTime'', Inr PNone),
        (''apparentTemperatureLow'', Inr PNone),
        (''apparentTemperatureLowTime'', Inr PNone),
        (''dewPoint'', Inr PNone),
        (''humidity'', Inr PNone),
        (''pressure'', Inr PNone),
        (''windSpeed'', getKeyValue day [KStr ''windSpeed''] None),
        (''windGust'', Inr PNone),
        (''windGustTime'', Inr PNone),
        (''windBearing'', getKeyValue day [KStr ''windBearing''] None),
        (''cloudCover'', getKeyValue day [KStr ''cloudCover''] None),
        (''visibility'', getKeyValue day [KStr ''visibility''] None),
        (''temperatureMin'', Inr PNone),
        (''temperatureMinTime'', Inr PNone),
        (''temperatureMax'', Inr PNone),
        (''temperatureMaxTime'', Inr PNone),
        (''apparentTemperatureMin'', Inr PNone),
        (''apparentTemperatureMinTime'', Inr PNone),
        (''apparentTemperatureMax'', Inr PNone),
        (''apparentTemperatureMaxTime'', Inr PNone)]"

text \<open>
  \<^verbatim>\<open>entry[value_key] = t[which]['value']\<close> followed by
  \<^verbatim>\<open>entry[time_key] = int(isodate.parse_datetime(t['observation_time']).timestamp())\<close>.
\<close>

definition assign_extreme ::
  "library \<Rightarrow> pyval \<Rightarrow> string \<Rightarrow> string \<Rightarrow> string \<Rightarrow> pyval \<Rightarrow> error + pyval" where
  "assign_extreme lib t which value_key time_key entry =
     ebind (py_getitem2 t which ''value'') (\<lambda>v.
     ebind (py_setitem_str entry value_key v) (\<lambda>entry1.
     ebind (py_getitem_str t ''observation_time'') (\<lambda>stamp.
     ebind (iso_int lib stamp) (\<lambda>ts.
     py_setitem_str entry1 time_key ts))))"

text \<open>
  Lines 452-473: one sample of \<^verbatim>\<open>temp\<close> (stem \<^verbatim>\<open>temperature\<close>) or of
  \<^verbatim>\<open>feels_like\<close> (stem \<^verbatim>\<open>apparentTemperature\<close>).
\<close>

definition extremes_step :: "library \<Rightarrow> string \<Rightarrow> pyval \<Rightarrow> pyval \<Rightarrow> error + pyval" where
  "extremes_step lib stem t entry =
     ebind (py_contains_str t ''min'') (\<lambda>has_min.
     ebind (if has_min
            then ebind (assign_extreme lib t ''min'' (stem @ ''Low'') (stem @ ''LowTime'') entry)
                   (assign_extreme lib t ''min'' (stem @ ''Min'') (stem @ ''MinTime''))
            else Inr entry) (\<lambda>entry1.
     ebind (py_contains_str t ''max'') (\<lambda>has_max.
     if has_max
     then ebind (assign_extreme lib t ''max'' (stem @ ''High'') (stem @ ''HighTime'') entry1)
            (assign_extreme lib t ''max'' (stem @ ''Max'') (stem @ ''MaxTime''))
     else Inr entry1)))"

text \<open>
  Lines 477-493: one sample of \<^verbatim>\<open>humidity\<close> or \<^verbatim>\<open>baro_pressure\<close>. \<open>total\<close> starts
  at 0 for every sample, and the divisor \<open>n\<close> is the length of the sample list.
\<close>

definition mean_step :: "string \<Rightarrow> nat \<Rightarrow> pyval \<Rightarrow> pyval \<Rightarrow> error + pyval" where
  "mean_step key n t entry =
     ebind (py_contains_str t ''min'') (\<lambda>has_min.
     ebind (if has_min
            then ebind (py_getitem2 t ''min'' ''value'') (\<lambda>v.
                 ebind (as_num v) (\<lambda>x. Inr (num_add (NI 0) x)))
            else Inr (NI 0)) (\<lambda>total1.
     ebind (py_contains_str t ''max'') (\<lambda>has_max.
     ebind (if has_max
            then ebind (py_getitem2 t ''max'' ''value'') (\<lambda>v.
                 ebind (as_num v) (\<lambda>x. Inr (num_add total1 x)))
            else Inr total1) (\<lambda>total.
     if n = 0 then Inl ZeroDivisionError
     else py_setitem_str entry key (PFloat (fround2 (fdivc (num_val total) (of_nat n))))))))"

text \<open>Lines 496-499: one sample of \<^verbatim>\<open>wind_speed\<close>.\<close>

definition gust_step :: "library \<Rightarrow> pyval \<Rightarrow> pyval \<Rightarrow> error + pyval" where
  "gust_step lib t entry =
     ebind (py_contains_str t ''max'') (\<lambda>has_max.
     if has_max then assign_extreme lib t ''max'' ''windGust'' ''windGustTime'' entry
     else Inr entry)"

text \<open>\<^verbatim>\<open>for t in cc_day[key]: entry = step(t, entry)\<close>.\<close>

definition scan_samples ::
  "pyval \<Rightarrow> string \<Rightarrow> (pyval \<Rightarrow> pyval \<Rightarrow> error + pyval) \<Rightarrow> pyval \<Rightarrow> error + pyval" where
  "scan_samples cc_day key step entry =
     ebind (py_getitem_str cc_day key) (\<lambda>samples.
     ebind (py_iter samples) (\<lambda>ts. efold step ts entry))"

text \<open>Lines 451-499: the five scans over the lists of the Climacell day.\<close>

definition cc_day_fill :: "library \<Rightarrow> pyval \<Rightarrow> pyval \<Rightarrow> error + pyval" where
  "cc_day_fill lib cc_day entry =
     ebind (scan_samples cc_day ''temp'' (extremes_step lib ''temperature'') entry) (\<lambda>e1.
     ebind (scan_samples cc_day ''feels_like'' (extremes_step lib ''apparentTemperature'') e1) (\<lambda>e2.
     ebind (ebind (py_getitem_str cc_day ''humidity'') (\<lambda>h. ebind (py_iter h) (\<lambda>ts.
              efold (mean_step ''humidity'' (length ts)) ts e2))) (\<lambda>e3.
     ebind (ebind (py_getitem_str cc_day ''baro_pressure'') (\<lambda>h. ebind (py_iter h) (\<lambda>ts.
              efold (mean_step ''pressure'' (length ts)) ts e3))) (\<lambda>e4.
     scan_samples cc_day ''wind_speed'' (gust_step lib) e4))))"

text \<open>
  Lines 398-501: one pass of the loop over the days. The state is the daily list and
  \<^verbatim>\<open>ctr\<close>. The new entry is stored in the list before the scans run.
\<close>

definition cc_day_step ::
  "library \<Rightarrow> pyval \<Rightarrow> nat \<Rightarrow> pyval \<times> nat \<Rightarrow> error + pyval \<times> nat" where
  "cc_day_step lib cc_daily_obj i st =
     (case st of (daily_data, ctr) \<Rightarrow>
        ebind (py_getitem_int daily_data (int i)) (\<lambda>day.
        ebind (py_getitem_int cc_daily_obj (int ctr)) (\<lambda>cc_day.
        ebind (cc_day_entry lib day cc_day) (\<lambda>entry.
        ebind (py_setitem_nat daily_data i entry) (\<lambda>stored.
        ebind (cc_day_fill lib cc_day entry) (\<lambda>entry'.
        ebind (py_setitem_nat stored i entry') (\<lambda>daily_data'.
        Inr (daily_data', ctr + 1))))))))"

text \<open>
  Lines 367-509. When the output has no daily data the new list is built from
  \<^verbatim>\<open>range(timestamp + (timestamp + (86400 * 8)), 86400)\<close>.
\<close>

definition cc_daily :: "library \<Rightarrow> pyval \<Rightarrow> pyval \<Rightarrow> error + pyval" where
  "cc_daily lib cc_daily_obj output =
     ebind (getKeyValue output [KStr ''daily'', KStr ''data''] None) (\<lambda>found.
     ebind (no_data found) (\<lambda>empty.
     ebind (cc_pad_days
        (if empty
         then PList (map (\<lambda>timestamp. PDict [(''time'', PInt timestamp)])
                 [utc_midnight lib + (utc_midnight lib + 86400 * 8) .. 86400 - 1])
         else found)) (\<lambda>daily_data.
     ebind (py_len cc_daily_obj) (\<lambda>m.
     ebind (cc_align lib cc_daily_obj daily_data m 0) (\<lambda>ctr.
     ebind (py_len daily_data) (\<lambda>n.
     ebind (efold (cc_day_step lib cc_daily_obj) [0 ..< n] (daily_data, ctr)) (\<lambda>st.
     ebind (py_getitem_int (fst st) 0) (\<lambda>first.
     ebind (py_getitem_str first ''summary'') (\<lambda>summary.
     ebind (py_setitem2 output ''daily'' ''summary'' summary) (\<lambda>output1.
     ebind (py_getitem_str first ''icon'') (\<lambda>icon.
     ebind (py_setitem2 output1 ''daily'' ''icon'' icon) (\<lambda>output2.
     py_setitem2 output2 ''daily'' ''data'' (fst st)))))))))))))"

subsection \<open>The source flag and the whole adapter\<close>

text \<open>
  Lines 519-525. The names already in \<^verbatim>\<open>flags.sources\<close> of the input dictionary are
  copied into a new list and \<^verbatim>\<open>climacell\<close> is appended; nothing is compared.
\<close>

definition cc_sources :: "pyval \<Rightarrow> pyval \<Rightarrow> error + pyval" where
  "cc_sources input_dictionary output =
     ebind (getKeyValue input_dictionary [KStr ''flags'', KStr ''sources''] None) (\<lambda>present.
     ebind (if py_truthy present
            then ebind (getKeyValue input_dictionary [KStr ''flags'', KStr ''sources''] None) py_iter
            else Inr []) (\<lambda>sources.
     py_setitem2 output ''flags'' ''sources'' (PList (sources @ [PStr ''climacell'']))))"

text \<open>
  The adapter. Any of the four fetches coming back falsy returns the input dictionary
  (or \<^verbatim>\<open>False\<close>) at once; otherwise the five sections run in order on the output
  dictionary. \<open>Inl e\<close> is an exception that leaves the function.
\<close>

definition cc_get ::
  "library \<Rightarrow> cc_fetched \<Rightarrow> pyfloat \<Rightarrow> pyfloat \<Rightarrow> string \<Rightarrow> pyval \<Rightarrow> error + pyval" where
  "cc_get lib fetched latitude longitude apikey input_dictionary =
     (let cc_current_obj = result_or_none (get_current fetched);
          cc_minutely_obj = result_or_none (get_minutely fetched);
          cc_hourly_obj = result_or_none (get_hourly fetched);
          cc_daily_obj = result_or_none (get_daily fetched)
      in
       if \<not> py_truthy cc_current_obj then Inr (soft_failure input_dictionary)
       else if \<not> py_truthy cc_minutely_obj then Inr (soft_failure input_dictionary)
       else if \<not> py_truthy cc_hourly_obj then Inr (soft_failure input_dictionary)
       else if \<not> py_truthy cc_daily_obj then Inr (soft_failure input_dictionary)
       else
         ebind (cc_initial_output lib latitude longitude input_dictionary) (\<lambda>output0.
         ebind (cc_currently lib cc_current_obj output0) (\<lambda>output1.
         ebind (cc_minutely lib cc_minutely_obj output1) (\<lambda>output2.
         ebind (cc_hourly lib cc_hourly_obj output2) (\<lambda>output3.
         ebind (cc_daily lib cc_daily_obj output3) (\<lambda>output4.
         cc_sources input_dictionary output4))))))"

section \<open>NOAAWeatherAPI.get\<close>

subsection \<open>The nearest station\<close>

text \<open>
  Lines 187-191: one station of the list. The state is the URL of the nearest station
  so far and \<^verbatim>\<open>output['flags']['nearest-station']\<close>, both unset before the first
  station.
\<close>

definition station_step ::
  "library \<Rightarrow> pyfloat \<Rightarrow> pyfloat \<Rightarrow> pyval \<Rightarrow> (pyval \<times> pyfloat) option \<Rightarrow>
   error + (pyval \<times> pyfloat) option" where
  "station_step lib latitude longitude feature nearest =
     ebind (getKeyValue feature [KStr ''geometry'', KStr ''coordinates''] None) (\<lambda>coordinates.
     ebind (py_getitem_int coordinates 1) (\<lambda>a.
     ebind (py_getitem_int coordinates 0) (\<lambda>b.
     (case great_circle_miles lib latitude longitude a b of
        None \<Rightarrow> Inl ValueError
      | Some miles \<Rightarrow>
          if (case nearest of None \<Rightarrow> True | Some (url, best) \<Rightarrow> fless miles best)
          then ebind (getKeyValue feature [KStr ''id''] None) (\<lambda>url. Inr (Some (url, fround2 miles)))
          else Inr nearest))))"

subsection \<open>The area names\<close>

text \<open>
  Lines 280-289: \<^verbatim>\<open>noaa_county_list[id] = name\<close> for every feature of the county
  list and then of the zone list. A key must be hashable.
\<close>

definition county_step :: "pyval \<Rightarrow> (pyval \<times> pyval) list \<Rightarrow> error + (pyval \<times> pyval) list" where
  "county_step feature noaa_county_list =
     ebind (getKeyValue feature [KStr ''properties'', KStr ''id''] None) (\<lambda>ident.
     ebind (getKeyValue feature [KStr ''properties'', KStr ''name''] None) (\<lambda>name.
     if py_hashable ident then Inr (AList.update ident name noaa_county_list)
     else Inl TypeError))"

definition add_areas :: "pyval \<Rightarrow> (pyval \<times> pyval) list \<Rightarrow> error + (pyval \<times> pyval) list" where
  "add_areas obj noaa_county_list =
     (if py_truthy obj then
        ebind (getKeyValue obj [KStr ''features''] None) (\<lambda>fs.
        ebind (py_iter fs) (\<lambda>features. efold county_step features noaa_county_list))
      else Inr noaa_county_list)"

subsection \<open>Alerts\<close>

text \<open>Lines 753-755: the names of the areas an alert lists.\<close>

definition region_name :: "(pyval \<times> pyval) list \<Rightarrow> pyval \<Rightarrow> error + pyval" where
  "region_name noaa_county_list county_id =
     (if \<not> py_hashable county_id then Inl TypeError
      else (case map_of noaa_county_list county_id of None \<Rightarrow> Inl KeyError | Some name \<Rightarrow> Inr name))"

text \<open>\<^verbatim>\<open>lambda x: re.sub(r'\s+', ' ', x)\<close>.\<close>

definition collapsed :: "library \<Rightarrow> pyval \<Rightarrow> error + pyval" where
  "collapsed lib x = (case x of PStr s \<Rightarrow> Inr (PStr (collapse_space lib s)) | _ \<Rightarrow> Inl TypeError)"

text \<open>Lines 757-765: the alert as it is written to the output.\<close>

definition alert_entry :: "library \<Rightarrow> (pyval \<times> pyval) list \<Rightarrow> pyval \<Rightarrow> error + pyval" where
  "alert_entry lib noaa_county_list props =
     ebind (getKeyValue props [KStr ''geocode'', KStr ''UGC''] None) (\<lambda>ugc.
     ebind (py_iter ugc) (\<lambda>county_ids.
     ebind (emap (region_name noaa_county_list) county_ids) (\<lambda>regions.
     build_dict
       [(''title'', getKeyValue props [KStr ''event''] None),
        (''regions'', Inr (PList regions)),
        (''severity'', getKeyValue props [KStr ''severity''] None),
        (''time'', getKeyValue props [KStr ''onset''] (Some (interval_start lib))),
        (''expires'', getKeyValue props [KStr ''expires''] (Some (interval_start lib))),
        (''description'', getKeyValue props [KStr ''description''] (Some (collapsed lib))),
        (''url'', getKeyValue props [KStr ''@id''] None)])))"

text \<open>
  Lines 746-765: the loop over the alerts; \<open>i\<close> counts the alerts examined so far.
  An alert is kept when its \<^verbatim>\<open>expires\<close> is greater than the clock reading taken
  for it; comparing a value that is not a number with the clock is a \<^verbatim>\<open>TypeError\<close>.
\<close>

fun alert_loop ::
  "library \<Rightarrow> (pyval \<times> pyval) list \<Rightarrow> nat \<Rightarrow> pyval list \<Rightarrow> pyval list \<Rightarrow> error + pyval list" where
  "alert_loop lib noaa_county_list i [] alert_data = Inr alert_data"
| "alert_loop lib noaa_county_list i (alert # alerts) alert_data =
     ebind (getKeyValue alert [KStr ''properties''] None) (\<lambda>props.
     ebind (getKeyValue props [KStr ''expires''] (Some (interval_start lib))) (\<lambda>expires.
     ebind (as_num expires) (\<lambda>e.
     if fless (Finite (now_at_alert lib i)) (num_val e)
     then ebind (alert_entry lib noaa_county_list props) (\<lambda>entry.
            alert_loop lib noaa_county_list (Suc i) alerts (alert_data @ [entry]))
     else alert_loop lib noaa_county_list (Suc i) alerts alert_data)))"

text \<open>
  Lines 742-768. \<^verbatim>\<open>output['alerts']\<close> is assigned only when the alerts object and
  its \<^verbatim>\<open>features\<close> are both truthy.
\<close>

definition noaa_alerts ::
  "library \<Rightarrow> (pyval \<times> pyval) list \<Rightarrow> pyval \<Rightarrow> pyval \<Rightarrow> error + pyval" where
  "noaa_alerts lib noaa_county_list noaa_alerts_obj output =
     (if py_truthy noaa_alerts_obj then
        ebind (getKeyValue noaa_alerts_obj [KStr ''features''] None) (\<lambda>alerts.
        if py_truthy alerts then
          ebind (py_iter alerts) (\<lambda>items.
          ebind (alert_loop lib noaa_county_list 0 items []) (\<lambda>alert_data.
          py_setitem_str output ''alerts'' (PList alert_data)))
        else Inr output)
      else Inr output)"

subsection \<open>The whole adapter\<close>

text \<open>
  What the requests deliver. The points lookup and the station list are fetched with
  \<^verbatim>\<open>getURL\<close> directly (\<open>None\<close>: the request raised); the other seven are futures
  (\<open>None\<close>: \<^verbatim>\<open>result()\<close> raised, and the object becomes \<^verbatim>\<open>None\<close>). The station
  list depends on the URL the points lookup names, the latest observation on the
  station chosen.
\<close>

record noaa_fetched =
  points :: "pyval option"
  stations :: "pyval \<Rightarrow> pyval option"
  latest_observation :: "pyval \<Rightarrow> pyval option"
  forecast_hourly :: "pyval option"
  forecast_griddata :: "pyval option"
  forecast_daily :: "pyval option"
  active_alerts :: "pyval option"
  county_areas :: "pyval option"
  zone_areas :: "pyval option"

text \<open>
  The adapter. The assembly of the hourly block (lines 321-480) and of the daily block
  (lines 482-735) is not modelled: each assigns nothing but \<^verbatim>\<open>output['hourly']\<close>,
  respectively \<^verbatim>\<open>output['daily']\<close>, and what it computes on this run is the
  parameter \<open>hourly_block\<close>, respectively \<open>daily_block\<close> (\<open>Inl e\<close>: it raises;
  \<open>Inr None\<close>: it assigns nothing). A failed station list reaches
  \<^verbatim>\<open>flask.abort(501)\<close>, and \<^verbatim>\<open>flask\<close> is not imported by this module:
  \<^verbatim>\<open>NameError\<close>. With no station in the list \<^verbatim>\<open>noaa_station_url\<close> is unbound.
\<close>

definition noaa_nearest_station ::
  "library \<Rightarrow> noaa_fetched \<Rightarrow> pyval \<Rightarrow> pyfloat \<Rightarrow> pyfloat \<Rightarrow> error + pyval \<times> pyfloat" where
  "noaa_nearest_station lib fetched noaa_points_obj latitude longitude =
     ebind (getKeyValue noaa_points_obj [KStr ''properties'', KStr ''observationStations''] None)
       (\<lambda>url.
     case stations fetched url of
       None \<Rightarrow> Inl LibraryError
     | Some noaa_stations_obj \<Rightarrow>
         if noaa_stations_obj = PBool False then Inl NameError
         else
           ebind (getKeyValue noaa_stations_obj [KStr ''features''] None) (\<lambda>fs.
           ebind (py_iter fs) (\<lambda>features.
           ebind (efold (station_step lib latitude longitude) features None) (\<lambda>nearest.
           case nearest of
             None \<Rightarrow> Inl UnboundLocalError
           | Some found \<Rightarrow> Inr found))))"

definition noaa_skeleton :: "pyfloat \<Rightarrow> pyfloat \<Rightarrow> pyval \<Rightarrow> rat \<Rightarrow> pyfloat \<Rightarrow> pyval" where
  "noaa_skeleton latitude longitude tz offset miles =
     PDict
       [(''latitude'', PFloat latitude),
        (''longitude'', PFloat longitude),
        (''timezone'', tz),
        (''currently'', PDict []),
        (''minutely'', PDict []),
        (''hourly'', PDict []),
        (''daily'', PDict []),
        (''alerts'', PList []),
        (''flags'', PDict [(''sources'', PList []), (''units'', PStr ''us''),
                          (''nearest-station'', PFloat miles)]),
        (''offset'', PFloat (Finite offset))]"

text \<open>\<^verbatim>\<open>output[key] = block\<close> when a section has a block to assign.\<close>

definition assign_block :: "string \<Rightarrow> pyval option \<Rightarrow> pyval \<Rightarrow> error + pyval" where
  "assign_block key block output =
     (case block of None \<Rightarrow> Inr output | Some b \<Rightarrow> py_setitem_str output key b)"

definition noaa_assemble ::
  "library \<Rightarrow> noaa_fetched \<Rightarrow> error + pyval option \<Rightarrow> error + pyval option \<Rightarrow>
   pyval \<Rightarrow> pyval \<Rightarrow> error + pyval" where
  "noaa_assemble lib fetched hourly_block daily_block noaa_station_url output =
     (let noaa_current_obj = result_or_none (latest_observation fetched noaa_station_url);
          noaa_hourly_obj = result_or_none (forecast_hourly fetched);
          noaa_griddata_obj = result_or_none (forecast_griddata fetched);
          noaa_daily_obj = result_or_none (forecast_daily fetched);
          noaa_alerts_obj = result_or_none (active_alerts fetched);
          noaa_counties_obj = result_or_none (county_areas fetched);
          noaa_zones_obj = result_or_none (zone_areas fetched)
      in
       if \<not> py_truthy noaa_current_obj then Inr (PBool False)
       else if \<not> py_truthy noaa_hourly_obj then Inr (PBool False)
       else if \<not> py_truthy noaa_griddata_obj then Inr (PBool False)
       else if \<not> py_truthy noaa_daily_obj then Inr (PBool False)
       else
         ebind (add_areas noaa_counties_obj []) (\<lambda>counties.
         ebind (add_areas noaa_zones_obj counties) (\<lambda>noaa_county_list.
         ebind (noaa_currently lib noaa_current_obj) (\<lambda>currently.
         ebind (assign_block ''currently'' currently output) (\<lambda>output1.
         ebind hourly_block (\<lambda>hourly.
         ebind (assign_block ''hourly'' hourly output1) (\<lambda>output2.
         ebind daily_block (\<lambda>daily.
         ebind (assign_block ''daily'' daily output2) (\<lambda>output3.
         ebind (noaa_alerts lib noaa_county_list noaa_alerts_obj output3) (\<lambda>output4.
         py_setitem2 output4 ''flags'' ''sources'' (PTuple [PStr ''noaa''])))))))))))"

definition noaa_get ::
  "library \<Rightarrow> noaa_fetched \<Rightarrow> error + pyval option \<Rightarrow> error + pyval option \<Rightarrow>
   pyfloat \<Rightarrow> pyfloat \<Rightarrow> error + pyval" where
  "noaa_get lib fetched hourly_block daily_block latitude longitude =
     (case points fetched of
        None \<Rightarrow> Inl LibraryError
      | Some noaa_points_obj \<Rightarrow>
          if noaa_points_obj = PBool False then Inr (PBool False)
          else
            ebind (getKeyValue noaa_points_obj [KStr ''properties'', KStr ''timeZone''] None) (\<lambda>tz.
            case utc_offset_hours lib tz of
              None \<Rightarrow> Inl LibraryError
            | Some offset \<Rightarrow>
                ebind (noaa_nearest_station lib fetched noaa_points_obj latitude longitude)
                  (\<lambda>found.
                noaa_assemble lib fetched hourly_block daily_block (fst found)
                  (noaa_skeleton latitude longitude tz offset (snd found)))))"

section \<open>A concrete run\<close>

text \<open>
  Library functions, Climacell payloads and an input document on which the adapter
  can be run. The clock stands a little after 01:00 on 1 January 1970 (the readings
  5000 and later), the date strings used below parse to their timestamps and no other
  string parses, the hourly sample is at the timestamp 3600 of the only hour of the
  document, and eight daily samples are at the timestamp 0 of its only day.
\<close>

definition example_lib :: library where
  "example_lib =
     \<lparr>parse_datetime =
        (\<lambda>s. if s = ''1970-01-01T01:00:00Z'' then Some 3600
             else if s = ''1970-01-01T02:00:00Z'' then Some 7200 else None),
      plus_duration =
        (\<lambda>s d. if s = ''1970-01-01T01:00:00Z'' \<and> d = ''PT1H'' then Some 7200 else None),
      strptime_epoch = (\<lambda>s. if s = ''1970-01-01T01:00:00.000Z'' then Some 3600 else None),
      strptime_daily = (\<lambda>s. if s = ''1970-01-01'' then Some 0 else None),
      capitalize = (\<lambda>s. s),
      collapse_space = (\<lambda>s. s),
      moon_phase = (\<lambda>t. 14),
      timezone_at = (\<lambda>lat lon. Some (PStr ''America/Denver'')),
      utc_offset_hours = (\<lambda>tz. if tz = PStr ''America/Denver'' then Some (- 7) else None),
      great_circle_miles = (\<lambda>lat lon a b. Some (Finite 3)),
      now_at_alert = (\<lambda>i. 5000 + of_nat i),
      hour_start = 3600,
      utc_midnight = 0\<rparr>"

definition example_cc_day :: pyval where
  "example_cc_day =
     PDict [(''observation_time'', PDict [(''value'', PStr ''1970-01-01'')]),
            (''weather_code'', PDict [(''value'', PStr ''cloudy'')]),
            (''temp'', PList [PDict [(''observation_time'', PStr ''1970-01-01T02:00:00Z''),
                                    (''min'', PDict [(''value'', PInt 50)])],
                             PDict [(''observation_time'', PStr ''1970-01-01T02:00:00Z''),
                                    (''max'', PDict [(''value'', PInt 70)])]]),
            (''feels_like'', PList []),
            (''humidity'', PList [PDict [(''min'', PDict [(''value'', PInt 40)])],
                                 PDict [(''max'', PDict [(''value'', PInt 60)])]]),
            (''baro_pressure'', PList []),
            (''wind_speed'', PList [])]"

definition example_fetched :: cc_fetched where
  "example_fetched =
     \<lparr>get_current = Some (PDict [(''weather_code'', PDict [(''value'', PStr ''rain'')]),
                                (''humidity'', PDict [(''value'', PInt 55)])]),
      get_minutely = Some (PList [PDict [(''observation_time'', PDict [(''value'', PStr ''1970-01-01T01:00:00.000Z'')]),
                                         (''precipitation'', PDict [(''value'', PInt 1)])]]),
      get_hourly = Some (PList [PDict [(''observation_time'', PDict [(''value'', PStr ''1970-01-01T01:00:00.000Z'')]),
                                       (''weather_code'', PDict [(''value'', PStr ''clear'')]),
                                       (''humidity'', PDict [(''value'', PInt 55)])]]),
      get_daily = Some (PList (replicate 8 example_cc_day))\<rparr>"

definition example_input :: pyval where
  "example_input =
     PDict [(''currently'', PDict []),
            (''minutely'', PDict [(''summary'', PStr ''Drizzle for the hour''),
                                  (''icon'', PStr ''rain''),
                                  (''data'', PList [PDict [(''time'', PInt 60),
                                                           (''precipIntensity'', PInt 0)]])]),
            (''hourly'', PDict [(''data'', PList [PDict [(''time'', PInt 3600),
                                                        (''summary'', PStr ''Sunny''),
                                                        (''icon'', PStr ''clear-day'')]])]),
            (''daily'', PDict [(''data'', PList [PDict [(''time'', PInt 0),
                                                       (''windSpeed'', PInt 5)]])]),
            (''alerts'', PList []),
            (''flags'', PDict [(''sources'', PTuple [PStr ''noaa'']), (''units'', PStr ''us'')])]"

text \<open>The document the adapter returns for this input, and for that document in turn.\<close>

definition example_output :: pyval where
  "example_output =
     (case cc_get example_lib example_fetched (Finite 40) (Finite (- 100)) ''key'' example_input of
        Inl e \<Rightarrow> PNone | Inr out \<Rightarrow> out)"

definition example_output2 :: pyval where
  "example_output2 =
     (case cc_get example_lib example_fetched (Finite 40) (Finite (- 100)) ''key'' example_output of
        Inl e \<Rightarrow> PNone | Inr out \<Rightarrow> out)"

text \<open>
  A run of the primary adapter: one station, an observation, an hourly and a daily
  block, and two alerts of which the second expired at 3600, before the clock readings
  5000 and 5001. The zone list could not be fetched.
\<close>

definition example_noaa_fetched :: noaa_fetched where
  "example_noaa_fetched =
     \<lparr>points = Some (PDict [(''properties'',
         PDict [(''timeZone'', PStr ''America/Denver''),
                (''observationStations'', PStr ''https://api.weather.gov/gridpoints/BOU/1,2/stations'')])]),
      stations = (\<lambda>url. Some (PDict [(''features'',
         PList [PDict [(''id'', PStr ''https://api.weather.gov/stations/KDEN''),
                       (''geometry'', PDict [(''coordinates'', PList [PInt (- 104), PInt 39])])]])])),
      latest_observation = (\<lambda>url. Some (PDict [(''properties'',
         PDict [(''temperature'', PDict [(''value'', PInt 20)]),
                (''dewpoint'', PDict [(''value'', PInt 10)])])])),
      forecast_hourly = Some (PDict [(''properties'', PDict [])]),
      forecast_griddata = Some (PDict [(''properties'', PDict [])]),
      forecast_daily = Some (PDict [(''properties'', PDict [])]),
      active_alerts = Some (PDict [(''features'',
         PList [PDict [(''properties'',
                  PDict [(''event'', PStr ''Flood Warning''),
                         (''expires'', PStr ''1970-01-01T02:00:00Z''),
                         (''geocode'', PDict [(''UGC'', PList [PStr ''COC001''])])])],
                PDict [(''properties'',
                  PDict [(''event'', PStr ''Wind Advisory''),
                         (''expires'', PStr ''1970-01-01T01:00:00Z''),
                         (''geocode'', PDict [(''UGC'', PList [PStr ''COC001''])])])]])]),
      county_areas = Some (PDict [(''features'',
         PList [PDict [(''properties'',
                  PDict [(''id'', PStr ''COC001''), (''name'', PStr ''Adams'')])]])]),
      zone_areas = None\<rparr>"

definition example_hourly_block :: "error + pyval option" where
  "example_hourly_block =
     Inr (Some (PDict [(''summary'', PStr ''Sunny''), (''icon'', PStr ''clear-day''),
                       (''data'', PList [PDict [(''time'', PInt 3600),
                                                (''summary'', PStr ''Sunny''),
                                                (''icon'', PStr ''clear-day'')]])]))"

definition example_daily_block :: "error + pyval option" where
  "example_daily_block =
     Inr (Some (PDict [(''summary'', PStr ''Sunny''), (''icon'', PStr ''clear-day''),
                       (''data'', PList [PDict [(''time'', PInt 0),
                                                (''summary'', PStr ''Sunny''),
                                                (''icon'', PStr ''clear-day''),
                                                (''windSpeed'', PInt 5)]])]))"

definition example_noaa_doc :: pyval where
  "example_noaa_doc =
     (case noaa_get example_lib example_noaa_fetched example_hourly_block example_daily_block
             (Finite 40) (Finite (- 100)) of
        Inl e \<Rightarrow> PNone | Inr out \<Rightarrow> out)"

definition example_merged :: pyval where
  "example_merged =
     (case cc_get example_lib example_fetched (Finite 40) (Finite (- 100)) ''key'' example_noaa_doc of
        Inl e \<Rightarrow> PNone | Inr out \<Rightarrow> out)"

text \<open>
  A document as the primary adapter returns it when no hourly period lies in the
  future: the \<^verbatim>\<open>hourly\<close> and \<^verbatim>\<open>minutely\<close> blocks are empty.
\<close>

definition example_no_hours :: pyval where
  "example_no_hours =
     PDict [(''currently'', PDict []),
            (''minutely'', PDict []),
            (''hourly'', PDict []),
            (''daily'', PDict [(''data'', PList [PDict [(''time'', PInt 0)]])]),
            (''alerts'', PList []),
            (''flags'', PDict [(''sources'', PTuple [PStr ''noaa'']), (''units'', PStr ''us'')])]"

section \<open>Reading a document\<close>

text \<open>
  The value under a top-level key of a document, and the value under a key of one of
  its blocks; \<open>None\<close> when the document or the block is not a dictionary or has no
  such key.
\<close>

definition field :: "pyval \<Rightarrow> string \<Rightarrow> pyval option" where
  "field d k = (case d of PDict kvs \<Rightarrow> map_of kvs k | _ \<Rightarrow> None)"

definition field2 :: "pyval \<Rightarrow> string \<Rightarrow> string \<Rightarrow> pyval option" where
  "field2 d a b = (case field d a of Some block \<Rightarrow> field block b | None \<Rightarrow> None)"

text \<open>
  What the hourly section of the Climacell adapter leaves alone: every top-level entry
  but \<^verbatim>\<open>hourly\<close> and \<^verbatim>\<open>minutely\<close>, and in the \<^verbatim>\<open>minutely\<close> block every
  entry but \<^verbatim>\<open>summary\<close> and \<^verbatim>\<open>icon\<close>.
\<close>

definition hourly_frame :: "pyval \<Rightarrow> pyval \<Rightarrow> bool" where
  "hourly_frame out out' \<longleftrightarrow>
     (\<forall>k. k \<noteq> ''hourly'' \<and> k \<noteq> ''minutely'' \<longrightarrow> field out' k = field out k)
     \<and> (\<forall>b. b \<noteq> ''summary'' \<and> b \<noteq> ''icon'' \<longrightarrow>
            field2 out' ''minutely'' b = field2 out ''minutely'' b)"

text \<open>All four Climacell fetches came back truthy: the adapter goes on to merge.\<close>

definition cc_ran :: "cc_fetched \<Rightarrow> bool" where
  "cc_ran fetched \<longleftrightarrow>
     py_truthy (result_or_none (get_current fetched))
     \<and> py_truthy (result_or_none (get_minutely fetched))
     \<and> py_truthy (result_or_none (get_hourly fetched))
     \<and> py_truthy (result_or_none (get_daily fetched))"

text \<open>The \<^verbatim>\<open>expires\<close> of an alert is a number greater than \<open>t\<close>.\<close>

definition expires_after :: "pyval \<Rightarrow> rat \<Rightarrow> bool" where
  "expires_after alert t =
     (case field alert ''expires'' of
        None \<Rightarrow> False
      | Some e \<Rightarrow> (case as_num e of Inl err \<Rightarrow> False | Inr n \<Rightarrow> fless (Finite t) (num_val n)))"

text \<open>A document has no \<^verbatim>\<open>alerts\<close> entry of length 0.\<close>

definition no_empty_alerts :: "pyval \<Rightarrow> bool" where
  "no_empty_alerts doc =
     (case field doc ''alerts'' of None \<Rightarrow> True | Some alerts \<Rightarrow> py_len alerts \<noteq> Inr 0)"

text \<open>An alert whose \<^verbatim>\<open>expires\<close> is greater than one of the clock readings.\<close>

definition unexpired :: "library \<Rightarrow> pyval \<Rightarrow> bool" where
  "unexpired lib alert \<longleftrightarrow> (\<exists>i. expires_after alert (now_at_alert lib i))"

section \<open>Evaluating the arithmetic\<close>

lemma floor_rat_numeral_div:
  "\<lfloor>(numeral a / numeral b :: rat)\<rfloor> = numeral a div numeral b"
  by (metis floor_divide_of_int_eq of_int_numeral)

lemma floor_rat_neg_numeral_div:
  "\<lfloor>(- numeral a / numeral b :: rat)\<rfloor> = - numeral a div numeral b"
  by (metis floor_divide_of_int_eq of_int_numeral of_int_minus)

lemmas round_simps =
  round2_def round_half_even_def floor_rat_numeral_div floor_rat_neg_numeral_div

lemmas fetch_simps = getKeyValue_def apply_func_def ebind_def py_getitem2_def

section \<open>Properties of getKeyValue\<close>

lemma walk_append:
  "walk d (ps @ ks) =
     (case walk d ps of Inl e \<Rightarrow> Inl e | Inr None \<Rightarrow> Inr None | Inr (Some c) \<Rightarrow> walk c ks)"
proof (induction d ps rule: walk.induct)
  case (1 d)
  show ?case by simp
next
  case (2 d k ks')
  then show ?case by (simp split: sum.splits)
next
  case (3 d k ks')
  then show ?case by (simp split: sum.splits)
qed

lemma array_len_py_len: "array_len c = Some n \<Longrightarrow> py_len c = Inr n"
  by (cases c) auto

text \<open>
  The upper bound, the missing string key and the transform. Along any key path, once
  the walk has reached a container \<open>c\<close>: an integer key at or beyond the length of an
  array-like \<open>c\<close>, and a string key that \<^verbatim>\<open>in\<close> does not find in \<open>c\<close>, both end the
  walk with \<^verbatim>\<open>None\<close> and no exception, whatever keys follow and whatever transform
  was given. When the walk reaches the end of the path with the value \<open>v\<close>, the
  transform is applied exactly when \<open>v\<close> is truthy and a transform was given; otherwise
  \<open>v\<close> itself is returned.
\<close>

lemma getKeyValue_absent_and_transform:
  "(walk d ps = Inr (Some c) \<longrightarrow> array_len c = Some n \<longrightarrow> int n \<le> k \<longrightarrow>
      getKeyValue d (ps @ KInt k # ks) func = Inr PNone)
   \<and> (walk d ps = Inr (Some c) \<longrightarrow> py_contains_str c s = Inr False \<longrightarrow>
      getKeyValue d (ps @ KStr s # ks) func = Inr PNone)
   \<and> (walk d ps = Inr (Some v) \<longrightarrow>
      getKeyValue d ps func =
        (if py_truthy v \<and> func \<noteq> None then the func v else Inr v))"
proof (intro conjI impI)
  assume "walk d ps = Inr (Some c)" and "array_len c = Some n" and "int n \<le> k"
  then show "getKeyValue d (ps @ KInt k # ks) func = Inr PNone"
    by (simp add: getKeyValue_def walk_append array_len_py_len)
next
  assume "walk d ps = Inr (Some c)" and "py_contains_str c s = Inr False"
  then show "getKeyValue d (ps @ KStr s # ks) func = Inr PNone"
    by (simp add: getKeyValue_def walk_append)
next
  assume "walk d ps = Inr (Some v)"
  then show "getKeyValue d ps func =
      (if py_truthy v \<and> func \<noteq> None then the func v else Inr v)"
    by (cases func) (simp_all add: getKeyValue_def apply_func_def)
qed

lemma getKeyValue_absent_and_transform_instance:
  "walk (PDict [(''a'', PList [PInt 1])]) [KStr ''a''] = Inr (Some (PList [PInt 1]))
   \<and> array_len (PList [PInt 1]) = Some 1 \<and> int 1 \<le> 1
   \<and> getKeyValue (PDict [(''a'', PList [PInt 1])]) ([KStr ''a''] @ KInt 1 # [KStr ''b''])
         (Some (\<lambda>x. Inl TypeError)) = Inr PNone
   \<and> py_contains_str (PList [PInt 1]) ''x'' = Inr False
   \<and> getKeyValue (PDict [(''a'', PList [PInt 1])]) ([KStr ''a''] @ KStr ''x'' # [KStr ''b''])
         (Some (\<lambda>x. Inl TypeError)) = Inr PNone
   \<and> getKeyValue (PDict [(''a'', PList [PInt 1])]) [KStr ''a''] (Some (\<lambda>x. Inl TypeError))
         = Inl TypeError"
  using getKeyValue_absent_and_transform
    [where d = "PDict [(''a'', PList [PInt 1])]" and ps = "[KStr ''a'']"
       and c = "PList [PInt 1]" and n = 1 and k = 1 and ks = "[KStr ''b'']"
       and func = "Some (\<lambda>x. Inl TypeError)" and s = "''x''" and v = "PList [PInt 1]"]
  by simp

text \<open>
  C7. \<^verbatim>\<open>getKeyValue\<close> is to return \<^verbatim>\<open>None\<close>, without raising, whenever an integer
  key is not within the bounds of the array-like container it is applied to; its
  docstring says that it checks that each key exists and returns \<^verbatim>\<open>None\<close> if the
  element does not exist. The guard of the loop tests the upper bound only,
  \<^verbatim>\<open>key < len(dictionary_element)\<close>: for the one-element list \<^verbatim>\<open>[7]\<close>, whose bounds
  are \<open>-1 \<dots> 0\<close>, the key \<open>-2\<close> is out of bounds, passes the guard, and the subscript
  raises \<^verbatim>\<open>IndexError\<close> where \<^verbatim>\<open>None\<close> was to be returned.
\<close>

theorem getKeyValue_negative_key_raises:
  "array_len (PList [PInt 7]) = Some 1 \<and> \<not> (- int 1 \<le> - 2 \<and> - 2 < int 1)
   \<and> getKeyValue (PList [PInt 7]) [KInt (- 2)] None = Inl IndexError"
  by (simp add: getKeyValue_def seq_index_def)

section \<open>The mappers and the conversions at their points of use\<close>

text \<open>
  The primary mapper never raises on a string: it returns a name of the table with
  nothing logged, or the empty string with the message printed (and logged when an
  application object was passed).
\<close>

lemma noaa_mapIcons_degrades:
  "\<exists>name logs. noaa_mapIcons (PStr s) flask_app = Inr (PStr name, logs)
     \<and> (name \<noteq> [] \<longrightarrow> logs = [])
     \<and> (logs = [] \<longrightarrow> name \<in> snd ` set noaa_icon_list)"
proof (cases "case search_icons CHR '','' s of Some m \<Rightarrow> Some m | None \<Rightarrow> search_icons CHR ''?'' s")
  case None
  then show ?thesis by (simp add: noaa_mapIcons_def)
next
  case (Some token)
  show ?thesis
  proof (cases "map_of noaa_icon_list token")
    case None
    with Some show ?thesis by (simp add: noaa_mapIcons_def)
  next
    case (Some name)
    have "name \<in> snd ` set noaa_icon_list"
      using Some by (metis map_of_SomeD snd_conv image_eqI)
    with Some \<open>_ = Some token\<close> show ?thesis by (simp add: noaa_mapIcons_def)
  qed
qed

text \<open>
  C5 fails on the Climacell side. \<^verbatim>\<open>hail\<close> is in neither Climacell table; the icon
  mapper raises \<^verbatim>\<open>NameError\<close> for it, with an application object and without one,
  and so does the condition mapper: no warning is logged and no empty string is
  returned. The same URL token sent through the primary mapper gives the empty string
  and two log lines.
\<close>

theorem climacell_unknown_code_raises:
  "map_of climacell_icon_list ''hail'' = None
   \<and> cc_mapIcons (PStr ''hail'') True = Inl NameError
   \<and> cc_mapIcons (PStr ''hail'') False = Inl NameError
   \<and> mapClimacellWeatherCode (PStr ''hail'') = Inl NameError
   \<and> noaa_mapIcons (PStr ''https://api.weather.gov/icons/land/day/hail?size=medium'') True =
       Inr (PStr [], [Warning ''Parsed icon sucessfully but can't find it in the list: '',
                      Printed ''Parsed icon sucessfully but can't find it in the list: ''])"
  by (simp add: cc_mapIcons_def climacell_icon_list_def mapClimacellWeatherCode_def
      weather_codes_def noaa_mapIcons_def noaa_icon_list_def)

text \<open>
  C9 fails at the current conditions. The conversions themselves give 32.0 for 0 and
  22.37 for 10, but \<^verbatim>\<open>getKeyValue\<close> applies a transform to truthy values only: a
  station observation of 0 degrees Celsius comes out as the raw 0, not as 32.0. The
  wind speed of 10 m/s in the same observation is converted.
\<close>

theorem noaa_currently_zero_celsius:
  "celsius_to_fahrenheit (PInt 0) = Inr (PFloat (Finite 32))
   \<and> mps_to_mph (PInt 10) = Inr (PFloat (Finite (2237 / 100)))
   \<and> noaa_currently lib
        (PDict [(''properties'',
           PDict [(''temperature'', PDict [(''value'', PInt 0)]),
                  (''windSpeed'', PDict [(''value'', PInt 10)])])]) =
       Inr (Some (PDict
         [(''time'', PNone), (''summary'', PNone), (''icon'', PNone), (''precipIntensity'', PNone),
          (''temperature'', PInt 0), (''apparentTemperature'', PNone), (''dewPoint'', PNone),
          (''humidity'', PNone), (''pressure'', PNone), (''windSpeed'', PFloat (Finite (2237 / 100))),
          (''windGust'', PNone), (''windBearing'', PNone), (''visibility'', PNone)]))"
  by (simp add: noaa_currently_def fetch_simps celsius_to_fahrenheit_def
      mps_to_mph_def round_simps noaa_current_humidity_def)

text \<open>
  C4 fails at the current conditions of the primary adapter: the humidity written is
  \<^verbatim>\<open>100 - 5 * (temperature - dewpoint)\<close>, a percentage. A station observation of
  20 and 10 degrees Celsius gives the humidity 50. In the secondary adapter a humidity
  of 55 percent becomes 0.55 in the hourly entry, but 1 in the current conditions
  (\<^verbatim>\<open>round(x / 100)\<close> rounds to an integer), and daily samples of 40 and 60
  percent become the daily humidity 30.0.
\<close>

theorem noaa_currently_humidity_percent:
  "noaa_currently lib
        (PDict [(''properties'',
           PDict [(''temperature'', PDict [(''value'', PInt 20)]),
                  (''dewpoint'', PDict [(''value'', PInt 10)])])]) =
       Inr (Some (PDict
         [(''time'', PNone), (''summary'', PNone), (''icon'', PNone), (''precipIntensity'', PNone),
          (''temperature'', PFloat (Finite 68)), (''apparentTemperature'', PNone), (''dewPoint'', PFloat (Finite 50)),
          (''humidity'', PInt 50), (''pressure'', PNone), (''windSpeed'', PNone),
          (''windGust'', PNone), (''windBearing'', PNone), (''visibility'', PNone)]))
   \<and> getKeyValue example_output [KStr ''hourly'', KStr ''data'', KInt 0, KStr ''humidity''] None =
       Inr (PFloat (Finite (55 / 100)))
   \<and> getKeyValue example_output [KStr ''currently'', KStr ''humidity''] None = Inr (PInt 1)
   \<and> getKeyValue example_output [KStr ''daily'', KStr ''data'', KInt 0, KStr ''humidity''] None =
       Inr (PFloat (Finite 30))"
proof -
  have "getKeyValue example_output [KStr ''hourly'', KStr ''data'', KInt 0, KStr ''humidity''] None =
       Inr (PFloat (Finite (55 / 100)))
   \<and> getKeyValue example_output [KStr ''currently'', KStr ''humidity''] None = Inr (PInt 1)
   \<and> getKeyValue example_output [KStr ''daily'', KStr ''data'', KInt 0, KStr ''humidity''] None =
       Inr (PFloat (Finite 30))"
    by code_simp
  then show ?thesis
    by (simp add: noaa_currently_def fetch_simps celsius_to_fahrenheit_def
        mps_to_mph_def round_simps noaa_current_humidity_def)
qed

section \<open>What an assignment changes\<close>

lemma ebind_Inr_iff: "ebind m f = Inr y \<longleftrightarrow> (\<exists>x. m = Inr x \<and> f x = Inr y)"
  by (cases m) (simp_all add: ebind_def)

lemma efold_invariant:
  assumes "efold step xs st = Inr st'" and "I st"
    and "\<And>x s s'. I s \<Longrightarrow> step x s = Inr s' \<Longrightarrow> I s'"
  shows "I st'"
  using assms(1,2)
proof (induction xs arbitrary: st)
  case Nil
  then show ?case by simp
next
  case (Cons x xs)
  from Cons.prems(1) obtain s1 where s1: "step x st = Inr s1" and rest: "efold step xs s1 = Inr st'"
    by (auto simp add: ebind_Inr_iff)
  from assms(3) [OF Cons.prems(2) s1] have "I s1" .
  with rest show ?case by (rule Cons.IH)
qed

lemma efold_snoc: "efold step (xs @ [x]) st = ebind (efold step xs st) (step x)"
  by (induction xs arbitrary: st) (simp_all add: ebind_def split: sum.splits)

lemma field_setitem_str:
  "py_setitem_str d k v = Inr d' \<Longrightarrow> field d' k' = (if k' = k then Some v else field d k')"
  by (cases d) (auto simp add: field_def update_conv')

lemma field2_setitem_str:
  "py_setitem_str d k v = Inr d' \<Longrightarrow> a \<noteq> k \<Longrightarrow> field2 d' a b = field2 d a b"
  by (simp add: field2_def field_setitem_str)

lemma getitem_str_field: "py_getitem_str d k = Inr v \<longleftrightarrow> field d k = Some v"
  by (cases d) (auto simp add: field_def split: option.splits)

lemma field_setitem2:
  assumes "py_setitem2 d k1 k2 v = Inr d'" and "k \<noteq> k1"
  shows "field d' k = field d k"
  using assms by (auto simp add: py_setitem2_def ebind_Inr_iff field_setitem_str)

lemma field2_setitem2:
  assumes "py_setitem2 d k1 k2 v = Inr d'"
  shows "field2 d' a b = (if a = k1 \<and> b = k2 then Some v else field2 d a b)"
proof -
  from assms obtain inner inner' where
    i: "py_getitem_str d k1 = Inr inner" and
    s: "py_setitem_str inner k2 v = Inr inner'" and
    t: "py_setitem_str d k1 inner' = Inr d'"
    by (auto simp add: py_setitem2_def ebind_Inr_iff)
  from i have f: "field d k1 = Some inner" by (simp add: getitem_str_field)
  show ?thesis
    using field_setitem_str [OF t] field_setitem_str [OF s] f
    by (auto simp add: field2_def)
qed

lemma field2_getKeyValue:
  "field2 d a b = Some v \<Longrightarrow> getKeyValue d [KStr a, KStr b] None = Inr v"
  by (cases d; cases "field d a")
     (auto simp add: field2_def field_def getKeyValue_def apply_func_def split: pyval.splits option.splits)

lemma getKeyValue_field2:
  "getKeyValue d [KStr a, KStr b] None = Inr v \<Longrightarrow> v \<noteq> PNone \<Longrightarrow> field2 d a b = Some v"
  apply (cases d)
  apply (auto simp add: field2_def field_def getKeyValue_def apply_func_def split: pyval.splits option.splits sum.splits if_splits)
  done

section \<open>What the sections of the Climacell adapter change\<close>

lemma cc_currently_field:
  "cc_currently lib obj out = Inr out' \<Longrightarrow> k \<noteq> ''currently'' \<Longrightarrow> field out' k = field out k"
  by (auto simp add: cc_currently_def ebind_Inr_iff field_setitem_str)

lemma no_data_nonempty_list: "no_data (PList (m # ms)) = Inr False"
  by (simp add: no_data_def ebind_def)

lemma cc_minutely_keeps:
  assumes "field2 out ''minutely'' ''data'' = Some (PList (m # ms))"
  shows "cc_minutely lib obj out = Inr out"
  using field2_getKeyValue [OF assms]
  by (simp add: cc_minutely_def ebind_def no_data_nonempty_list)

lemma cc_minutely_field:
  "cc_minutely lib obj out = Inr out' \<Longrightarrow> k \<noteq> ''minutely'' \<Longrightarrow> field out' k = field out k"
  by (auto simp add: cc_minutely_def ebind_Inr_iff field_setitem_str split: if_splits)

lemma copy_first_hour_field2:
  assumes "copy_first_hour hs out = Inr out'"
  shows "\<exists>first summary icon.
     py_getitem_int hs 0 = Inr first \<and> field first ''summary'' = Some summary
     \<and> field first ''icon'' = Some icon
     \<and> (\<forall>a b. field2 out' a b =
          (if b = ''summary'' \<and> (a = ''minutely'' \<or> a = ''hourly'') then Some summary
           else if b = ''icon'' \<and> (a = ''minutely'' \<or> a = ''hourly'') then Some icon
           else field2 out a b))"
proof -
  from assms obtain first summary icon o1 o2 o3 where
    f: "py_getitem_int hs 0 = Inr first" and
    s: "py_getitem_str first ''summary'' = Inr summary" and
    a1: "py_setitem2 out ''hourly'' ''summary'' summary = Inr o1" and
    i: "py_getitem_str first ''icon'' = Inr icon" and
    a2: "py_setitem2 o1 ''hourly'' ''icon'' icon = Inr o2" and
    a3: "py_setitem2 o2 ''minutely'' ''summary'' summary = Inr o3" and
    a4: "py_setitem2 o3 ''minutely'' ''icon'' icon = Inr out'"
    by (auto simp add: copy_first_hour_def ebind_Inr_iff)
  from s have s': "field first ''summary'' = Some summary" by (simp add: getitem_str_field)
  from i have i': "field first ''icon'' = Some icon" by (simp add: getitem_str_field)
  have "\<forall>a b. field2 out' a b =
          (if b = ''summary'' \<and> (a = ''minutely'' \<or> a = ''hourly'') then Some summary
           else if b = ''icon'' \<and> (a = ''minutely'' \<or> a = ''hourly'') then Some icon
           else field2 out a b)"
    unfolding field2_setitem2 [OF a4] field2_setitem2 [OF a3] field2_setitem2 [OF a2]
      field2_setitem2 [OF a1]
    by auto
  with f s' i' show ?thesis by blast
qed

lemma copy_first_hour_field:
  assumes "copy_first_hour hs out = Inr out'" and "k \<noteq> ''hourly''" and "k \<noteq> ''minutely''"
  shows "field out' k = field out k"
proof -
  from assms(1) obtain first summary icon o1 o2 o3 where
    a1: "py_setitem2 out ''hourly'' ''summary'' summary = Inr o1" and
    a2: "py_setitem2 o1 ''hourly'' ''icon'' icon = Inr o2" and
    a3: "py_setitem2 o2 ''minutely'' ''summary'' summary = Inr o3" and
    a4: "py_setitem2 o3 ''minutely'' ''icon'' icon = Inr out'"
    by (auto simp add: copy_first_hour_def ebind_Inr_iff)
  show ?thesis
    using field_setitem2 [OF a4, of k] field_setitem2 [OF a3, of k] field_setitem2 [OF a2, of k]
      field_setitem2 [OF a1, of k] assms(2,3) by simp
qed

lemma cc_hour_step_copy:
  "cc_hour_step lib obj i (hs, out) = Inr (hs', out') \<Longrightarrow> copy_first_hour hs' out = Inr out'"
  by (auto simp add: cc_hour_step_def ebind_Inr_iff)

lemma hourly_frame_refl: "hourly_frame out out"
  by (simp add: hourly_frame_def)

lemma hourly_frame_copy:
  assumes "hourly_frame out o1" and "copy_first_hour hs o1 = Inr o2"
  shows "hourly_frame out o2"
proof -
  from copy_first_hour_field2 [OF assms(2)]
  have "\<forall>b. b \<noteq> ''summary'' \<and> b \<noteq> ''icon'' \<longrightarrow> field2 o2 ''minutely'' b = field2 o1 ''minutely'' b"
    by auto
  moreover have "\<forall>k. k \<noteq> ''hourly'' \<and> k \<noteq> ''minutely'' \<longrightarrow> field o2 k = field o1 k"
    using copy_first_hour_field [OF assms(2)] by simp
  ultimately show ?thesis using assms(1) by (simp add: hourly_frame_def)
qed

lemma hourly_loop_frame:
  assumes "efold (cc_hour_step lib obj) xs (hs, out) = Inr st'"
  shows "hourly_frame out (snd st')"
proof (rule efold_invariant [OF assms, where I = "\<lambda>st. hourly_frame out (snd st)"])
  show "hourly_frame out (snd (hs, out))" by (simp add: hourly_frame_refl)
next
  fix x s s'
  assume I: "hourly_frame out (snd s)" and step: "cc_hour_step lib obj x s = Inr s'"
  from step have "copy_first_hour (fst s') (snd s) = Inr (snd s')"
    using cc_hour_step_copy [of lib obj x "fst s" "snd s" "fst s'" "snd s'"] by simp
  with I show "hourly_frame out (snd s')" by (rule hourly_frame_copy)
qed

lemma hourly_loop_last:
  assumes "efold (cc_hour_step lib obj) xs st = Inr (hs', out')" and "xs \<noteq> []"
  shows "\<exists>first summary icon.
     py_getitem_int hs' 0 = Inr first \<and> field first ''summary'' = Some summary
     \<and> field first ''icon'' = Some icon
     \<and> field2 out' ''minutely'' ''summary'' = Some summary
     \<and> field2 out' ''minutely'' ''icon'' = Some icon"
proof -
  from assms(2) have xs: "xs = butlast xs @ [last xs]" by simp
  from assms(1) obtain s1 where
    "cc_hour_step lib obj (last xs) s1 = Inr (hs', out')"
    by (subst (asm) xs) (auto simp add: efold_snoc ebind_Inr_iff)
  then have "copy_first_hour hs' (snd s1) = Inr out'"
    using cc_hour_step_copy [of lib obj "last xs" "fst s1" "snd s1" hs' out'] by simp
  from copy_first_hour_field2 [OF this] show ?thesis by auto
qed

lemma truthy_no_data: "py_truthy v \<Longrightarrow> no_data v = Inr e \<Longrightarrow> \<not> e \<and> (\<exists>n. py_len v = Inr n \<and> 0 < n)"
  by (cases v) (auto simp add: no_data_def ebind_def)

lemma cc_hourly_frame:
  assumes "cc_hourly lib obj out = Inr out'"
  shows "hourly_frame out out'"
proof -
  from assms obtain hs n st where
    loop: "efold (cc_hour_step lib obj) [0 ..< n] (hs, out) = Inr st" and
    fin: "py_setitem2 (snd st) ''hourly'' ''data'' (fst st) = Inr out'"
    by (auto simp add: cc_hourly_def ebind_Inr_iff Let_def)
  from hourly_loop_frame [OF loop] have "hourly_frame out (snd st)" .
  then show ?thesis
    using field_setitem2 [OF fin] field2_setitem2 [OF fin]
    by (simp add: hourly_frame_def)
qed

lemma cc_hourly_first:
  assumes "cc_hourly lib obj out = Inr out'"
    and "field2 out ''hourly'' ''data'' = Some hs0" and "py_truthy hs0"
  shows "\<exists>hs first summary icon.
     field2 out' ''hourly'' ''data'' = Some hs
     \<and> py_getitem_int hs 0 = Inr first \<and> field first ''summary'' = Some summary
     \<and> field first ''icon'' = Some icon
     \<and> field2 out' ''minutely'' ''summary'' = Some summary
     \<and> field2 out' ''minutely'' ''icon'' = Some icon"
proof -
  have found: "getKeyValue out [KStr ''hourly'', KStr ''data''] None = Inr hs0"
    using assms(2) by (rule field2_getKeyValue)
  from assms(1) found obtain e n st where
    e: "no_data hs0 = Inr e" and
    n: "py_len (if e then PList (map (\<lambda>timestamp. PDict [(''time'', PInt timestamp)])
                 [hour_start lib + (hour_start lib + 3600 * 48) .. 3600 - 1]) else hs0) = Inr n" and
    loop: "efold (cc_hour_step lib obj) [0 ..< n]
       (if e then PList (map (\<lambda>timestamp. PDict [(''time'', PInt timestamp)])
                 [hour_start lib + (hour_start lib + 3600 * 48) .. 3600 - 1]) else hs0, out) = Inr st" and
    fin: "py_setitem2 (snd st) ''hourly'' ''data'' (fst st) = Inr out'"
    by (auto simp add: cc_hourly_def ebind_Inr_iff Let_def)
  from truthy_no_data [OF assms(3) e] n have "0 < n" by auto
  then have ne: "[0 ..< n] \<noteq> []" by simp
  from loop have "efold (cc_hour_step lib obj) [0 ..< n]
       (if e then PList (map (\<lambda>timestamp. PDict [(''time'', PInt timestamp)])
                 [hour_start lib + (hour_start lib + 3600 * 48) .. 3600 - 1]) else hs0, out)
      = Inr (fst st, snd st)" by simp
  from hourly_loop_last [OF this ne] obtain first summary icon where
    "py_getitem_int (fst st) 0 = Inr first" "field first ''summary'' = Some summary"
    "field first ''icon'' = Some icon"
    "field2 (snd st) ''minutely'' ''summary'' = Some summary"
    "field2 (snd st) ''minutely'' ''icon'' = Some icon" by blast
  then show ?thesis
    using field2_setitem2 [OF fin] by auto
qed

lemma cc_daily_field:
  assumes "cc_daily lib obj out = Inr out'" and "k \<noteq> ''daily''"
  shows "field out' k = field out k"
proof -
  from assms(1) obtain st summary icon o1 o2 where
    a1: "py_setitem2 out ''daily'' ''summary'' summary = Inr o1" and
    a2: "py_setitem2 o1 ''daily'' ''icon'' icon = Inr o2" and
    a3: "py_setitem2 o2 ''daily'' ''data'' (fst st) = Inr out'"
    by (auto simp add: cc_daily_def ebind_Inr_iff)
  show ?thesis
    using field_setitem2 [OF a3, of k] field_setitem2 [OF a2, of k] field_setitem2 [OF a1, of k]
      assms(2) by simp
qed

lemma cc_sources_field:
  assumes "cc_sources inp out = Inr out'" and "k \<noteq> ''flags''"
  shows "field out' k = field out k"
  using assms by (auto simp add: cc_sources_def ebind_Inr_iff field_setitem2)

lemma cc_sources_appends:
  assumes "cc_sources inp out = Inr out'"
    and "field2 inp ''flags'' ''sources'' = Some present" and "py_truthy present"
  shows "\<exists>names. py_iter present = Inr names
     \<and> field2 out' ''flags'' ''sources'' = Some (PList (names @ [PStr ''climacell'']))"
proof -
  have g: "getKeyValue inp [KStr ''flags'', KStr ''sources''] None = Inr present"
    using assms(2) by (rule field2_getKeyValue)
  from assms(1) g assms(3) obtain names where
    n: "py_iter present = Inr names" and
    s: "py_setitem2 out ''flags'' ''sources'' (PList (names @ [PStr ''climacell''])) = Inr out'"
    by (auto simp add: cc_sources_def ebind_Inr_iff)
  from field2_setitem2 [OF s] n show ?thesis by simp
qed

lemma field2_field: "field out' a = field out a \<Longrightarrow> field2 out' a b = field2 out a b"
  by (simp add: field2_def)

lemma cc_get_soft_failure:
  "\<not> cc_ran fetched \<Longrightarrow> cc_get lib fetched latitude longitude apikey inp = Inr (soft_failure inp)"
  by (auto simp add: cc_get_def cc_ran_def Let_def)

lemma cc_get_sections:
  assumes "cc_ran fetched" and "cc_get lib fetched latitude longitude apikey inp = Inr out"
  shows "\<exists>o0 o1 o2 o3 o4.
     cc_initial_output lib latitude longitude inp = Inr o0
     \<and> cc_currently lib (result_or_none (get_current fetched)) o0 = Inr o1
     \<and> cc_minutely lib (result_or_none (get_minutely fetched)) o1 = Inr o2
     \<and> cc_hourly lib (result_or_none (get_hourly fetched)) o2 = Inr o3
     \<and> cc_daily lib (result_or_none (get_daily fetched)) o3 = Inr o4
     \<and> cc_sources inp o4 = Inr out"
  using assms by (auto simp add: cc_get_def cc_ran_def Let_def ebind_Inr_iff)

lemma field2_truthy: "field2 d a b = Some v \<Longrightarrow> py_truthy d"
  by (cases d) (auto simp add: field2_def field_def)

lemma cc_initial_output_truthy: "py_truthy inp \<Longrightarrow> cc_initial_output lib latitude longitude inp = Inr inp"
  by (simp add: cc_initial_output_def)

lemma cc_get_keeps_minutely_data:
  assumes "field2 inp ''minutely'' ''data'' = Some (PList (m # ms))"
    and "cc_get lib fetched latitude longitude apikey inp = Inr out"
  shows "field2 out ''minutely'' ''data'' = Some (PList (m # ms))"
proof (cases "cc_ran fetched")
  case False
  with assms(2) have "out = soft_failure inp" by (simp add: cc_get_soft_failure)
  with assms(1) show ?thesis by (simp add: soft_failure_def field2_truthy)
next
  case True
  from cc_get_sections [OF True assms(2)] obtain o0 o1 o2 o3 o4 where
    s0: "cc_initial_output lib latitude longitude inp = Inr o0" and
    s1: "cc_currently lib (result_or_none (get_current fetched)) o0 = Inr o1" and
    s2: "cc_minutely lib (result_or_none (get_minutely fetched)) o1 = Inr o2" and
    s3: "cc_hourly lib (result_or_none (get_hourly fetched)) o2 = Inr o3" and
    s4: "cc_daily lib (result_or_none (get_daily fetched)) o3 = Inr o4" and
    s5: "cc_sources inp o4 = Inr out" by blast
  from s0 assms(1) have "o0 = inp" by (simp add: cc_initial_output_truthy field2_truthy)
  with assms(1) have "field2 o1 ''minutely'' ''data'' = Some (PList (m # ms))"
    using cc_currently_field [OF s1, of "''minutely''"] by (simp add: field2_def)
  then have m1: "field2 o2 ''minutely'' ''data'' = Some (PList (m # ms))"
    using s2 by (simp add: cc_minutely_keeps)
  from cc_hourly_frame [OF s3] have "field2 o3 ''minutely'' ''data'' = field2 o2 ''minutely'' ''data''"
    by (simp add: hourly_frame_def)
  moreover have "field2 o4 ''minutely'' ''data'' = field2 o3 ''minutely'' ''data''"
    using cc_daily_field [OF s4, of "''minutely''"] by (simp add: field2_def)
  moreover have "field2 out ''minutely'' ''data'' = field2 o4 ''minutely'' ''data''"
    using cc_sources_field [OF s5, of "''minutely''"] by (simp add: field2_def)
  ultimately show ?thesis using m1 by simp
qed

lemma getKeyValue_same_field:
  assumes "field d' a = field d a" and "d = PDict kvs" and "d' = PDict kvs'"
  shows "getKeyValue d' (KStr a # ks) f = getKeyValue d (KStr a # ks) f"
  using assms by (simp add: getKeyValue_def field_def split: option.splits)

lemma setitem_str_dict: "py_setitem_str d k v = Inr d' \<Longrightarrow> (\<exists>kvs kvs'. d = PDict kvs \<and> d' = PDict kvs')"
  by (cases d) auto

lemma cc_minutely_writes:
  assumes "cc_minutely lib obj out = Inr out'"
    and "getKeyValue out [KStr ''minutely'', KStr ''data''] None = Inr md" and "no_data md = Inr True"
  shows "\<exists>minutes entries. py_iter obj = Inr minutes \<and> emap (cc_minute_entry lib) minutes = Inr entries
     \<and> field2 out' ''minutely'' ''data'' = Some (PList entries)"
proof -
  from assms obtain minutes entries where
    "py_iter obj = Inr minutes" "emap (cc_minute_entry lib) minutes = Inr entries"
    "py_setitem_str out ''minutely''
         (PDict [(''summary'', PNone), (''icon'', PNone), (''data'', PList entries)]) = Inr out'"
    by (auto simp add: cc_minutely_def ebind_Inr_iff)
  note w = this
  from field_setitem_str [OF w(3), of "''minutely''"]
  have "field2 out' ''minutely'' ''data'' = Some (PList entries)"
    by (simp add: field2_def field_def)
  with w(1,2) show ?thesis by blast
qed

lemma cc_get_writes_minutely_data:
  assumes "cc_ran fetched" and "py_truthy inp"
    and "getKeyValue inp [KStr ''minutely'', KStr ''data''] None = Inr md" and "no_data md = Inr True"
    and "cc_get lib fetched latitude longitude apikey inp = Inr out"
  shows "\<exists>minutes entries. py_iter (result_or_none (get_minutely fetched)) = Inr minutes
     \<and> emap (cc_minute_entry lib) minutes = Inr entries
     \<and> field2 out ''minutely'' ''data'' = Some (PList entries)"
proof -
  from cc_get_sections [OF assms(1,5)] obtain o0 o1 o2 o3 o4 where
    s0: "cc_initial_output lib latitude longitude inp = Inr o0" and
    s1: "cc_currently lib (result_or_none (get_current fetched)) o0 = Inr o1" and
    s2: "cc_minutely lib (result_or_none (get_minutely fetched)) o1 = Inr o2" and
    s3: "cc_hourly lib (result_or_none (get_hourly fetched)) o2 = Inr o3" and
    s4: "cc_daily lib (result_or_none (get_daily fetched)) o3 = Inr o4" and
    s5: "cc_sources inp o4 = Inr out" by blast
  from s0 assms(2) have o0: "o0 = inp" by (simp add: cc_initial_output_truthy)
  from s1 obtain currently where "py_setitem_str o0 ''currently'' currently = Inr o1"
    by (auto simp add: cc_currently_def ebind_Inr_iff)
  from setitem_str_dict [OF this] obtain kvs kvs' where d: "o0 = PDict kvs" "o1 = PDict kvs'"
    by blast
  have "field o1 ''minutely'' = field o0 ''minutely''"
    using cc_currently_field [OF s1, of "''minutely''"] by simp
  from getKeyValue_same_field [OF this d] assms(3) o0
  have "getKeyValue o1 [KStr ''minutely'', KStr ''data''] None = Inr md" by simp
  from cc_minutely_writes [OF s2 this assms(4)] obtain minutes entries where
    m: "py_iter (result_or_none (get_minutely fetched)) = Inr minutes"
       "emap (cc_minute_entry lib) minutes = Inr entries"
       "field2 o2 ''minutely'' ''data'' = Some (PList entries)" by blast
  from cc_hourly_frame [OF s3] have "field2 o3 ''minutely'' ''data'' = field2 o2 ''minutely'' ''data''"
    by (simp add: hourly_frame_def)
  moreover have "field2 o4 ''minutely'' ''data'' = field2 o3 ''minutely'' ''data''"
    using cc_daily_field [OF s4, of "''minutely''"] by (simp add: field2_def)
  moreover have "field2 out ''minutely'' ''data'' = field2 o4 ''minutely'' ''data''"
    using cc_sources_field [OF s5, of "''minutely''"] by (simp add: field2_def)
  ultimately show ?thesis using m by auto
qed

lemma getKeyValue_first_of_block:
  assumes "field2 out a b = Some hs" and "py_getitem_int hs 0 = Inr first"
    and "field first k = Some v"
  shows "getKeyValue out [KStr a, KStr b, KInt 0, KStr k] None = Inr v"
proof -
  from assms(1) obtain kvs block where o: "out = PDict kvs" "map_of kvs a = Some block"
    "field block b = Some hs"
    by (cases out) (auto simp add: field2_def field_def split: option.splits)
  from o(3) obtain bkvs where b: "block = PDict bkvs" "map_of bkvs b = Some hs"
    by (cases block) (auto simp add: field_def)
  from assms(3) obtain fkvs where f: "first = PDict fkvs" "map_of fkvs k = Some v"
    by (cases first) (auto simp add: field_def)
  from assms(2) f(1) have "\<exists>n. py_len hs = Inr n \<and> 0 < n"
    by (cases hs) (auto simp add: seq_index_def split: if_splits sum.splits)
  then obtain n where n: "py_len hs = Inr n" "0 < n" by blast
  show ?thesis
    using o b f n assms(2) by (simp add: getKeyValue_def apply_func_def)
qed

lemma cc_get_first_hour:
  assumes "cc_ran fetched" and "field2 inp ''hourly'' ''data'' = Some hs0" and "py_truthy hs0"
    and "cc_get lib fetched latitude longitude apikey inp = Inr out"
  shows "\<exists>hs first summary icon.
     field2 out ''hourly'' ''data'' = Some hs
     \<and> py_getitem_int hs 0 = Inr first \<and> field first ''summary'' = Some summary
     \<and> field first ''icon'' = Some icon
     \<and> field2 out ''minutely'' ''summary'' = Some summary
     \<and> field2 out ''minutely'' ''icon'' = Some icon"
proof -
  from cc_get_sections [OF assms(1,4)] obtain o0 o1 o2 o3 o4 where
    s0: "cc_initial_output lib latitude longitude inp = Inr o0" and
    s1: "cc_currently lib (result_or_none (get_current fetched)) o0 = Inr o1" and
    s2: "cc_minutely lib (result_or_none (get_minutely fetched)) o1 = Inr o2" and
    s3: "cc_hourly lib (result_or_none (get_hourly fetched)) o2 = Inr o3" and
    s4: "cc_daily lib (result_or_none (get_daily fetched)) o3 = Inr o4" and
    s5: "cc_sources inp o4 = Inr out" by blast
  from s0 assms(2) have "o0 = inp" by (simp add: cc_initial_output_truthy field2_truthy)
  with assms(2) have "field2 o1 ''hourly'' ''data'' = Some hs0"
    using cc_currently_field [OF s1, of "''hourly''"] by (simp add: field2_def)
  then have "field2 o2 ''hourly'' ''data'' = Some hs0"
    using cc_minutely_field [OF s2, of "''hourly''"] by (simp add: field2_def)
  from cc_hourly_first [OF s3 this assms(3)] obtain hs first summary icon where
    h: "field2 o3 ''hourly'' ''data'' = Some hs" "py_getitem_int hs 0 = Inr first"
       "field first ''summary'' = Some summary" "field first ''icon'' = Some icon"
       "field2 o3 ''minutely'' ''summary'' = Some summary"
       "field2 o3 ''minutely'' ''icon'' = Some icon" by blast
  have "field out ''hourly'' = field o3 ''hourly''"
    using cc_daily_field [OF s4, of "''hourly''"] cc_sources_field [OF s5, of "''hourly''"] by simp
  moreover have "field out ''minutely'' = field o3 ''minutely''"
    using cc_daily_field [OF s4, of "''minutely''"] cc_sources_field [OF s5, of "''minutely''"] by simp
  ultimately have "field2 out ''hourly'' ''data'' = Some hs"
    "field2 out ''minutely'' ''summary'' = Some summary"
    "field2 out ''minutely'' ''icon'' = Some icon"
    using h by (simp_all add: field2_def)
  with h(2,3,4) show ?thesis by blast
qed

section \<open>What the sections of the primary adapter change\<close>

lemma assign_block_field:
  "assign_block key block out = Inr out' \<Longrightarrow> k \<noteq> key \<Longrightarrow> field out' k = field out k"
  by (cases block) (auto simp add: assign_block_def field_setitem_str)

lemma build_dict_Cons:
  "build_dict ((k, r) # rest) = Inr d \<longleftrightarrow>
     (\<exists>v kvs. r = Inr v \<and> build_dict rest = Inr (PDict kvs) \<and> d = PDict ((k, v) # kvs))"
proof (cases r)
  case (Inl e)
  then show ?thesis by (simp add: ebind_def)
next
  case (Inr v)
  show ?thesis
  proof (cases "build_dict rest")
    case (Inl e)
    with Inr show ?thesis by (simp add: ebind_def)
  next
    case (Inr b)
    with \<open>r = Inr v\<close> show ?thesis by (cases b) (auto simp add: ebind_def)
  qed
qed

lemma alert_entry_expires:
  assumes "alert_entry lib cl props = Inr entry"
    and "getKeyValue props [KStr ''expires''] (Some (interval_start lib)) = Inr e"
  shows "field entry ''expires'' = Some e"
proof -
  from assms(1) obtain regions where
    "build_dict
       [(''title'', getKeyValue props [KStr ''event''] None),
        (''regions'', Inr (PList regions)),
        (''severity'', getKeyValue props [KStr ''severity''] None),
        (''time'', getKeyValue props [KStr ''onset''] (Some (interval_start lib))),
        (''expires'', getKeyValue props [KStr ''expires''] (Some (interval_start lib))),
        (''description'', getKeyValue props [KStr ''description''] (Some (collapsed lib))),
        (''url'', getKeyValue props [KStr ''@id''] None)] = Inr entry"
    by (auto simp add: alert_entry_def ebind_Inr_iff)
  then show ?thesis
    using assms(2) unfolding build_dict_Cons by (auto simp add: field_def)
qed

lemma alert_loop_unexpired:
  assumes "alert_loop lib cl i items acc = Inr res" and "list_all (unexpired lib) acc"
  shows "list_all (unexpired lib) res"
  using assms
proof (induction items arbitrary: i acc)
  case Nil
  then show ?case by simp
next
  case (Cons alert items)
  from Cons.prems(1) obtain props expires e where
    p: "getKeyValue alert [KStr ''properties''] None = Inr props" and
    x: "getKeyValue props [KStr ''expires''] (Some (interval_start lib)) = Inr expires" and
    n: "as_num expires = Inr e" and
    r: "(if fless (Finite (now_at_alert lib i)) (num_val e)
         then ebind (alert_entry lib cl props) (\<lambda>entry.
                alert_loop lib cl (Suc i) items (acc @ [entry]))
         else alert_loop lib cl (Suc i) items acc) = Inr res"
    by (auto simp add: ebind_Inr_iff)
  show ?case
  proof (cases "fless (Finite (now_at_alert lib i)) (num_val e)")
    case True
    with r obtain entry where
      en: "alert_entry lib cl props = Inr entry" and
      l: "alert_loop lib cl (Suc i) items (acc @ [entry]) = Inr res"
      by (auto simp add: ebind_Inr_iff)
    from alert_entry_expires [OF en x] n True have "unexpired lib entry"
      by (auto simp add: unexpired_def expires_after_def)
    with Cons.prems(2) have "list_all (unexpired lib) (acc @ [entry])" by simp
    with l show ?thesis by (rule Cons.IH)
  next
    case False
    with r have "alert_loop lib cl (Suc i) items acc = Inr res" by simp
    then show ?thesis using Cons.prems(2) by (rule Cons.IH)
  qed
qed

lemma noaa_alerts_field:
  assumes "noaa_alerts lib cl obj out = Inr out'"
  shows "(\<forall>k. k \<noteq> ''alerts'' \<longrightarrow> field out' k = field out k)
     \<and> (field out' ''alerts'' = field out ''alerts''
        \<or> (\<exists>alerts. field out' ''alerts'' = Some (PList alerts) \<and> list_all (unexpired lib) alerts))"
proof (cases "out' = out")
  case True
  then show ?thesis by simp
next
  case False
  with assms obtain items alert_data where
    l: "alert_loop lib cl 0 items [] = Inr alert_data" and
    s: "py_setitem_str out ''alerts'' (PList alert_data) = Inr out'"
    by (auto simp add: noaa_alerts_def ebind_Inr_iff split: if_splits)
  from alert_loop_unexpired [OF l] have "list_all (unexpired lib) alert_data" by simp
  with field_setitem_str [OF s] show ?thesis by auto
qed

lemma noaa_skeleton_fields:
  "field (noaa_skeleton latitude longitude tz offset miles) ''alerts'' = Some (PList [])"
  by (simp add: noaa_skeleton_def field_def)

lemma noaa_assemble_sections:
  assumes "noaa_assemble lib fetched hourly_block daily_block url output = Inr d"
  shows "d = PBool False
     \<or> (\<exists>cl c h dd o1 o2 o3 o4.
          assign_block ''currently'' c output = Inr o1
          \<and> assign_block ''hourly'' h o1 = Inr o2
          \<and> assign_block ''daily'' dd o2 = Inr o3
          \<and> noaa_alerts lib cl (result_or_none (active_alerts fetched)) o3 = Inr o4
          \<and> py_setitem2 o4 ''flags'' ''sources'' (PTuple [PStr ''noaa'']) = Inr d)"
  using assms
  by (auto simp add: noaa_assemble_def Let_def ebind_Inr_iff split: if_splits)

lemma noaa_assemble_result:
  assumes "noaa_assemble lib fetched hourly_block daily_block url output = Inr d"
    and "field output ''alerts'' = Some (PList [])"
  shows "d = PBool False
     \<or> (field2 d ''flags'' ''sources'' = Some (PTuple [PStr ''noaa''])
        \<and> (\<exists>alerts. field d ''alerts'' = Some (PList alerts) \<and> list_all (unexpired lib) alerts))"
proof (cases "d = PBool False")
  case True
  then show ?thesis by simp
next
  case False
  with noaa_assemble_sections [OF assms(1)] obtain cl c h dd o1 o2 o3 o4 where
    a1: "assign_block ''currently'' c output = Inr o1" and
    a2: "assign_block ''hourly'' h o1 = Inr o2" and
    a3: "assign_block ''daily'' dd o2 = Inr o3" and
    al: "noaa_alerts lib cl (result_or_none (active_alerts fetched)) o3 = Inr o4" and
    fs: "py_setitem2 o4 ''flags'' ''sources'' (PTuple [PStr ''noaa'']) = Inr d"
    by blast
  have "field o3 ''alerts'' = Some (PList [])"
    using assign_block_field [OF a1, of "''alerts''"] assign_block_field [OF a2, of "''alerts''"]
      assign_block_field [OF a3, of "''alerts''"] assms(2) by simp
  with noaa_alerts_field [OF al]
  have "\<exists>alerts. field o4 ''alerts'' = Some (PList alerts) \<and> list_all (unexpired lib) alerts"
    by auto
  moreover have "field d ''alerts'' = field o4 ''alerts''"
    using field_setitem2 [OF fs, of "''alerts''"] by simp
  moreover have "field2 d ''flags'' ''sources'' = Some (PTuple [PStr ''noaa''])"
    using field2_setitem2 [OF fs] by simp
  ultimately show ?thesis by simp
qed

lemma noaa_get_result:
  assumes "noaa_get lib fetched hourly_block daily_block latitude longitude = Inr d"
  shows "d = PBool False
     \<or> (field2 d ''flags'' ''sources'' = Some (PTuple [PStr ''noaa''])
        \<and> (\<exists>alerts. field d ''alerts'' = Some (PList alerts) \<and> list_all (unexpired lib) alerts))"
proof (cases "d = PBool False")
  case True
  then show ?thesis by simp
next
  case False
  with assms obtain url tz offset miles where
    "noaa_assemble lib fetched hourly_block daily_block url
       (noaa_skeleton latitude longitude tz offset miles) = Inr d"
    by (auto simp add: noaa_get_def ebind_Inr_iff split: option.splits if_splits)
  from noaa_assemble_result [OF this noaa_skeleton_fields] show ?thesis .
qed

lemma cc_initial_output_fresh:
  assumes "\<not> py_truthy inp" and "cc_initial_output lib latitude longitude inp = Inr o0"
  shows "field o0 ''alerts'' = None"
  using assms by (auto simp add: cc_initial_output_def Let_def field_def split: option.splits)

lemma cc_get_top_field:
  assumes "cc_ran fetched" and "cc_get lib fetched latitude longitude apikey inp = Inr out"
    and "k \<noteq> ''currently''" and "k \<noteq> ''minutely''" and "k \<noteq> ''hourly''"
    and "k \<noteq> ''daily''" and "k \<noteq> ''flags''"
  shows "\<exists>o0. cc_initial_output lib latitude longitude inp = Inr o0 \<and> field out k = field o0 k"
proof -
  from cc_get_sections [OF assms(1,2)] obtain o0 o1 o2 o3 o4 where
    s0: "cc_initial_output lib latitude longitude inp = Inr o0" and
    s1: "cc_currently lib (result_or_none (get_current fetched)) o0 = Inr o1" and
    s2: "cc_minutely lib (result_or_none (get_minutely fetched)) o1 = Inr o2" and
    s3: "cc_hourly lib (result_or_none (get_hourly fetched)) o2 = Inr o3" and
    s4: "cc_daily lib (result_or_none (get_daily fetched)) o3 = Inr o4" and
    s5: "cc_sources inp o4 = Inr out" by blast
  have "field o3 k = field o2 k"
    using cc_hourly_frame [OF s3] assms(4,5) by (simp add: hourly_frame_def)
  then have "field out k = field o0 k"
    using cc_currently_field [OF s1, of k] cc_minutely_field [OF s2, of k]
      cc_daily_field [OF s4, of k] cc_sources_field [OF s5, of k] assms(3-7) by simp
  with s0 show ?thesis by blast
qed

lemma cc_get_alerts:
  assumes "cc_get lib fetched latitude longitude apikey inp = Inr out"
  shows "out = PBool False \<or> field out ''alerts'' = None \<or> field out ''alerts'' = field inp ''alerts''"
proof (cases "cc_ran fetched")
  case False
  with assms have "out = soft_failure inp" by (simp add: cc_get_soft_failure)
  then show ?thesis by (simp add: soft_failure_def)
next
  case True
  from cc_get_top_field [OF True assms, of "''alerts''"] obtain o0 where
    o: "cc_initial_output lib latitude longitude inp = Inr o0" "field out ''alerts'' = field o0 ''alerts''"
    by auto
  show ?thesis
  proof (cases "py_truthy inp")
    case True
    with o show ?thesis by (simp add: cc_initial_output_truthy)
  next
    case False
    from cc_initial_output_fresh [OF False o(1)] o(2) show ?thesis by simp
  qed
qed

lemma cc_get_sources:
  assumes "cc_ran fetched" and "field2 inp ''flags'' ''sources'' = Some present"
    and "py_truthy present" and "cc_get lib fetched latitude longitude apikey inp = Inr out"
  shows "\<exists>names. py_iter present = Inr names
     \<and> field2 out ''flags'' ''sources'' = Some (PList (names @ [PStr ''climacell'']))"
proof -
  from cc_get_sections [OF assms(1,4)] obtain o4 where "cc_sources inp o4 = Inr out" by blast
  from cc_sources_appends [OF this assms(2,3)] show ?thesis .
qed

lemma remove_empty_alerts_result:
  assumes "remove_empty_alerts d = Inr d'"
  shows "no_empty_alerts d'
     \<and> (field d' ''alerts'' = field d ''alerts'' \<or> field d' ''alerts'' = None)
     \<and> (\<forall>k. k \<noteq> ''alerts'' \<longrightarrow> field d' k = field d k)"
proof (cases d)
  case (PDict kvs)
  show ?thesis
  proof (cases "map_of kvs ''alerts''")
    case None
    with PDict assms show ?thesis
      by (auto simp add: remove_empty_alerts_def no_empty_alerts_def field_def)
  next
    case (Some a)
    with PDict assms show ?thesis
      by (auto simp add: remove_empty_alerts_def no_empty_alerts_def field_def delete_conv'
          split: sum.splits if_splits)
  qed
qed (use assms in \<open>auto simp add: remove_empty_alerts_def no_empty_alerts_def field_def
       split: sum.splits if_splits\<close>)

lemma remove_empty_alerts_dict:
  assumes "field d ''alerts'' = None \<or> (\<exists>alerts. field d ''alerts'' = Some (PList alerts))"
    and "d = PDict kvs"
  shows "\<exists>d'. remove_empty_alerts d = Inr d'"
  using assms
  by (auto simp add: remove_empty_alerts_def field_def)

lemma setitem2_dict: "py_setitem2 d k1 k2 v = Inr d' \<Longrightarrow> \<exists>kvs. d' = PDict kvs"
  by (auto simp add: py_setitem2_def ebind_Inr_iff dest: setitem_str_dict)

lemma field2_dict: "field2 d a b = Some v \<Longrightarrow> \<exists>kvs. d = PDict kvs"
  by (cases d) (auto simp add: field2_def field_def)

lemma cc_get_dict:
  assumes "cc_get lib fetched latitude longitude apikey inp = Inr out" and "py_truthy out"
    and "inp = PBool False \<or> (\<exists>kvs. inp = PDict kvs)"
  shows "\<exists>kvs. out = PDict kvs"
proof (cases "cc_ran fetched")
  case False
  with assms(1) have "out = soft_failure inp" by (simp add: cc_get_soft_failure)
  with assms(2,3) show ?thesis by (auto simp add: soft_failure_def split: if_splits)
next
  case True
  from cc_get_sections [OF True assms(1)] obtain o4 where "cc_sources inp o4 = Inr out" by blast
  then obtain names where "py_setitem2 o4 ''flags'' ''sources'' names = Inr out"
    by (auto simp add: cc_sources_def ebind_Inr_iff)
  then show ?thesis by (rule setitem2_dict)
qed

lemma remove_empty_alerts_keeps:
  assumes "field d ''alerts'' = Some (PList (a # alerts))"
  shows "remove_empty_alerts d = Inr d"
  using assms by (cases d) (auto simp add: remove_empty_alerts_def field_def)

section \<open>The concrete runs return\<close>

lemma example_run:
  "cc_get example_lib example_fetched (Finite 40) (Finite (- 100)) ''key'' example_input = Inr example_output"
proof -
  have "case cc_get example_lib example_fetched (Finite 40) (Finite (- 100)) ''key'' example_input of
          Inl e \<Rightarrow> False | Inr out \<Rightarrow> True"
    by code_simp
  then show ?thesis by (simp add: example_output_def split: sum.splits)
qed

lemma example_run2:
  "cc_get example_lib example_fetched (Finite 40) (Finite (- 100)) ''key'' example_output = Inr example_output2"
proof -
  have "case cc_get example_lib example_fetched (Finite 40) (Finite (- 100)) ''key'' example_output of
          Inl e \<Rightarrow> False | Inr out \<Rightarrow> True"
    by code_simp
  then show ?thesis by (simp add: example_output2_def split: sum.splits)
qed

lemma example_noaa_run:
  "noaa_get example_lib example_noaa_fetched example_hourly_block example_daily_block (Finite 40) (Finite (- 100))
     = Inr example_noaa_doc"
proof -
  have "case noaa_get example_lib example_noaa_fetched example_hourly_block example_daily_block
               (Finite 40) (Finite (- 100)) of
          Inl e \<Rightarrow> False | Inr out \<Rightarrow> True"
    by code_simp
  then show ?thesis by (simp add: example_noaa_doc_def split: sum.splits)
qed

lemma example_merge_run:
  "cc_get example_lib example_fetched (Finite 40) (Finite (- 100)) ''key'' example_noaa_doc = Inr example_merged"
proof -
  have "case cc_get example_lib example_fetched (Finite 40) (Finite (- 100)) ''key'' example_noaa_doc of
          Inl e \<Rightarrow> False | Inr out \<Rightarrow> True"
    by code_simp
  then show ?thesis by (simp add: example_merged_def split: sum.splits)
qed

lemma example_cc_ran: "cc_ran example_fetched"
  by (simp add: cc_ran_def example_fetched_def result_or_none_def)

lemma example_noaa_doc_minutely:
  "py_truthy example_noaa_doc
   \<and> getKeyValue example_noaa_doc [KStr ''minutely'', KStr ''data''] None = Inr PNone"
  by code_simp

lemma example_merged_alerts:
  "py_truthy example_merged
   \<and> field example_merged ''alerts'' =
       Some (PList [PDict [(''title'', PStr ''Flood Warning''), (''regions'', PList [PStr ''Adams'']),
                           (''severity'', PNone), (''time'', PNone), (''expires'', PInt 7200),
                           (''description'', PNone), (''url'', PNone)]])"
  by code_simp

lemma example_noaa_doc_truthy: "py_truthy example_noaa_doc"
  using example_noaa_doc_minutely by simp

text \<open>
  Without an input document the adapter builds its own; the list of days built from
  \<^verbatim>\<open>range\<close> is empty, and reading its last element raises.
\<close>

lemma example_without_input:
  "cc_get example_lib example_fetched (Finite 40) (Finite (- 100)) ''key'' (PBool False) = Inl IndexError"
  by code_simp

section \<open>Minute data and the secondary adapter\<close>

text \<open>
  C3. When \<^verbatim>\<open>minutely.data\<close> of the input document is a non-empty list, every run
  of the secondary adapter that returns leaves it exactly as it was, whether the
  adapter merged or returned early; so does a second run on the document the first
  one returned, whatever the second run fetched. Minute data is written in the other
  case: when the adapter merges into a document whose \<^verbatim>\<open>minutely.data\<close> is absent or
  empty, \<^verbatim>\<open>minutely.data\<close> of the result is the list of entries built from the
  nowcast.
\<close>

theorem secondary_keeps_minutely_data:
  "(getKeyValue inp [KStr ''minutely'', KStr ''data''] None = Inr (PList (m # ms))
      \<and> cc_get lib fetched latitude longitude apikey inp = Inr out
    \<longrightarrow> getKeyValue out [KStr ''minutely'', KStr ''data''] None = Inr (PList (m # ms)))
   \<and> (getKeyValue inp [KStr ''minutely'', KStr ''data''] None = Inr (PList (m # ms))
      \<and> cc_get lib fetched latitude longitude apikey inp = Inr out
      \<and> cc_get lib' fetched' latitude' longitude' apikey' out = Inr out'
    \<longrightarrow> getKeyValue out' [KStr ''minutely'', KStr ''data''] None = Inr (PList (m # ms)))
   \<and> (cc_ran fetched \<and> py_truthy doc
      \<and> getKeyValue doc [KStr ''minutely'', KStr ''data''] None = Inr md \<and> no_data md = Inr True
      \<and> cc_get lib fetched latitude longitude apikey doc = Inr written
    \<longrightarrow> (\<exists>minutes entries. py_iter (result_or_none (get_minutely fetched)) = Inr minutes
          \<and> emap (cc_minute_entry lib) minutes = Inr entries
          \<and> getKeyValue written [KStr ''minutely'', KStr ''data''] None = Inr (PList entries)))"
proof (intro conjI impI)
  assume a: "getKeyValue inp [KStr ''minutely'', KStr ''data''] None = Inr (PList (m # ms))
      \<and> cc_get lib fetched latitude longitude apikey inp = Inr out"
  then have g: "getKeyValue inp [KStr ''minutely'', KStr ''data''] None = Inr (PList (m # ms))"
    and c: "cc_get lib fetched latitude longitude apikey inp = Inr out" by simp_all
  have "field2 inp ''minutely'' ''data'' = Some (PList (m # ms))"
    by (rule getKeyValue_field2 [OF g]) simp
  from cc_get_keeps_minutely_data [OF this c]
  show "getKeyValue out [KStr ''minutely'', KStr ''data''] None = Inr (PList (m # ms))"
    by (rule field2_getKeyValue)
next
  assume a: "getKeyValue inp [KStr ''minutely'', KStr ''data''] None = Inr (PList (m # ms))
      \<and> cc_get lib fetched latitude longitude apikey inp = Inr out
      \<and> cc_get lib' fetched' latitude' longitude' apikey' out = Inr out'"
  then have g: "getKeyValue inp [KStr ''minutely'', KStr ''data''] None = Inr (PList (m # ms))"
    and c: "cc_get lib fetched latitude longitude apikey inp = Inr out"
    and c': "cc_get lib' fetched' latitude' longitude' apikey' out = Inr out'" by simp_all
  have "field2 inp ''minutely'' ''data'' = Some (PList (m # ms))"
    by (rule getKeyValue_field2 [OF g]) simp
  from cc_get_keeps_minutely_data [OF cc_get_keeps_minutely_data [OF this c] c']
  show "getKeyValue out' [KStr ''minutely'', KStr ''data''] None = Inr (PList (m # ms))"
    by (rule field2_getKeyValue)
next
  assume a: "cc_ran fetched \<and> py_truthy doc
      \<and> getKeyValue doc [KStr ''minutely'', KStr ''data''] None = Inr md \<and> no_data md = Inr True
      \<and> cc_get lib fetched latitude longitude apikey doc = Inr written"
  then have r: "cc_ran fetched" and tr: "py_truthy doc"
    and g: "getKeyValue doc [KStr ''minutely'', KStr ''data''] None = Inr md"
    and nd: "no_data md = Inr True"
    and c: "cc_get lib fetched latitude longitude apikey doc = Inr written"
    by simp_all
  from cc_get_writes_minutely_data [OF r tr g nd c] obtain minutes entries where
    w: "py_iter (result_or_none (get_minutely fetched)) = Inr minutes"
    "emap (cc_minute_entry lib) minutes = Inr entries"
    "field2 written ''minutely'' ''data'' = Some (PList entries)"
    by blast
  from field2_getKeyValue [OF w(3)] w(1,2)
  show "\<exists>minutes entries. py_iter (result_or_none (get_minutely fetched)) = Inr minutes
          \<and> emap (cc_minute_entry lib) minutes = Inr entries
          \<and> getKeyValue written [KStr ''minutely'', KStr ''data''] None = Inr (PList entries)"
    by blast
qed

theorem secondary_keeps_minutely_data_witness:
  "getKeyValue example_input [KStr ''minutely'', KStr ''data''] None =
       Inr (PList [PDict [(''time'', PInt 60), (''precipIntensity'', PInt 0)]])
   \<and> cc_get example_lib example_fetched (Finite 40) (Finite (- 100)) ''key'' example_input = Inr example_output
   \<and> getKeyValue example_output [KStr ''minutely'', KStr ''data''] None =
       Inr (PList [PDict [(''time'', PInt 60), (''precipIntensity'', PInt 0)]])
   \<and> cc_get example_lib example_fetched (Finite 40) (Finite (- 100)) ''key'' example_output = Inr example_output2
   \<and> getKeyValue example_output2 [KStr ''minutely'', KStr ''data''] None =
       Inr (PList [PDict [(''time'', PInt 60), (''precipIntensity'', PInt 0)]])
   \<and> cc_ran example_fetched \<and> py_truthy example_noaa_doc
   \<and> getKeyValue example_noaa_doc [KStr ''minutely'', KStr ''data''] None = Inr PNone
   \<and> no_data PNone = Inr True
   \<and> cc_get example_lib example_fetched (Finite 40) (Finite (- 100)) ''key'' example_noaa_doc = Inr example_merged
   \<and> getKeyValue example_merged [KStr ''minutely'', KStr ''data''] None =
       Inr (PList [PDict [(''time'', PInt 3600), (''precipIntensity'', PInt 1),
                          (''precipIntesityError'', PNone), (''precipProbability'', PNone),
                          (''precipType'', PNone)]])"
proof -
  have g: "getKeyValue example_input [KStr ''minutely'', KStr ''data''] None =
       Inr (PList [PDict [(''time'', PInt 60), (''precipIntensity'', PInt 0)]])"
    by (simp add: example_input_def fetch_simps)
  have nd: "no_data PNone = Inr True" by (simp add: no_data_def)
  note t = secondary_keeps_minutely_data
    [where inp = example_input and lib = example_lib and fetched = example_fetched
       and latitude = "Finite 40" and longitude = "Finite (- 100)" and apikey = "''key''" and out = example_output
       and lib' = example_lib and fetched' = example_fetched and latitude' = "Finite 40"
       and longitude' = "Finite (- 100)" and apikey' = "''key''" and out' = example_output2
       and m = "PDict [(''time'', PInt 60), (''precipIntensity'', PInt 0)]" and ms = "[]"
       and doc = example_noaa_doc and md = PNone and written = example_merged]
  have a: "getKeyValue example_output [KStr ''minutely'', KStr ''data''] None =
       Inr (PList [PDict [(''time'', PInt 60), (''precipIntensity'', PInt 0)]])"
    using t g example_run by blast
  have b: "getKeyValue example_output2 [KStr ''minutely'', KStr ''data''] None =
       Inr (PList [PDict [(''time'', PInt 60), (''precipIntensity'', PInt 0)]])"
    using t g example_run example_run2 by blast
  from t example_cc_ran example_noaa_doc_minutely nd example_merge_run
  obtain minutes entries where
    w: "py_iter (result_or_none (get_minutely example_fetched)) = Inr minutes"
       "emap (cc_minute_entry example_lib) minutes = Inr entries"
       "getKeyValue example_merged [KStr ''minutely'', KStr ''data''] None = Inr (PList entries)"
    by blast
  from w(1) have "minutes = [PDict [(''observation_time'', PDict [(''value'', PStr ''1970-01-01T01:00:00.000Z'')]),
                                         (''precipitation'', PDict [(''value'', PInt 1)])]]"
    by (simp add: example_fetched_def result_or_none_def)
  with w(2) have "entries = [PDict [(''time'', PInt 3600), (''precipIntensity'', PInt 1),
                          (''precipIntesityError'', PNone), (''precipProbability'', PNone),
                          (''precipType'', PNone)]]"
    by (simp add: cc_minute_entry_def fetch_simps epoch_value_def epochTime_def example_lib_def)
  with w(3) have c: "getKeyValue example_merged [KStr ''minutely'', KStr ''data''] None =
       Inr (PList [PDict [(''time'', PInt 3600), (''precipIntensity'', PInt 1),
                          (''precipIntesityError'', PNone), (''precipProbability'', PNone),
                          (''precipType'', PNone)]])" by simp
  show ?thesis
    using g example_run a example_run2 b example_cc_ran example_noaa_doc_minutely nd
      example_merge_run c by simp
qed

section \<open>The summary of the minutely block\<close>

text \<open>
  The copies when the document has hours. When the adapter merges into a document
  whose \<^verbatim>\<open>hourly.data\<close> is truthy and returns, \<^verbatim>\<open>minutely.summary\<close> and
  \<^verbatim>\<open>minutely.icon\<close> of the result are the summary and the icon of the first entry
  of its \<^verbatim>\<open>hourly.data\<close>; a non-empty list in \<^verbatim>\<open>minutely.data\<close> of the input is in
  the result unchanged all the same.
\<close>

lemma secondary_copies_first_hour:
  "cc_ran fetched \<and> getKeyValue inp [KStr ''hourly'', KStr ''data''] None = Inr hours \<and> py_truthy hours
     \<and> cc_get lib fetched latitude longitude apikey inp = Inr out
   \<longrightarrow> (\<exists>summary icon.
         getKeyValue out [KStr ''hourly'', KStr ''data'', KInt 0, KStr ''summary''] None = Inr summary
         \<and> getKeyValue out [KStr ''minutely'', KStr ''summary''] None = Inr summary
         \<and> getKeyValue out [KStr ''hourly'', KStr ''data'', KInt 0, KStr ''icon''] None = Inr icon
         \<and> getKeyValue out [KStr ''minutely'', KStr ''icon''] None = Inr icon)
       \<and> (\<forall>m ms. getKeyValue inp [KStr ''minutely'', KStr ''data''] None = Inr (PList (m # ms))
            \<longrightarrow> getKeyValue out [KStr ''minutely'', KStr ''data''] None = Inr (PList (m # ms)))"
proof (intro impI conjI allI)
  assume a: "cc_ran fetched \<and> getKeyValue inp [KStr ''hourly'', KStr ''data''] None = Inr hours
     \<and> py_truthy hours \<and> cc_get lib fetched latitude longitude apikey inp = Inr out"
  then have r: "cc_ran fetched" and g: "getKeyValue inp [KStr ''hourly'', KStr ''data''] None = Inr hours"
    and tr: "py_truthy hours" and c: "cc_get lib fetched latitude longitude apikey inp = Inr out"
    by simp_all
  from tr have "hours \<noteq> PNone" by auto
  from getKeyValue_field2 [OF g this] have f: "field2 inp ''hourly'' ''data'' = Some hours" .
  from cc_get_first_hour [OF r f tr c] obtain hs first summary icon where
    h: "field2 out ''hourly'' ''data'' = Some hs" "py_getitem_int hs 0 = Inr first"
       "field first ''summary'' = Some summary" "field first ''icon'' = Some icon"
       "field2 out ''minutely'' ''summary'' = Some summary"
       "field2 out ''minutely'' ''icon'' = Some icon" by blast
  have "getKeyValue out [KStr ''hourly'', KStr ''data'', KInt 0, KStr ''summary''] None = Inr summary"
    using h(1,2,3) by (rule getKeyValue_first_of_block)
  moreover have "getKeyValue out [KStr ''hourly'', KStr ''data'', KInt 0, KStr ''icon''] None = Inr icon"
    using h(1,2,4) by (rule getKeyValue_first_of_block)
  moreover have "getKeyValue out [KStr ''minutely'', KStr ''summary''] None = Inr summary"
    using h(5) by (rule field2_getKeyValue)
  moreover have "getKeyValue out [KStr ''minutely'', KStr ''icon''] None = Inr icon"
    using h(6) by (rule field2_getKeyValue)
  ultimately show "\<exists>summary icon.
         getKeyValue out [KStr ''hourly'', KStr ''data'', KInt 0, KStr ''summary''] None = Inr summary
         \<and> getKeyValue out [KStr ''minutely'', KStr ''summary''] None = Inr summary
         \<and> getKeyValue out [KStr ''hourly'', KStr ''data'', KInt 0, KStr ''icon''] None = Inr icon
         \<and> getKeyValue out [KStr ''minutely'', KStr ''icon''] None = Inr icon"
    by blast
  fix m ms
  assume g': "getKeyValue inp [KStr ''minutely'', KStr ''data''] None = Inr (PList (m # ms))"
  have "field2 inp ''minutely'' ''data'' = Some (PList (m # ms))"
    by (rule getKeyValue_field2 [OF g']) simp
  from cc_get_keeps_minutely_data [OF this c]
  show "getKeyValue out [KStr ''minutely'', KStr ''data''] None = Inr (PList (m # ms))"
    by (rule field2_getKeyValue)
qed

lemma secondary_copies_first_hour_instance:
  "cc_ran example_fetched
   \<and> getKeyValue example_input [KStr ''hourly'', KStr ''data''] None =
       Inr (PList [PDict [(''time'', PInt 3600), (''summary'', PStr ''Sunny''),
                          (''icon'', PStr ''clear-day'')]])
   \<and> py_truthy (PList [PDict [(''time'', PInt 3600), (''summary'', PStr ''Sunny''),
                              (''icon'', PStr ''clear-day'')]])
   \<and> cc_get example_lib example_fetched (Finite 40) (Finite (- 100)) ''key'' example_input = Inr example_output
   \<and> getKeyValue example_input [KStr ''minutely'', KStr ''data''] None =
       Inr (PList [PDict [(''time'', PInt 60), (''precipIntensity'', PInt 0)]])
   \<and> getKeyValue example_output [KStr ''minutely'', KStr ''summary''] None =
       getKeyValue example_output [KStr ''hourly'', KStr ''data'', KInt 0, KStr ''summary''] None
   \<and> getKeyValue example_output [KStr ''minutely'', KStr ''icon''] None =
       getKeyValue example_output [KStr ''hourly'', KStr ''data'', KInt 0, KStr ''icon''] None
   \<and> getKeyValue example_output [KStr ''minutely'', KStr ''data''] None =
       Inr (PList [PDict [(''time'', PInt 60), (''precipIntensity'', PInt 0)]])
   \<and> getKeyValue example_input [KStr ''minutely'', KStr ''summary''] None =
       Inr (PStr ''Drizzle for the hour'')
   \<and> getKeyValue example_output [KStr ''minutely'', KStr ''summary''] None = Inr (PStr ''Clear'')"
proof -
  have h: "getKeyValue example_input [KStr ''hourly'', KStr ''data''] None =
       Inr (PList [PDict [(''time'', PInt 3600), (''summary'', PStr ''Sunny''),
                          (''icon'', PStr ''clear-day'')]])"
    by (simp add: example_input_def fetch_simps)
  have g: "getKeyValue example_input [KStr ''minutely'', KStr ''data''] None =
       Inr (PList [PDict [(''time'', PInt 60), (''precipIntensity'', PInt 0)]])"
    by (simp add: example_input_def fetch_simps)
  have s: "getKeyValue example_input [KStr ''minutely'', KStr ''summary''] None =
       Inr (PStr ''Drizzle for the hour'')"
    by (simp add: example_input_def fetch_simps)
  have v: "getKeyValue example_output [KStr ''minutely'', KStr ''summary''] None = Inr (PStr ''Clear'')"
    by code_simp
  note t = secondary_copies_first_hour
    [where fetched = example_fetched and inp = example_input and lib = example_lib
       and latitude = "Finite 40" and longitude = "Finite (- 100)" and apikey = "''key''" and out = example_output
       and hours = "PList [PDict [(''time'', PInt 3600), (''summary'', PStr ''Sunny''),
                               (''icon'', PStr ''clear-day'')]]"]
  from t example_cc_ran h example_run obtain summary icon where
    c: "getKeyValue example_output [KStr ''hourly'', KStr ''data'', KInt 0, KStr ''summary''] None
          = Inr summary"
       "getKeyValue example_output [KStr ''minutely'', KStr ''summary''] None = Inr summary"
       "getKeyValue example_output [KStr ''hourly'', KStr ''data'', KInt 0, KStr ''icon''] None
          = Inr icon"
       "getKeyValue example_output [KStr ''minutely'', KStr ''icon''] None = Inr icon"
    by auto
  from t example_cc_ran h example_run g
  have d: "getKeyValue example_output [KStr ''minutely'', KStr ''data''] None =
       Inr (PList [PDict [(''time'', PInt 60), (''precipIntensity'', PInt 0)]])"
    by auto
  show ?thesis
    using example_cc_ran h example_run g c d s v by simp
qed

text \<open>
  C10. With a non-empty hourly payload the secondary adapter is to overwrite
  \<^verbatim>\<open>minutely.summary\<close> and \<^verbatim>\<open>minutely.icon\<close> with the summary and the icon of the
  first hourly entry. For a document without hourly data the adapter is to build a
  list of timestamps first (comment at lines 316-317), but
  \<^verbatim>\<open>range(timestamp + (timestamp + (3600 * 48)), 3600)\<close> at line 321 is empty, the
  loop that holds the four assignments never runs, and the adapter returns a document
  whose \<^verbatim>\<open>hourly.data\<close> is the empty list: the hourly payload is not empty and its
  first entry maps to the summary \<^verbatim>\<open>Clear\<close>, yet \<^verbatim>\<open>minutely.summary\<close> and
  \<^verbatim>\<open>minutely.icon\<close> stay the \<^verbatim>\<open>None\<close> that the minutely section wrote.
\<close>

theorem hourly_payload_without_hours:
  "py_truthy (result_or_none (get_hourly example_fetched))
   \<and> getKeyValue (result_or_none (get_hourly example_fetched))
        [KInt 0, KStr ''weather_code'', KStr ''value''] (Some mapClimacellWeatherCode) = Inr (PStr ''Clear'')
   \<and> ebind (cc_get example_lib example_fetched (Finite 40) (Finite (- 100)) ''key'' example_no_hours)
        (\<lambda>out. Inr (field2 out ''minutely'' ''summary'', field2 out ''minutely'' ''icon'',
                   field2 out ''hourly'' ''data'')) =
       Inr (Some PNone, Some PNone, Some (PList []))"
  by code_simp

section \<open>The source flags\<close>

text \<open>
  C6, as the code has it. When the primary adapter returns a document and the
  secondary adapter merges into it, \<^verbatim>\<open>flags.sources\<close> of the result is the list
  \<^verbatim>\<open>['noaa', 'climacell']\<close>: both providers, in call order, no name twice. When the
  secondary adapter returns early, the document of the primary adapter comes back as
  it is, naming \<^verbatim>\<open>noaa\<close> alone. The secondary adapter itself compares nothing: it
  copies the names it finds in the input, whatever they are, and appends
  \<^verbatim>\<open>climacell\<close>.
\<close>

theorem sources_after_both_adapters:
  "(noaa_get lib fetched hourly_block daily_block latitude longitude = Inr primary \<and> py_truthy primary
      \<and> cc_ran fetched' \<and> cc_get lib' fetched' latitude' longitude' apikey primary = Inr merged
    \<longrightarrow> getKeyValue merged [KStr ''flags'', KStr ''sources''] None =
          Inr (PList [PStr ''noaa'', PStr ''climacell'']))
   \<and> (noaa_get lib fetched hourly_block daily_block latitude longitude = Inr primary \<and> py_truthy primary
      \<and> \<not> cc_ran fetched'
    \<longrightarrow> cc_get lib' fetched' latitude' longitude' apikey primary = Inr primary
        \<and> getKeyValue primary [KStr ''flags'', KStr ''sources''] None = Inr (PTuple [PStr ''noaa'']))
   \<and> (cc_ran fetched' \<and> getKeyValue inp [KStr ''flags'', KStr ''sources''] None = Inr present
      \<and> py_truthy present \<and> cc_get lib' fetched' latitude' longitude' apikey inp = Inr out
    \<longrightarrow> (\<exists>names. py_iter present = Inr names
          \<and> getKeyValue out [KStr ''flags'', KStr ''sources''] None =
              Inr (PList (names @ [PStr ''climacell'']))))"
proof (intro conjI impI)
  assume a: "noaa_get lib fetched hourly_block daily_block latitude longitude = Inr primary
      \<and> py_truthy primary \<and> cc_ran fetched'
      \<and> cc_get lib' fetched' latitude' longitude' apikey primary = Inr merged"
  then have n: "noaa_get lib fetched hourly_block daily_block latitude longitude = Inr primary"
    and t: "py_truthy primary" and r: "cc_ran fetched'"
    and c: "cc_get lib' fetched' latitude' longitude' apikey primary = Inr merged" by simp_all
  from noaa_get_result [OF n] t
  have s: "field2 primary ''flags'' ''sources'' = Some (PTuple [PStr ''noaa''])" by auto
  have "py_truthy (PTuple [PStr ''noaa''])" by simp
  from cc_get_sources [OF r s this c]
  have "field2 merged ''flags'' ''sources'' = Some (PList [PStr ''noaa'', PStr ''climacell''])"
    by simp
  then show "getKeyValue merged [KStr ''flags'', KStr ''sources''] None =
          Inr (PList [PStr ''noaa'', PStr ''climacell''])"
    by (rule field2_getKeyValue)
next
  assume a: "noaa_get lib fetched hourly_block daily_block latitude longitude = Inr primary
      \<and> py_truthy primary \<and> \<not> cc_ran fetched'"
  then have n: "noaa_get lib fetched hourly_block daily_block latitude longitude = Inr primary"
    and t: "py_truthy primary" and r: "\<not> cc_ran fetched'" by simp_all
  from noaa_get_result [OF n] t
  have s: "field2 primary ''flags'' ''sources'' = Some (PTuple [PStr ''noaa''])" by auto
  show "cc_get lib' fetched' latitude' longitude' apikey primary = Inr primary"
    using cc_get_soft_failure [OF r] t by (simp add: soft_failure_def)
  show "getKeyValue primary [KStr ''flags'', KStr ''sources''] None = Inr (PTuple [PStr ''noaa''])"
    using s by (rule field2_getKeyValue)
next
  assume a: "cc_ran fetched' \<and> getKeyValue inp [KStr ''flags'', KStr ''sources''] None = Inr present
      \<and> py_truthy present \<and> cc_get lib' fetched' latitude' longitude' apikey inp = Inr out"
  then have r: "cc_ran fetched'"
    and g: "getKeyValue inp [KStr ''flags'', KStr ''sources''] None = Inr present"
    and t: "py_truthy present"
    and c: "cc_get lib' fetched' latitude' longitude' apikey inp = Inr out" by simp_all
  from t have "present \<noteq> PNone" by auto
  from getKeyValue_field2 [OF g this] have "field2 inp ''flags'' ''sources'' = Some present" .
  from cc_get_sources [OF r this t c] obtain names where
    w: "py_iter present = Inr names"
       "field2 out ''flags'' ''sources'' = Some (PList (names @ [PStr ''climacell'']))" by blast
  from field2_getKeyValue [OF w(2)] w(1)
  show "\<exists>names. py_iter present = Inr names
          \<and> getKeyValue out [KStr ''flags'', KStr ''sources''] None =
              Inr (PList (names @ [PStr ''climacell'']))" by blast
qed

theorem sources_after_both_adapters_witness:
  "noaa_get example_lib example_noaa_fetched example_hourly_block example_daily_block (Finite 40) (Finite (- 100))
     = Inr example_noaa_doc
   \<and> py_truthy example_noaa_doc \<and> cc_ran example_fetched
   \<and> cc_get example_lib example_fetched (Finite 40) (Finite (- 100)) ''key'' example_noaa_doc = Inr example_merged
   \<and> getKeyValue example_merged [KStr ''flags'', KStr ''sources''] None =
       Inr (PList [PStr ''noaa'', PStr ''climacell''])
   \<and> \<not> cc_ran (example_fetched\<lparr>get_daily := None\<rparr>)
   \<and> cc_get example_lib (example_fetched\<lparr>get_daily := None\<rparr>) (Finite 40) (Finite (- 100)) ''key'' example_noaa_doc
       = Inr example_noaa_doc
   \<and> getKeyValue example_noaa_doc [KStr ''flags'', KStr ''sources''] None = Inr (PTuple [PStr ''noaa''])
   \<and> getKeyValue example_input [KStr ''flags'', KStr ''sources''] None = Inr (PTuple [PStr ''noaa''])
   \<and> py_truthy (PTuple [PStr ''noaa''])
   \<and> cc_get example_lib example_fetched (Finite 40) (Finite (- 100)) ''key'' example_input = Inr example_output
   \<and> py_iter (PTuple [PStr ''noaa'']) = Inr [PStr ''noaa'']
   \<and> getKeyValue example_output [KStr ''flags'', KStr ''sources''] None =
       Inr (PList ([PStr ''noaa''] @ [PStr ''climacell'']))"
proof -
  have nr: "\<not> cc_ran (example_fetched\<lparr>get_daily := None\<rparr>)"
    by (simp add: cc_ran_def result_or_none_def)
  have g: "getKeyValue example_input [KStr ''flags'', KStr ''sources''] None = Inr (PTuple [PStr ''noaa''])"
    by (simp add: example_input_def fetch_simps)
  have a: "getKeyValue example_merged [KStr ''flags'', KStr ''sources''] None =
       Inr (PList [PStr ''noaa'', PStr ''climacell''])"
    using sources_after_both_adapters
      [where lib = example_lib and fetched = example_noaa_fetched
         and hourly_block = example_hourly_block and daily_block = example_daily_block
         and latitude = "Finite 40" and longitude = "Finite (- 100)" and primary = example_noaa_doc
         and fetched' = example_fetched and lib' = example_lib and latitude' = "Finite 40"
         and longitude' = "Finite (- 100)" and apikey = "''key''" and merged = example_merged]
      example_noaa_run example_noaa_doc_truthy example_cc_ran example_merge_run by blast
  have b: "cc_get example_lib (example_fetched\<lparr>get_daily := None\<rparr>) (Finite 40) (Finite (- 100)) ''key'' example_noaa_doc
       = Inr example_noaa_doc
     \<and> getKeyValue example_noaa_doc [KStr ''flags'', KStr ''sources''] None = Inr (PTuple [PStr ''noaa''])"
    using sources_after_both_adapters
      [where lib = example_lib and fetched = example_noaa_fetched
         and hourly_block = example_hourly_block and daily_block = example_daily_block
         and latitude = "Finite 40" and longitude = "Finite (- 100)" and primary = example_noaa_doc
         and fetched' = "example_fetched\<lparr>get_daily := None\<rparr>" and lib' = example_lib
         and latitude' = "Finite 40" and longitude' = "Finite (- 100)" and apikey = "''key''"]
      example_noaa_run example_noaa_doc_truthy nr by blast
  have c: "\<exists>names. py_iter (PTuple [PStr ''noaa'']) = Inr names
     \<and> getKeyValue example_output [KStr ''flags'', KStr ''sources''] None =
         Inr (PList (names @ [PStr ''climacell'']))"
    using sources_after_both_adapters
      [where fetched' = example_fetched and lib' = example_lib and latitude' = "Finite 40"
         and longitude' = "Finite (- 100)" and apikey = "''key''" and inp = example_input
         and present = "PTuple [PStr ''noaa'']" and out = example_output]
      example_cc_ran g example_run by simp
  then have c': "getKeyValue example_output [KStr ''flags'', KStr ''sources''] None =
       Inr (PList ([PStr ''noaa''] @ [PStr ''climacell'']))" by simp
  show ?thesis
    using example_noaa_run example_noaa_doc_truthy example_cc_ran example_merge_run a nr b g
      example_run c' by simp
qed

text \<open>
  C6 as stated fails in its last part: nothing is deduplicated. Run on the document
  it has just returned, whose sources already name \<^verbatim>\<open>climacell\<close>, the secondary
  adapter appends the name a second time.
\<close>

theorem sources_named_twice:
  "getKeyValue example_input [KStr ''flags'', KStr ''sources''] None = Inr (PTuple [PStr ''noaa''])
   \<and> cc_get example_lib example_fetched (Finite 40) (Finite (- 100)) ''key'' example_input = Inr example_output
   \<and> getKeyValue example_output [KStr ''flags'', KStr ''sources''] None =
       Inr (PList [PStr ''noaa'', PStr ''climacell''])
   \<and> cc_get example_lib example_fetched (Finite 40) (Finite (- 100)) ''key'' example_output = Inr example_output2
   \<and> getKeyValue example_output2 [KStr ''flags'', KStr ''sources''] None =
       Inr (PList [PStr ''noaa'', PStr ''climacell'', PStr ''climacell''])
   \<and> \<not> distinct [PStr ''noaa'', PStr ''climacell'', PStr ''climacell'']"
proof -
  have g: "getKeyValue example_input [KStr ''flags'', KStr ''sources''] None = Inr (PTuple [PStr ''noaa''])"
    by (simp add: example_input_def fetch_simps)
  have "field2 example_input ''flags'' ''sources'' = Some (PTuple [PStr ''noaa''])"
    by (simp add: example_input_def field2_def field_def)
  from cc_get_sources [OF example_cc_ran this _ example_run]
  have f1: "field2 example_output ''flags'' ''sources'' = Some (PList [PStr ''noaa'', PStr ''climacell''])"
    by simp
  from cc_get_sources [OF example_cc_ran this _ example_run2]
  have f2: "field2 example_output2 ''flags'' ''sources'' =
      Some (PList [PStr ''noaa'', PStr ''climacell'', PStr ''climacell''])"
    by simp
  show ?thesis
    using g example_run example_run2 field2_getKeyValue [OF f1] field2_getKeyValue [OF f2] by simp
qed

section \<open>Alerts in the response\<close>

text \<open>
  C8. First, for any two adapters: if the snapshot file, when it exists, holds a
  document without an empty \<^verbatim>\<open>alerts\<close> entry, then so does every JSON response of
  the handler and so does the file afterwards; a freshly assembled document loses its
  \<^verbatim>\<open>alerts\<close> key when the list is empty. Second, for the two adapters of this
  program: when the request passes validation and the adapters return a truthy
  document, the handler answers 200 with a document whose \<^verbatim>\<open>alerts\<close> key is absent,
  or is a non-empty list of alerts each of which has an \<^verbatim>\<open>expires\<close> greater than
  the clock reading taken when the primary adapter examined one of the alerts; an
  alert that had expired by its reading is not in the list.
\<close>

theorem alerts_in_response:
  "(forecast float_of noaa climacell cached apikey geolocation = Inr (resp, stored, calls)
      \<and> (\<forall>snapshot. cached = Some snapshot \<longrightarrow> no_empty_alerts snapshot)
    \<longrightarrow> (\<forall>doc. body resp = Json doc \<longrightarrow> no_empty_alerts doc)
        \<and> (\<forall>snapshot. stored = Some snapshot \<longrightarrow> no_empty_alerts snapshot))
   \<and> (parse_geolocation float_of geolocation = Inr (latitude, longitude)
      \<and> noaa_get lib fetched hourly_block daily_block latitude longitude = Inr primary
      \<and> cc_get lib' fetched' latitude longitude apikey primary = Inr merged
      \<and> py_truthy merged
    \<longrightarrow> (\<exists>doc. forecast float_of (noaa_get lib fetched hourly_block daily_block)
                 (cc_get lib' fetched') cached apikey geolocation =
               Inr (\<lparr>body = Json doc, status = 200\<rparr>, Some doc,
                    [NOAA_get latitude longitude, Climacell_get latitude longitude apikey primary])
          \<and> no_empty_alerts doc
          \<and> (field doc ''alerts'' = None
             \<or> (\<exists>alerts. field doc ''alerts'' = Some (PList alerts) \<and> alerts \<noteq> []
                   \<and> list_all (unexpired lib) alerts))))"
proof (intro conjI impI)
  assume a: "forecast float_of noaa climacell cached apikey geolocation = Inr (resp, stored, calls)
      \<and> (\<forall>snapshot. cached = Some snapshot \<longrightarrow> no_empty_alerts snapshot)"
  then have f: "forecast float_of noaa climacell cached apikey geolocation = Inr (resp, stored, calls)"
    and inv: "\<forall>snapshot. cached = Some snapshot \<longrightarrow> no_empty_alerts snapshot" by simp_all
  show "\<forall>doc. body resp = Json doc \<longrightarrow> no_empty_alerts doc"
    using f inv
    by (auto simp add: forecast_def Let_def split: sum.splits prod.splits if_splits option.splits
        dest: remove_empty_alerts_result)
  show "\<forall>snapshot. stored = Some snapshot \<longrightarrow> no_empty_alerts snapshot"
    using f inv
    by (auto simp add: forecast_def Let_def split: sum.splits prod.splits if_splits option.splits
        dest: remove_empty_alerts_result)
next
  assume a: "parse_geolocation float_of geolocation = Inr (latitude, longitude)
      \<and> noaa_get lib fetched hourly_block daily_block latitude longitude = Inr primary
      \<and> cc_get lib' fetched' latitude longitude apikey primary = Inr merged
      \<and> py_truthy merged"
  then have p: "parse_geolocation float_of geolocation = Inr (latitude, longitude)"
    and n: "noaa_get lib fetched hourly_block daily_block latitude longitude = Inr primary"
    and c: "cc_get lib' fetched' latitude longitude apikey primary = Inr merged"
    and t: "py_truthy merged" by simp_all
  from noaa_get_result [OF n]
  have pr: "primary = PBool False
     \<or> (field2 primary ''flags'' ''sources'' = Some (PTuple [PStr ''noaa''])
        \<and> (\<exists>alerts. field primary ''alerts'' = Some (PList alerts) \<and> list_all (unexpired lib) alerts))" .
  then have "primary = PBool False \<or> (\<exists>kvs. primary = PDict kvs)"
    by (auto dest: field2_dict)
  from cc_get_dict [OF c t this] obtain kvs where m: "merged = PDict kvs" by blast
  from cc_get_alerts [OF c] t
  have "field merged ''alerts'' = None \<or> field merged ''alerts'' = field primary ''alerts''"
    by auto
  with pr have al: "field merged ''alerts'' = None
     \<or> (\<exists>alerts. field merged ''alerts'' = Some (PList alerts) \<and> list_all (unexpired lib) alerts)"
    by (auto simp add: field_def)
  then have "field merged ''alerts'' = None \<or> (\<exists>alerts. field merged ''alerts'' = Some (PList alerts))"
    by auto
  from remove_empty_alerts_dict [OF this m] obtain doc where
    r: "remove_empty_alerts merged = Inr doc" by blast
  from remove_empty_alerts_result [OF r]
  have ne: "no_empty_alerts doc"
    and k: "field doc ''alerts'' = field merged ''alerts'' \<or> field doc ''alerts'' = None" by simp_all
  have "forecast float_of (noaa_get lib fetched hourly_block daily_block)
                 (cc_get lib' fetched') cached apikey geolocation =
               Inr (\<lparr>body = Json doc, status = 200\<rparr>, Some doc,
                    [NOAA_get latitude longitude, Climacell_get latitude longitude apikey primary])"
    using p n c t r by (simp add: forecast_def)
  moreover have "field doc ''alerts'' = None
             \<or> (\<exists>alerts. field doc ''alerts'' = Some (PList alerts) \<and> alerts \<noteq> []
                   \<and> list_all (unexpired lib) alerts)"
    using ne k al by (auto simp add: no_empty_alerts_def)
  ultimately show "\<exists>doc. forecast float_of (noaa_get lib fetched hourly_block daily_block)
                 (cc_get lib' fetched') cached apikey geolocation =
               Inr (\<lparr>body = Json doc, status = 200\<rparr>, Some doc,
                    [NOAA_get latitude longitude, Climacell_get latitude longitude apikey primary])
          \<and> no_empty_alerts doc
          \<and> (field doc ''alerts'' = None
             \<or> (\<exists>alerts. field doc ''alerts'' = Some (PList alerts) \<and> alerts \<noteq> []
                   \<and> list_all (unexpired lib) alerts))"
    using ne by blast
qed

theorem alerts_in_response_witness:
  "forecast float_fragment (\<lambda>lat lon. Inr example_no_hours) (\<lambda>lat lon key inp. Inr inp) None
       ''key'' ''40,-100'' =
     Inr (\<lparr>body = Json (PDict (AList.delete ''alerts'' [(''currently'', PDict []),
            (''minutely'', PDict []),
            (''hourly'', PDict []),
            (''daily'', PDict [(''data'', PList [PDict [(''time'', PInt 0)]])]),
            (''alerts'', PList []),
            (''flags'', PDict [(''sources'', PTuple [PStr ''noaa'']), (''units'', PStr ''us'')])])),
            status = 200\<rparr>,
          Some (PDict (AList.delete ''alerts'' [(''currently'', PDict []),
            (''minutely'', PDict []),
            (''hourly'', PDict []),
            (''daily'', PDict [(''data'', PList [PDict [(''time'', PInt 0)]])]),
            (''alerts'', PList []),
            (''flags'', PDict [(''sources'', PTuple [PStr ''noaa'']), (''units'', PStr ''us'')])])),
          [NOAA_get (Finite 40) (Finite (- 100)), Climacell_get (Finite 40) (Finite (- 100)) ''key'' example_no_hours])
   \<and> field example_no_hours ''alerts'' = Some (PList [])
   \<and> no_empty_alerts (PDict (AList.delete ''alerts'' [(''currently'', PDict []),
            (''minutely'', PDict []),
            (''hourly'', PDict []),
            (''daily'', PDict [(''data'', PList [PDict [(''time'', PInt 0)]])]),
            (''alerts'', PList []),
            (''flags'', PDict [(''sources'', PTuple [PStr ''noaa'']), (''units'', PStr ''us'')])]))
   \<and> parse_geolocation float_fragment ''40,-100'' = Inr (Finite 40, Finite (- 100))
   \<and> noaa_get example_lib example_noaa_fetched example_hourly_block example_daily_block (Finite 40) (Finite (- 100))
       = Inr example_noaa_doc
   \<and> cc_get example_lib example_fetched (Finite 40) (Finite (- 100)) ''key'' example_noaa_doc = Inr example_merged
   \<and> py_truthy example_merged
   \<and> forecast float_fragment
        (noaa_get example_lib example_noaa_fetched example_hourly_block example_daily_block)
        (cc_get example_lib example_fetched) None ''key'' ''40,-100'' =
       Inr (\<lparr>body = Json example_merged, status = 200\<rparr>, Some example_merged,
            [NOAA_get (Finite 40) (Finite (- 100)), Climacell_get (Finite 40) (Finite (- 100)) ''key'' example_noaa_doc])
   \<and> no_empty_alerts example_merged
   \<and> field example_merged ''alerts'' =
       Some (PList [PDict [(''title'', PStr ''Flood Warning''), (''regions'', PList [PStr ''Adams'']),
                           (''severity'', PNone), (''time'', PNone), (''expires'', PInt 7200),
                           (''description'', PNone), (''url'', PNone)]])
   \<and> list_all (unexpired example_lib)
        [PDict [(''title'', PStr ''Flood Warning''), (''regions'', PList [PStr ''Adams'']),
                (''severity'', PNone), (''time'', PNone), (''expires'', PInt 7200),
                (''description'', PNone), (''url'', PNone)]]"
proof -
  have p: "parse_geolocation float_fragment ''40,-100'' = Inr (Finite 40, Finite (- 100))"
    by (simp add: parse_geolocation_def float_fragment_def)
  have f1: "forecast float_fragment (\<lambda>lat lon. Inr example_no_hours) (\<lambda>lat lon key inp. Inr inp) None
       ''key'' ''40,-100'' =
     Inr (\<lparr>body = Json (PDict (AList.delete ''alerts'' [(''currently'', PDict []),
            (''minutely'', PDict []),
            (''hourly'', PDict []),
            (''daily'', PDict [(''data'', PList [PDict [(''time'', PInt 0)]])]),
            (''alerts'', PList []),
            (''flags'', PDict [(''sources'', PTuple [PStr ''noaa'']), (''units'', PStr ''us'')])])),
            status = 200\<rparr>,
          Some (PDict (AList.delete ''alerts'' [(''currently'', PDict []),
            (''minutely'', PDict []),
            (''hourly'', PDict []),
            (''daily'', PDict [(''data'', PList [PDict [(''time'', PInt 0)]])]),
            (''alerts'', PList []),
            (''flags'', PDict [(''sources'', PTuple [PStr ''noaa'']), (''units'', PStr ''us'')])])),
          [NOAA_get (Finite 40) (Finite (- 100)), Climacell_get (Finite 40) (Finite (- 100)) ''key'' example_no_hours])"
    using p by (simp add: forecast_def example_no_hours_def remove_empty_alerts_def)
  have e: "field example_no_hours ''alerts'' = Some (PList [])"
    by (simp add: example_no_hours_def field_def)
  note t1 = alerts_in_response
    [where float_of = float_fragment and noaa = "\<lambda>lat lon. Inr example_no_hours"
       and climacell = "\<lambda>lat lon key inp. Inr inp" and cached = None and apikey = "''key''"
       and geolocation = "''40,-100''"
       and resp = "\<lparr>body = Json (PDict (AList.delete ''alerts'' [(''currently'', PDict []),
            (''minutely'', PDict []),
            (''hourly'', PDict []),
            (''daily'', PDict [(''data'', PList [PDict [(''time'', PInt 0)]])]),
            (''alerts'', PList []),
            (''flags'', PDict [(''sources'', PTuple [PStr ''noaa'']), (''units'', PStr ''us'')])])),
            status = 200\<rparr>"
       and stored = "Some (PDict (AList.delete ''alerts'' [(''currently'', PDict []),
            (''minutely'', PDict []),
            (''hourly'', PDict []),
            (''daily'', PDict [(''data'', PList [PDict [(''time'', PInt 0)]])]),
            (''alerts'', PList []),
            (''flags'', PDict [(''sources'', PTuple [PStr ''noaa'']), (''units'', PStr ''us'')])]))"
       and calls = "[NOAA_get (Finite 40) (Finite (- 100)), Climacell_get (Finite 40) (Finite (- 100)) ''key'' example_no_hours]"]
  have n1: "no_empty_alerts (PDict (AList.delete ''alerts'' [(''currently'', PDict []),
            (''minutely'', PDict []),
            (''hourly'', PDict []),
            (''daily'', PDict [(''data'', PList [PDict [(''time'', PInt 0)]])]),
            (''alerts'', PList []),
            (''flags'', PDict [(''sources'', PTuple [PStr ''noaa'']), (''units'', PStr ''us'')])]))"
    using t1 f1 by simp
  note m = example_merged_alerts
  from m have k: "remove_empty_alerts example_merged = Inr example_merged"
    by (simp add: remove_empty_alerts_keeps)
  have f2: "forecast float_fragment
        (noaa_get example_lib example_noaa_fetched example_hourly_block example_daily_block)
        (cc_get example_lib example_fetched) None ''key'' ''40,-100'' =
       Inr (\<lparr>body = Json example_merged, status = 200\<rparr>, Some example_merged,
            [NOAA_get (Finite 40) (Finite (- 100)), Climacell_get (Finite 40) (Finite (- 100)) ''key'' example_noaa_doc])"
    using p example_noaa_run example_merge_run m k by (simp add: forecast_def)
  note t2 = alerts_in_response
    [where float_of = float_fragment and geolocation = "''40,-100''" and latitude = "Finite 40"
       and longitude = "Finite (- 100)" and lib = example_lib and fetched = example_noaa_fetched
       and hourly_block = example_hourly_block and daily_block = example_daily_block
       and primary = example_noaa_doc and lib' = example_lib and fetched' = example_fetched
       and apikey = "''key''" and merged = example_merged and cached = None]
  from t2 p example_noaa_run example_merge_run m f2
  have n2: "no_empty_alerts example_merged
     \<and> (field example_merged ''alerts'' = None
        \<or> (\<exists>alerts. field example_merged ''alerts'' = Some (PList alerts) \<and> alerts \<noteq> []
              \<and> list_all (unexpired example_lib) alerts))"
    by auto
  with m have n3: "list_all (unexpired example_lib)
        [PDict [(''title'', PStr ''Flood Warning''), (''regions'', PList [PStr ''Adams'']),
                (''severity'', PNone), (''time'', PNone), (''expires'', PInt 7200),
                (''description'', PNone), (''url'', PNone)]]"
    by auto
  show ?thesis
    using f1 e n1 p example_noaa_run example_merge_run m f2 n2 n3 by simp
qed

section \<open>Properties of the route handler\<close>

text \<open>
  C1. For a request whose coordinates pass validation, when the primary adapter
  returns \<^verbatim>\<open>False\<close> and the secondary adapter, given that, returns \<^verbatim>\<open>False\<close> too:
  if the snapshot file exists the response carries exactly the stored document with
  status 200 and the file is left as it is; if it does not exist the response is the
  plain text \<^verbatim>\<open>Failed to obtain any weather data.\<close> with status 502.
\<close>

theorem forecast_fallback_to_snapshot:
  assumes "parse_geolocation float_of geolocation = Inr (latitude, longitude)"
    and "noaa latitude longitude = Inr (PBool False)"
    and "climacell latitude longitude apikey (PBool False) = Inr (PBool False)"
  shows "forecast float_of noaa climacell (Some snapshot) apikey geolocation =
           Inr (\<lparr>body = Json snapshot, status = 200\<rparr>, Some snapshot,
                [NOAA_get latitude longitude,
                 Climacell_get latitude longitude apikey (PBool False)])
       \<and> forecast float_of noaa climacell None apikey geolocation =
           Inr (\<lparr>body = Text ''Failed to obtain any weather data.'', status = 502\<rparr>, None,
                [NOAA_get latitude longitude,
                 Climacell_get latitude longitude apikey (PBool False)])"
  using assms by (simp add: forecast_def)

theorem forecast_fallback_to_snapshot_witness:
  "parse_geolocation float_fragment ''40,-100'' = Inr (Finite 40, Finite (- 100))
   \<and> noaa_get example_lib (example_noaa_fetched\<lparr>points := Some (PBool False)\<rparr>)
        example_hourly_block example_daily_block (Finite 40) (Finite (- 100)) = Inr (PBool False)
   \<and> cc_get example_lib (example_fetched\<lparr>get_current := None\<rparr>) (Finite 40) (Finite (- 100)) ''key'' (PBool False)
        = Inr (PBool False)
   \<and> forecast float_fragment
        (noaa_get example_lib (example_noaa_fetched\<lparr>points := Some (PBool False)\<rparr>)
           example_hourly_block example_daily_block)
        (cc_get example_lib (example_fetched\<lparr>get_current := None\<rparr>))
        (Some example_input) ''key'' ''40,-100'' =
       Inr (\<lparr>body = Json example_input, status = 200\<rparr>, Some example_input,
            [NOAA_get (Finite 40) (Finite (- 100)), Climacell_get (Finite 40) (Finite (- 100)) ''key'' (PBool False)])
   \<and> forecast float_fragment
        (noaa_get example_lib (example_noaa_fetched\<lparr>points := Some (PBool False)\<rparr>)
           example_hourly_block example_daily_block)
        (cc_get example_lib (example_fetched\<lparr>get_current := None\<rparr>))
        None ''key'' ''40,-100'' =
       Inr (\<lparr>body = Text ''Failed to obtain any weather data.'', status = 502\<rparr>, None,
            [NOAA_get (Finite 40) (Finite (- 100)), Climacell_get (Finite 40) (Finite (- 100)) ''key'' (PBool False)])"
proof -
  have p: "parse_geolocation float_fragment ''40,-100'' = Inr (Finite 40, Finite (- 100))"
    by (simp add: parse_geolocation_def float_fragment_def)
  have n: "noaa_get example_lib (example_noaa_fetched\<lparr>points := Some (PBool False)\<rparr>)
        example_hourly_block example_daily_block (Finite 40) (Finite (- 100)) = Inr (PBool False)"
    by (simp add: noaa_get_def)
  have "\<not> cc_ran (example_fetched\<lparr>get_current := None\<rparr>)"
    by (simp add: cc_ran_def result_or_none_def)
  then have c: "cc_get example_lib (example_fetched\<lparr>get_current := None\<rparr>) (Finite 40) (Finite (- 100)) ''key''
      (PBool False) = Inr (PBool False)"
    by (simp add: cc_get_soft_failure soft_failure_def)
  show ?thesis
    using p n c forecast_fallback_to_snapshot
      [where noaa = "noaa_get example_lib (example_noaa_fetched\<lparr>points := Some (PBool False)\<rparr>)
           example_hourly_block example_daily_block"
         and climacell = "cc_get example_lib (example_fetched\<lparr>get_current := None\<rparr>)"
         and apikey = "''key''" and snapshot = example_input, OF p n c]
    by simp
qed

text \<open>
  The comparisons of the check. When the request splits into two parts of which
  \<^verbatim>\<open>float\<close> accepts the first: a latitude that compares below 19 or above 65 gives
  status 400, whatever the second part is, and so does a longitude that compares below
  -162 or above -67; in both cases no adapter has been called (every upstream fetch is
  made inside an adapter) and the snapshot file is untouched. Coordinates for which
  none of the four comparisons holds pass the check, so that any response the handler
  then returns has a status other than 400 and both adapters have been called.
\<close>

lemma forecast_bounding_box:
  assumes "split_on CHR '','' geolocation = [a, b]" and "float_of a = Some latitude"
  shows "(fless latitude (Finite 19) \<or> fless (Finite 65) latitude \<longrightarrow>
            (\<exists>message. forecast float_of noaa climacell cached apikey geolocation =
               Inr (\<lparr>body = Text message, status = 400\<rparr>, cached, [])))
       \<and> (float_of b = Some longitude
            \<and> (fless longitude (Finite (- 162)) \<or> fless (Finite (- 67)) longitude) \<longrightarrow>
            (\<exists>message. forecast float_of noaa climacell cached apikey geolocation =
               Inr (\<lparr>body = Text message, status = 400\<rparr>, cached, [])))
       \<and> (float_of b = Some longitude
            \<and> \<not> fless latitude (Finite 19) \<and> \<not> fless (Finite 65) latitude
            \<and> \<not> fless longitude (Finite (- 162)) \<and> \<not> fless (Finite (- 67)) longitude \<longrightarrow>
            parse_geolocation float_of geolocation = Inr (latitude, longitude)
            \<and> (\<forall>r c calls. forecast float_of noaa climacell cached apikey geolocation = Inr (r, c, calls)
                 \<longrightarrow> status r \<noteq> 400 \<and> (\<exists>inp. calls = [NOAA_get latitude longitude,
                        Climacell_get latitude longitude apikey inp])))"
proof (intro conjI impI)
  assume "fless latitude (Finite 19) \<or> fless (Finite 65) latitude"
  with assms have "\<exists>message. parse_geolocation float_of geolocation = Inl message"
    by (cases "float_of b") (auto simp add: parse_geolocation_def)
  then show "\<exists>message. forecast float_of noaa climacell cached apikey geolocation =
               Inr (\<lparr>body = Text message, status = 400\<rparr>, cached, [])"
    by (auto simp add: forecast_def)
next
  assume "float_of b = Some longitude
      \<and> (fless longitude (Finite (- 162)) \<or> fless (Finite (- 67)) longitude)"
  with assms have "\<exists>message. parse_geolocation float_of geolocation = Inl message"
    by (auto simp add: parse_geolocation_def)
  then show "\<exists>message. forecast float_of noaa climacell cached apikey geolocation =
               Inr (\<lparr>body = Text message, status = 400\<rparr>, cached, [])"
    by (auto simp add: forecast_def)
next
  assume inside: "float_of b = Some longitude
      \<and> \<not> fless latitude (Finite 19) \<and> \<not> fless (Finite 65) latitude
      \<and> \<not> fless longitude (Finite (- 162)) \<and> \<not> fless (Finite (- 67)) longitude"
  with assms show p: "parse_geolocation float_of geolocation = Inr (latitude, longitude)"
    by (auto simp add: parse_geolocation_def)
  show "\<forall>r c calls. forecast float_of noaa climacell cached apikey geolocation = Inr (r, c, calls)
      \<longrightarrow> status r \<noteq> 400 \<and> (\<exists>inp. calls = [NOAA_get latitude longitude,
                        Climacell_get latitude longitude apikey inp])"
    using p by (auto simp add: forecast_def Let_def split: sum.splits if_splits option.splits)
qed

lemma forecast_bounding_box_instance:
  "forecast float_fragment (\<lambda>lat lon. Inr (PBool False)) (\<lambda>lat lon key inp. Inr inp) None ''key''
       ''18.99,-100'' =
     Inr (\<lparr>body = Text ''URL must include a valid latitude,longitude for a location in the USA'',
           status = 400\<rparr>, None, [])
   \<and> forecast float_fragment (\<lambda>lat lon. Inr (PBool False)) (\<lambda>lat lon key inp. Inr inp) None ''key''
       ''40,-162.01'' =
     Inr (\<lparr>body = Text ''URL must include a valid latitude,longitude for a location in the USA'',
           status = 400\<rparr>, None, [])
   \<and> forecast float_fragment (\<lambda>lat lon. Inr (PBool False)) (\<lambda>lat lon key inp. Inr inp) None ''key''
       ''inf,-100'' =
     Inr (\<lparr>body = Text ''URL must include a valid latitude,longitude for a location in the USA'',
           status = 400\<rparr>, None, [])
   \<and> parse_geolocation float_fragment ''19,-162'' = Inr (Finite 19, Finite (- 162))
   \<and> forecast float_fragment (\<lambda>lat lon. Inr (PBool False)) (\<lambda>lat lon key inp. Inr inp) None ''key''
       ''19,-162'' =
     Inr (\<lparr>body = Text ''Failed to obtain any weather data.'', status = 502\<rparr>, None,
          [NOAA_get (Finite 19) (Finite (- 162)),
           Climacell_get (Finite 19) (Finite (- 162)) ''key'' (PBool False)])"
  by (simp add: forecast_def parse_geolocation_def float_fragment_def)

text \<open>
  C2. A request whose latitude is outside [19, 65] is to get status 400 before any
  upstream fetch is made. \<^verbatim>\<open>float\<close> accepts \<^verbatim>\<open>nan\<close>, which is not a number of the
  interval, and every comparison with it is false: for the request \<^verbatim>\<open>nan,-100\<close>
  neither \<^verbatim>\<open>latitude > 65\<close> nor \<^verbatim>\<open>latitude < 19\<close> holds at line 70, and the check
  passes. Whatever the adapters do and whatever the snapshot file holds, the handler
  does not answer with status 400; with adapters that return a document, both are
  called with the latitude \<^verbatim>\<open>nan\<close> and the response is that document with status 200.
\<close>

theorem forecast_nan_latitude:
  "float_fragment ''nan'' = Some NaN
   \<and> \<not> fless (Finite 65) NaN \<and> \<not> fless NaN (Finite 19)
   \<and> parse_geolocation float_fragment ''nan,-100'' = Inr (NaN, Finite (- 100))
   \<and> forecast float_fragment noaa climacell cached apikey ''nan,-100'' \<noteq>
        Inr (\<lparr>body = b, status = 400\<rparr>, file, calls)
   \<and> forecast float_fragment
        (\<lambda>lat lon. Inr (PDict [(''latitude'', PFloat lat), (''longitude'', PFloat lon)]))
        (\<lambda>lat lon key inp. Inr inp) None ''key'' ''nan,-100'' =
      Inr (\<lparr>body = Json (PDict [(''latitude'', PFloat NaN), (''longitude'', PFloat (Finite (- 100)))]),
            status = 200\<rparr>,
           Some (PDict [(''latitude'', PFloat NaN), (''longitude'', PFloat (Finite (- 100)))]),
           [NOAA_get NaN (Finite (- 100)),
            Climacell_get NaN (Finite (- 100)) ''key''
              (PDict [(''latitude'', PFloat NaN), (''longitude'', PFloat (Finite (- 100)))])])"
proof -
  have p: "parse_geolocation float_fragment ''nan,-100'' = Inr (NaN, Finite (- 100))"
    by (simp add: parse_geolocation_def float_fragment_def)
  have g: "forecast float_fragment noaa climacell cached apikey ''nan,-100'' \<noteq>
        Inr (\<lparr>body = b, status = 400\<rparr>, file, calls)"
    using p
    by (auto simp add: forecast_def Let_def split: sum.splits if_splits option.splits)
  have c: "forecast float_fragment
        (\<lambda>lat lon. Inr (PDict [(''latitude'', PFloat lat), (''longitude'', PFloat lon)]))
        (\<lambda>lat lon key inp. Inr inp) None ''key'' ''nan,-100'' =
      Inr (\<lparr>body = Json (PDict [(''latitude'', PFloat NaN), (''longitude'', PFloat (Finite (- 100)))]),
            status = 200\<rparr>,
           Some (PDict [(''latitude'', PFloat NaN), (''longitude'', PFloat (Finite (- 100)))]),
           [NOAA_get NaN (Finite (- 100)),
            Climacell_get NaN (Finite (- 100)) ''key''
              (PDict [(''latitude'', PFloat NaN), (''longitude'', PFloat (Finite (- 100)))])])"
    using p by (simp add: forecast_def remove_empty_alerts_def)
  show ?thesis using p g c by (simp add: float_fragment_def)
qed

end
